theory Spec2Isabelle
  imports Main "HOL-Library.Char_ord" "HOL-Library.List_Lexorder" "HOL-Library.Product_Lexorder"
begin

section \<open>Values\<close>

text \<open>
  An ObjectId is represented by its canonical 24-digit hexadecimal string, the form
  \<^verbatim>\<open>toString()\<close> prints and the form the JWT payload carries.
\<close>

type_synonym oid = string

text \<open>
  JavaScript numbers, as far as this program computes them: integers, and the three
  non-finite values that \<^verbatim>\<open>parseInt\<close> and a division can produce.  The integer
  arithmetic is exact for magnitudes below \<open>2^53\<close>.
\<close>

datatype jsnum = Fin int | NaN | PosInf | NegInf

text \<open>
  JSON values.  \<open>JDate t\<close> stands for the ISO-8601 string of the instant \<open>t\<close>
  (milliseconds since the epoch), the form in which a Date is serialised.
\<close>

datatype json =
    JNull
  | JBool bool
  | JNum int
  | JStr string
  | JDate int
  | JArr "json list"
  | JObj "(string \<times> json) list"

text \<open>JavaScript truthiness of a JSON value (\<^verbatim>\<open>if (cached)\<close>, \<^verbatim>\<open>x || null\<close>).\<close>

fun truthy :: "json \<Rightarrow> bool" where
  "truthy JNull = False"
| "truthy (JBool b) = b"
| "truthy (JNum n) = (n \<noteq> 0)"
| "truthy (JStr s) = (s \<noteq> [])"
| "truthy (JDate t) = True"
| "truthy (JArr xs) = True"
| "truthy (JObj kvs) = True"

text \<open>\<^verbatim>\<open>JSON.stringify\<close> writes a non-finite number as \<^verbatim>\<open>null\<close>.\<close>

fun json_num :: "jsnum \<Rightarrow> json" where
  "json_num (Fin n) = JNum n"
| "json_num NaN = JNull"
| "json_num PosInf = JNull"
| "json_num NegInf = JNull"

text \<open>
  A value of the parsed query string (\<^verbatim>\<open>req.query\<close>): a string or, for a parameter
  that is repeated or written with brackets, an array or an object of such values.
\<close>

datatype qvalue = QStr string | QArr "qvalue list" | QObj "(string \<times> qvalue) list"

fun join_commas :: "string list \<Rightarrow> string" where
  "join_commas [] = []"
| "join_commas [s] = s"
| "join_commas (s # t # ts) = s @ '','' @ join_commas (t # ts)"

text \<open>
  The conversion to a string that \<^verbatim>\<open>parseInt\<close> and \<^verbatim>\<open>new RegExp\<close> apply to their
  argument.  An array prints its elements separated by commas.  An object prints as
  \<^verbatim>\<open>[object Object]\<close>; when it has a property \<^verbatim>\<open>toString\<close> of its own, which in a parsed
  query string is never a function, the conversion throws a TypeError (\<open>None\<close>).
\<close>

fun js_String :: "qvalue \<Rightarrow> string option" where
  "js_String (QStr s) = Some s"
| "js_String (QArr vs) = map_option join_commas (those (map js_String vs))"
| "js_String (QObj kvs) =
     (if ''toString'' \<in> set (map fst kvs) then None else Some ''[object Object]'')"

text \<open>A property of a request body or of a GraphQL input object: left out, \<^verbatim>\<open>null\<close>, or given.\<close>

datatype 'a field = Absent | Null | Value 'a

text \<open>Errors a handler can catch: a plain \<^verbatim>\<open>Error\<close>, Mongoose's validation error with the
  messages of its \<^verbatim>\<open>errors\<close> object, and an error of the document store.  The fourth
  is not thrown in a handler: it is the error with which graphql-js refuses a document
  when it validates it, before any resolver runs.\<close>

datatype js_error =
    Error string
  | ValidationError "string list"
  | MongoServerError string
  | GraphQLError string

fun error_message :: "js_error \<Rightarrow> string" where
  "error_message (Error m) = m"
| "error_message (ValidationError ms) = ''Itinerary validation failed''"
| "error_message (MongoServerError m) = m"
| "error_message (GraphQLError m) = m"

text \<open>The state of a promise that is awaited: settled, or pending for ever.\<close>

datatype 'a promise = Fulfilled 'a | Rejected js_error | Pending

section \<open>The data model (src/models/Itinerary.js)\<close>

record activity =
  time :: string
  description :: string
  location :: string

record user =
  user_id :: oid
  email :: string
  name :: string

text \<open>A stored itinerary: a document that passed the schema's validation.  The path
  \<^verbatim>\<open>activities\<close> is not required, and a document whose \<^verbatim>\<open>activities\<close> was set to
  \<^verbatim>\<open>null\<close> is stored with \<^verbatim>\<open>null\<close> there (\<open>None\<close>).\<close>

record itinerary =
  doc_id :: oid
  userId :: oid
  title :: string
  destination :: string
  startDate :: int
  endDate :: int
  activities :: "activity list option"
  shareableId :: "string option"
  createdAt :: int
  updatedAt :: int

section \<open>Library functions the program calls\<close>

text \<open>
  The functions of Node, Mongoose and jsonwebtoken that the handlers call on request
  data are parameters of the model, with the two environment variables that the handlers read:
  \<^item> \<open>NODE_ENV\<close>, \<open>BASE_URL\<close>: \<^verbatim>\<open>process.env.NODE_ENV\<close> and
    \<^verbatim>\<open>process.env.BASE_URL\<close>;
  \<^item> \<open>jwt_verify\<close>: \<^verbatim>\<open>jwt.verify(token, secret).userId\<close>, \<open>None\<close> when it throws;
  \<^item> \<open>objectId\<close>: the ObjectId a string is cast to, \<open>None\<close> when
    \<^verbatim>\<open>mongoose.Types.ObjectId.isValid\<close> is false;
  \<^item> \<open>parseInt\<close>: JavaScript's \<^verbatim>\<open>parseInt\<close> on a string;
  \<^item> \<open>regExp\<close>: \<^verbatim>\<open>new RegExp(s, 'i')\<close> as the predicate it tests, \<open>None\<close> when the
    constructor throws a SyntaxError;
  \<^item> \<open>castDate\<close>: Mongoose's cast of a string to a Date, \<open>None\<close> for a CastError;
  \<^item> \<open>newDate\<close>: \<^verbatim>\<open>new Date(s)\<close>, \<open>None\<close> for an Invalid Date;
  \<^item> \<open>sortKey\<close>: whether the document store accepts the string as the field path of a
    sort specification.
\<close>

record lib =
  NODE_ENV :: string
  jwt_verify :: "string \<Rightarrow> oid option"
  objectId :: "string \<Rightarrow> oid option"
  parseInt :: "string \<Rightarrow> jsnum"
  regExp :: "string \<Rightarrow> (string \<Rightarrow> bool) option"
  castDate :: "string \<Rightarrow> int option"
  newDate :: "string \<Rightarrow> int option"
  sortKey :: "string \<Rightarrow> bool"
  BASE_URL :: "string option"

section \<open>The state\<close>

text \<open>
  The Redis client, with the server as the client sees it: the stored strings (each the
  serialisation of a JSON value, kept as that value, with the expiry it was written with),
  the state of the connection, and the commands that wait in the client's queue.
  \<^item> \<open>Ready\<close>: a command is executed and its promise fulfilled.
  \<^item> \<open>Rejecting e\<close>: every command is rejected with the error \<open>e\<close> (a closed client, a
    connection that is lost while the command is on its way, a server that refuses).
  \<^item> \<open>Offline\<close>: the client is connecting or reconnecting to a server it does not reach.
    \<^verbatim>\<open>initRedis\<close> assigns \<^verbatim>\<open>redisClient\<close> before it awaits \<^verbatim>\<open>connect()\<close>, and it
    creates the client with the default options: the client retries for ever,
    \<^verbatim>\<open>connect()\<close> neither resolves nor rejects, so the \<^verbatim>\<open>catch\<close> that would reset
    \<^verbatim>\<open>redisClient\<close> to \<^verbatim>\<open>null\<close> is not reached; and a command issued meanwhile is put
    in the offline queue, its promise pending as long as the server stays out of reach.
\<close>

datatype connection = Ready | Rejecting js_error | Offline

datatype command = Get string | SetEx string nat json | Del string

record redis =
  rdata :: "string \<rightharpoonup> (nat \<times> json)"
  connection :: connection
  offlineQueue :: "command list"

datatype log_entry = LogCached json | LogError string string

text \<open>
  The two collections of the document store, the module-level \<^verbatim>\<open>redisClient\<close>
  (\<open>None\<close> for \<^verbatim>\<open>null\<close>) and \<^verbatim>\<open>memoryCache\<close>, the expiry timers that
  \<^verbatim>\<open>setCache\<close> has started, and the console.  Time does not pass in this model: a
  sequence of requests is one within the expiry of the entries it writes.
\<close>

record state =
  users :: "user list"
  itineraries :: "itinerary list"
  redisClient :: "redis option"
  memoryCache :: "string \<rightharpoonup> json"
  timers :: "(string \<times> nat) list"
  console :: "log_entry list"

section \<open>The cache (utils/cache.js)\<close>

text \<open>A command of the client: the promise it returns and the client afterwards.\<close>

definition redis_command :: "redis \<Rightarrow> command \<Rightarrow> 'a \<Rightarrow> redis \<Rightarrow> 'a promise \<times> redis" where
  "redis_command r c v r' =
     (case connection r of
        Ready \<Rightarrow> (Fulfilled v, r')
      | Rejecting e \<Rightarrow> (Rejected e, r)
      | Offline \<Rightarrow> (Pending, r\<lparr>offlineQueue := offlineQueue r @ [c]\<rparr>))"

definition redis_get :: "redis \<Rightarrow> string \<Rightarrow> json promise \<times> redis" where
  "redis_get r key =
     redis_command r (Get key) (case rdata r key of None \<Rightarrow> JNull | Some (ttl, v) \<Rightarrow> v) r"

definition redis_setEx :: "redis \<Rightarrow> string \<Rightarrow> nat \<Rightarrow> json \<Rightarrow> unit promise \<times> redis" where
  "redis_setEx r key seconds v =
     redis_command r (SetEx key seconds v) () (r\<lparr>rdata := (rdata r)(key \<mapsto> (seconds, v))\<rparr>)"

definition redis_del :: "redis \<Rightarrow> string \<Rightarrow> unit promise \<times> redis" where
  "redis_del r key =
     redis_command r (Del key) () (r\<lparr>rdata := (rdata r)(key := None)\<rparr>)"

text \<open>
  The body of each \<^verbatim>\<open>try\<close> block, then the function with its \<^verbatim>\<open>catch\<close>.  The result
  of a cache function is the state of the promise it returns, as the caller that awaits it
  finds it: a caller that awaits a pending promise does not go on.
\<close>

definition getCache_try :: "state \<Rightarrow> string \<Rightarrow> json promise \<times> state" where
  "getCache_try S key =
     (case redisClient S of
        Some r \<Rightarrow> (case redis_get r key of (p, r') \<Rightarrow> (p, S\<lparr>redisClient := Some r'\<rparr>))
      | None \<Rightarrow>
         (Fulfilled (case memoryCache S key of
                       None \<Rightarrow> JNull
                     | Some v \<Rightarrow> if truthy v then v else JNull), S))"

definition getCache :: "state \<Rightarrow> string \<Rightarrow> json promise \<times> state" where
  "getCache S key =
     (case getCache_try S key of
        (Rejected e, S') \<Rightarrow>
          (Fulfilled JNull,
           S'\<lparr>console := console S' @ [LogError ''Cache get error:'' (error_message e)]\<rparr>)
      | (p, S') \<Rightarrow> (p, S'))"

definition setCache_try :: "state \<Rightarrow> string \<Rightarrow> json \<Rightarrow> nat \<Rightarrow> unit promise \<times> state" where
  "setCache_try S key v expirySeconds =
     (case redisClient S of
        Some r \<Rightarrow>
          (case redis_setEx r key expirySeconds v of (p, r') \<Rightarrow> (p, S\<lparr>redisClient := Some r'\<rparr>))
      | None \<Rightarrow>
          (Fulfilled (),
           S\<lparr>memoryCache := (memoryCache S)(key \<mapsto> v),
             timers := timers S @ [(key, expirySeconds * 1000)]\<rparr>))"

definition setCache :: "state \<Rightarrow> string \<Rightarrow> json \<Rightarrow> nat \<Rightarrow> unit promise \<times> state" where
  "setCache S key v expirySeconds =
     (case setCache_try S key v expirySeconds of
        (Rejected e, S') \<Rightarrow>
          (Fulfilled (),
           S'\<lparr>console := console S' @ [LogError ''Cache set error:'' (error_message e)]\<rparr>)
      | (p, S') \<Rightarrow> (p, S'))"

definition deleteCache_try :: "state \<Rightarrow> string \<Rightarrow> unit promise \<times> state" where
  "deleteCache_try S key =
     (case redisClient S of
        Some r \<Rightarrow> (case redis_del r key of (p, r') \<Rightarrow> (p, S\<lparr>redisClient := Some r'\<rparr>))
      | None \<Rightarrow> (Fulfilled (), S\<lparr>memoryCache := (memoryCache S)(key := None)\<rparr>))"

definition deleteCache :: "state \<Rightarrow> string \<Rightarrow> unit promise \<times> state" where
  "deleteCache S key =
     (case deleteCache_try S key of
        (Rejected e, S') \<Rightarrow>
          (Fulfilled (),
           S'\<lparr>console := console S' @ [LogError ''Cache delete error:'' (error_message e)]\<rparr>)
      | (p, S') \<Rightarrow> (p, S'))"

text \<open>What a reader of the cache finds under a key, whichever backend holds it.\<close>

definition cached_value :: "state \<Rightarrow> string \<Rightarrow> json" where
  "cached_value S key =
     (case redisClient S of
        Some r \<Rightarrow> (case rdata r key of None \<Rightarrow> JNull | Some (ttl, v) \<Rightarrow> v)
      | None \<Rightarrow>
         (case memoryCache S key of
            None \<Rightarrow> JNull
          | Some v \<Rightarrow> if truthy v then v else JNull))"

text \<open>The connection of the cache backend; the in-memory map is always ready.\<close>

definition backend :: "state \<Rightarrow> connection" where
  "backend S = (case redisClient S of Some r \<Rightarrow> connection r | None \<Rightarrow> Ready)"

section \<open>Documents in memory and the schema's validation\<close>

text \<open>
  A path of a Mongoose document before it is saved: not set (\<^verbatim>\<open>undefined\<close> or
  \<^verbatim>\<open>null\<close>), set to a value that failed its cast, or holding a cast value.
\<close>

datatype 'a path = Undefined | Invalid | Valid 'a

record doc =
  d_id :: oid
  d_userId :: oid
  d_title :: "string option"
  d_destination :: "string option"
  d_startDate :: "int path"
  d_endDate :: "int path"
  d_activities :: "activity list option"
  d_shareableId :: "string option"
  d_createdAt :: int
  d_updatedAt :: int

text \<open>
  \<^verbatim>\<open>trim: true\<close>: the setter calls \<^verbatim>\<open>String.prototype.trim\<close>, which removes leading
  and trailing white space and line terminators.  A character of a \<^typ>\<open>string\<close> is a code
  unit below 256; of these, JavaScript counts as white space the tab, the line feed, the
  vertical tab, the form feed, the carriage return, the space and the no-break space
  U+00A0.
\<close>

definition is_space :: "char \<Rightarrow> bool" where
  "is_space c =
     (c \<in> set [CHR 0x09, CHR 0x0A, CHR 0x0B, CHR 0x0C, CHR 0x0D, CHR 0x20, CHR 0xA0])"

definition trim :: "string \<Rightarrow> string" where
  "trim s = rev (dropWhile is_space (rev (dropWhile is_space s)))"

text \<open>Setting a String path from a body property, as the constructor does.\<close>

fun set_string :: "string field \<Rightarrow> string option" where
  "set_string Absent = None"
| "set_string Null = None"
| "set_string (Value s) = Some (trim s)"

text \<open>Setting a Date path from a string of a JSON body: Mongoose casts the empty string to
  \<^verbatim>\<open>null\<close>.\<close>

fun set_date :: "lib \<Rightarrow> string field \<Rightarrow> int path" where
  "set_date E Absent = Undefined"
| "set_date E Null = Undefined"
| "set_date E (Value s) =
     (if s = [] then Undefined
      else case castDate E s of None \<Rightarrow> Invalid | Some t \<Rightarrow> Valid t)"

text \<open>Setting a Date path to \<^verbatim>\<open>new Date(s)\<close>: an Invalid Date fails the cast.\<close>

definition set_new_Date :: "lib \<Rightarrow> string \<Rightarrow> int path" where
  "set_new_Date E s = (case newDate E s of None \<Rightarrow> Invalid | Some t \<Rightarrow> Valid t)"

text \<open>\<^verbatim>\<open>activities || []\<close>.\<close>

fun or_empty :: "'a list field \<Rightarrow> 'a list" where
  "or_empty Absent = []"
| "or_empty Null = []"
| "or_empty (Value xs) = xs"

text \<open>The activity schema: three required strings (a required string is not empty).\<close>

definition validate_activity :: "activity \<Rightarrow> string list" where
  "validate_activity a =
     (if time a = [] then [''Path `time` is required.''] else []) @
     (if description a = [] then [''Path `description` is required.''] else []) @
     (if location a = [] then [''Path `location` is required.''] else [])"

text \<open>The validator of \<^verbatim>\<open>endDate\<close>: \<^verbatim>\<open>value >= this.startDate\<close>; a comparison with
  \<^verbatim>\<open>undefined\<close> is false.\<close>

fun endDate_validator :: "int \<Rightarrow> int path \<Rightarrow> bool" where
  "endDate_validator v (Valid s) = (v \<ge> s)"
| "endDate_validator v Undefined = False"
| "endDate_validator v Invalid = False"

fun required_string :: "string \<Rightarrow> string option \<Rightarrow> string list" where
  "required_string msg None = [msg]"
| "required_string msg (Some s) = (if s = [] then [msg] else [])"

text \<open>
  The messages of the validation that \<^verbatim>\<open>save()\<close> runs, in the order of the schema.
  Mongoose validates every path of the document on \<^verbatim>\<open>save()\<close>, a loaded path as well as
  a modified one (only \<^verbatim>\<open>validateModifiedOnly\<close>, which the program does not set, would
  restrict it), so the validator of \<^verbatim>\<open>endDate\<close> also runs when only
  \<^verbatim>\<open>startDate\<close> was assigned.
\<close>

definition validate :: "doc \<Rightarrow> string list" where
  "validate d =
     required_string ''Title is required'' (d_title d) @
     required_string ''Destination is required'' (d_destination d) @
     (case d_startDate d of
        Undefined \<Rightarrow> [''Start date is required'']
      | Invalid \<Rightarrow> [''Cast to date failed for path startDate'']
      | Valid s \<Rightarrow> []) @
     (case d_endDate d of
        Undefined \<Rightarrow> [''End date is required'']
      | Invalid \<Rightarrow> [''Cast to date failed for path endDate'']
      | Valid e \<Rightarrow>
          if endDate_validator e (d_startDate d) then []
          else [''End date must be after start date'']) @
     (case d_activities d of
        None \<Rightarrow> []
      | Some xs \<Rightarrow> concat (map validate_activity xs))"

text \<open>The document that is written when validation passes.\<close>

definition validated :: "doc \<Rightarrow> js_error + itinerary" where
  "validated d =
     (if validate d \<noteq> [] then Inl (ValidationError (validate d))
      else case (d_title d, d_destination d, d_startDate d, d_endDate d) of
        (Some t, Some de, Valid s, Valid e) \<Rightarrow>
          Inr \<lparr>doc_id = d_id d, userId = d_userId d, title = t, destination = de,
               startDate = s, endDate = e, activities = d_activities d,
               shareableId = d_shareableId d, createdAt = d_createdAt d,
               updatedAt = d_updatedAt d\<rparr>
      | _ \<Rightarrow> Inl (ValidationError (validate d)))"

text \<open>Hydrating a stored document (\<^verbatim>\<open>findById\<close>, \<^verbatim>\<open>findOne\<close>).\<close>

definition hydrate :: "itinerary \<Rightarrow> doc" where
  "hydrate i =
     \<lparr>d_id = doc_id i, d_userId = userId i, d_title = Some (title i),
      d_destination = Some (destination i), d_startDate = Valid (startDate i),
      d_endDate = Valid (endDate i), d_activities = activities i,
      d_shareableId = shareableId i, d_createdAt = createdAt i, d_updatedAt = updatedAt i\<rparr>"

section \<open>The document store\<close>

text \<open>
  A collection is the list of its documents in insertion order.  The store keeps
  \<^verbatim>\<open>_id\<close> unique, and \<^verbatim>\<open>shareableId\<close> unique among the documents that have one
  (the schema's unique sparse index).
\<close>

definition findById :: "itinerary list \<Rightarrow> oid \<Rightarrow> itinerary option" where
  "findById docs i = find (\<lambda>d. doc_id d = i) docs"

definition findOne_shareableId :: "itinerary list \<Rightarrow> string \<Rightarrow> itinerary option" where
  "findOne_shareableId docs s = find (\<lambda>d. shareableId d = Some s) docs"

definition findByIdAndDelete :: "itinerary list \<Rightarrow> oid \<Rightarrow> itinerary list" where
  "findByIdAndDelete docs i = filter (\<lambda>d. doc_id d \<noteq> i) docs"

definition User_findById :: "user list \<Rightarrow> oid \<Rightarrow> user option" where
  "User_findById us i = find (\<lambda>u. user_id u = i) us"

definition shareableId_taken :: "itinerary list \<Rightarrow> itinerary \<Rightarrow> bool" where
  "shareableId_taken docs d =
     (shareableId d \<noteq> None \<and>
      list_ex (\<lambda>d'. doc_id d' \<noteq> doc_id d \<and> shareableId d' = shareableId d) docs)"

text \<open>\<^verbatim>\<open>save()\<close> of a new document at time \<open>now\<close>: validate, stamp, insert.\<close>

definition save_new :: "int \<Rightarrow> itinerary list \<Rightarrow> doc \<Rightarrow> js_error + (itinerary \<times> itinerary list)" where
  "save_new now docs d =
     (case validated (d\<lparr>d_createdAt := now, d_updatedAt := now\<rparr>) of
        Inl e \<Rightarrow> Inl e
      | Inr i \<Rightarrow>
          if list_ex (\<lambda>d'. doc_id d' = doc_id i) docs \<or> shareableId_taken docs i
          then Inl (MongoServerError ''E11000 duplicate key error'')
          else Inr (i, docs @ [i]))"

text \<open>
  \<^verbatim>\<open>save()\<close> of a loaded document: validate; when no path changed nothing is written;
  otherwise \<^verbatim>\<open>updatedAt\<close> is stamped and the stored document replaced.
\<close>

definition save_loaded :: "int \<Rightarrow> itinerary list \<Rightarrow> doc \<Rightarrow> js_error + (itinerary \<times> itinerary list)" where
  "save_loaded now docs d =
     (case validated d of
        Inl e \<Rightarrow> Inl e
      | Inr i \<Rightarrow>
          if findById docs (doc_id i) = Some i then Inr (i, docs)
          else if shareableId_taken docs i
          then Inl (MongoServerError ''E11000 duplicate key error'')
          else let i' = i\<lparr>updatedAt := now\<rparr>
               in Inr (i', map (\<lambda>d'. if doc_id d' = doc_id i' then i' else d') docs))"

section \<open>The store's query primitives\<close>

text \<open>
  \<^verbatim>\<open>find(query).sort(sortObj).skip(skip).limit(limit)\<close>.  The comparison key of a field
  follows the store's order of values (a missing value before a string); a field the
  documents do not have, or whose values are arrays, orders nothing.  A sort key that is
  no field path, a skip that is not a non-negative integer and a limit that is not an
  integer are rejected by the store; a limit of 0 is no limit, and a negative limit is its
  absolute value.
\<close>

definition sort_value :: "string \<Rightarrow> itinerary \<Rightarrow> int \<times> string" where
  "sort_value f d =
     (if f = ''_id'' then (0, doc_id d)
      else if f = ''userId'' then (0, userId d)
      else if f = ''title'' then (0, title d)
      else if f = ''destination'' then (0, destination d)
      else if f = ''startDate'' then (startDate d, [])
      else if f = ''endDate'' then (endDate d, [])
      else if f = ''shareableId'' then (case shareableId d of None \<Rightarrow> (-1, []) | Some s \<Rightarrow> (0, s))
      else if f = ''createdAt'' then (createdAt d, [])
      else if f = ''updatedAt'' then (updatedAt d, [])
      else (0, []))"

definition db_sort :: "string \<Rightarrow> int \<Rightarrow> itinerary list \<Rightarrow> itinerary list" where
  "db_sort sortField sortOrder docs =
     (if sortOrder < 0 then rev (sort_key (sort_value sortField) docs)
      else sort_key (sort_value sortField) docs)"

definition db_find ::
  "lib \<Rightarrow> (itinerary \<Rightarrow> bool) \<Rightarrow> string \<Rightarrow> int \<Rightarrow> jsnum \<Rightarrow> jsnum \<Rightarrow> itinerary list \<Rightarrow>
     js_error + itinerary list" where
  "db_find E query sortField sortOrder skip limit docs =
     (if \<not> sortKey E sortField then Inl (MongoServerError ''Bad sort specification'')
      else case skip of
        Fin s \<Rightarrow>
          if s < 0 then Inl (MongoServerError ''Skip value must be non-negative'')
          else (case limit of
                  Fin l \<Rightarrow>
                    let sorted = db_sort sortField sortOrder (filter query docs)
                    in Inr (if l = 0 then drop (nat s) sorted
                            else take (nat \<bar>l\<bar>) (drop (nat s) sorted))
                | _ \<Rightarrow> Inl (MongoServerError ''limit must be an integer''))
      | _ \<Rightarrow> Inl (MongoServerError ''skip must be an integer''))"

definition countDocuments :: "(itinerary \<Rightarrow> bool) \<Rightarrow> itinerary list \<Rightarrow> nat" where
  "countDocuments query docs = length (filter query docs)"

section \<open>JavaScript arithmetic of the pagination\<close>

fun js_sub :: "jsnum \<Rightarrow> int \<Rightarrow> jsnum" where
  "js_sub (Fin a) b = Fin (a - b)"
| "js_sub NaN b = NaN"
| "js_sub PosInf b = PosInf"
| "js_sub NegInf b = NegInf"

fun js_mul :: "jsnum \<Rightarrow> jsnum \<Rightarrow> jsnum" where
  "js_mul (Fin a) (Fin b) = Fin (a * b)"
| "js_mul NaN y = NaN"
| "js_mul x NaN = NaN"
| "js_mul PosInf (Fin b) = (if b = 0 then NaN else if b > 0 then PosInf else NegInf)"
| "js_mul NegInf (Fin b) = (if b = 0 then NaN else if b > 0 then NegInf else PosInf)"
| "js_mul (Fin a) PosInf = (if a = 0 then NaN else if a > 0 then PosInf else NegInf)"
| "js_mul (Fin a) NegInf = (if a = 0 then NaN else if a > 0 then NegInf else PosInf)"
| "js_mul PosInf PosInf = PosInf"
| "js_mul PosInf NegInf = NegInf"
| "js_mul NegInf PosInf = NegInf"
| "js_mul NegInf NegInf = PosInf"

text \<open>\<^verbatim>\<open>Math.ceil(total / limit)\<close> for a count \<open>n\<close>: a division by zero is
  \<^verbatim>\<open>Infinity\<close>, or \<^verbatim>\<open>NaN\<close> for \<^verbatim>\<open>0 / 0\<close>.\<close>

fun ceil_div :: "nat \<Rightarrow> jsnum \<Rightarrow> jsnum" where
  "ceil_div n (Fin l) =
     (if l = 0 then (if n = 0 then NaN else PosInf)
      else Fin (- ((- int n) div l)))"
| "ceil_div n NaN = NaN"
| "ceil_div n PosInf = Fin 0"
| "ceil_div n NegInf = Fin 0"

section \<open>Requests and responses\<close>

datatype http_method = GET | POST | PUT | DELETE

record response =
  status :: nat
  body :: json

text \<open>
  What a handler does to its request: it sends one response, or none at all when it awaits
  a promise that stays pending (\<open>None\<close>: the request is never answered).
\<close>

type_synonym answer = "response option"

text \<open>
  An Express request, with the properties the handlers read: the header, the route
  parameters, the query string and the JSON body.  \<open>req_userId\<close> is the property
  \<^verbatim>\<open>req.userId\<close> that \<^verbatim>\<open>authenticate\<close> sets.  The last three fields are what the
  runtime supplies while the request is handled: the clock, the \<^verbatim>\<open>_id\<close> of a document
  constructed with \<^verbatim>\<open>new Itinerary\<close>, and the value of \<^verbatim>\<open>uuidv4()\<close>.
\<close>

record request =
  http_method :: http_method
  originalUrl :: string
  protocol :: string
  host :: string
  authorization :: "string option"
  req_userId :: oid
  param_id :: string
  param_shareableId :: string
  q_destination :: "qvalue option"
  q_page :: "qvalue option"
  q_limit :: "qvalue option"
  q_sort :: "qvalue option"
  q_nocache :: "qvalue option"
  body_title :: "string field"
  body_destination :: "string field"
  body_startDate :: "string field"
  body_endDate :: "string field"
  body_activities :: "activity list field"
  clock :: int
  new_ObjectId :: oid
  uuidv4 :: string

definition json_message :: "string \<Rightarrow> json" where
  "json_message m = JObj [(''message'', JStr m)]"

text \<open>\<^verbatim>\<open>res.status(code).json(b)\<close>.\<close>

definition reply :: "nat \<Rightarrow> json \<Rightarrow> answer" where
  "reply code b = Some \<lparr>status = code, body = b\<rparr>"

definition server_error :: "js_error \<Rightarrow> answer" where
  "server_error e =
     reply 500 (JObj [(''message'', JStr ''Server error''), (''error'', JStr (error_message e))])"

text \<open>\<^verbatim>\<open>Object.values(error.errors)[0].message\<close>.\<close>

fun first_message :: "string list \<Rightarrow> string" where
  "first_message [] = []"
| "first_message (m # ms) = m"

definition activity_json :: "activity \<Rightarrow> json" where
  "activity_json a =
     JObj [(''time'', JStr (time a)), (''description'', JStr (description a)),
           (''location'', JStr (location a))]"

fun activities_json :: "activity list option \<Rightarrow> json" where
  "activities_json None = JNull"
| "activities_json (Some xs) = JArr (map activity_json xs)"

text \<open>The properties of a stored document as \<^verbatim>\<open>toObject()\<close> and \<^verbatim>\<open>toJSON()\<close> list them
  (the version key left out).\<close>

definition toObject :: "itinerary \<Rightarrow> (string \<times> json) list" where
  "toObject i =
     [(''_id'', JStr (doc_id i)), (''userId'', JStr (userId i)), (''title'', JStr (title i)),
      (''destination'', JStr (destination i)), (''startDate'', JDate (startDate i)),
      (''endDate'', JDate (endDate i)), (''activities'', activities_json (activities i))] @
     (case shareableId i of None \<Rightarrow> [] | Some s \<Rightarrow> [(''shareableId'', JStr s)]) @
     [(''createdAt'', JDate (createdAt i)), (''updatedAt'', JDate (updatedAt i))]"

definition itinerary_json :: "itinerary \<Rightarrow> json" where
  "itinerary_json i = JObj (toObject i)"

section \<open>Authentication (src/utils/auth.js)\<close>

text \<open>\<^verbatim>\<open>s.replace(p, '')\<close>: the first occurrence of \<open>p\<close> removed.\<close>

fun remove_first :: "string \<Rightarrow> string \<Rightarrow> string" where
  "remove_first p [] = []"
| "remove_first p (c # cs) =
     (if take (length p) (c # cs) = p then drop (length p) (c # cs)
      else c # remove_first p cs)"

text \<open>The test environment's retry of the user lookup, at most \<open>n\<close> more times.\<close>

fun retry_findById :: "nat \<Rightarrow> user list \<Rightarrow> oid \<Rightarrow> user option" where
  "retry_findById 0 us i = None"
| "retry_findById (Suc n) us i =
     (case User_findById us i of Some u \<Rightarrow> Some u | None \<Rightarrow> retry_findById n us i)"

definition authenticate :: "lib \<Rightarrow> state \<Rightarrow> request \<Rightarrow> answer + request" where
  "authenticate E S req =
     (case map_option (remove_first ''Bearer '') (authorization req) of
        None \<Rightarrow> Inl (reply 401 (json_message ''Authentication required''))
      | Some token \<Rightarrow>
          if token = [] then Inl (reply 401 (json_message ''Authentication required''))
          else (case jwt_verify E token of
                  None \<Rightarrow> Inl (reply 401 (json_message ''Invalid or expired token''))
                | Some uid \<Rightarrow>
                    let user = (case User_findById (users S) uid of
                                  Some u \<Rightarrow> Some u
                                | None \<Rightarrow> if NODE_ENV E = ''test''
                                          then retry_findById 3 (users S) uid else None)
                    in (case user of
                          None \<Rightarrow> Inl (reply 401 (json_message ''User not found''))
                        | Some u \<Rightarrow> Inr (req\<lparr>req_userId := uid\<rparr>))))"

section \<open>The REST handlers (src/controllers/itineraryController.js)\<close>

text \<open>Truthiness of a body property: \<^verbatim>\<open>if (title)\<close>, \<^verbatim>\<open>if (activities)\<close>.\<close>

fun truthy_string :: "string field \<Rightarrow> bool" where
  "truthy_string (Value s) = (s \<noteq> [])"
| "truthy_string Absent = False"
| "truthy_string Null = False"

fun truthy_array :: "'a list field \<Rightarrow> bool" where
  "truthy_array (Value xs) = True"
| "truthy_array Absent = False"
| "truthy_array Null = False"

text \<open>The notification e-mail that follows a successful \<^verbatim>\<open>save()\<close> is not awaited and
  changes neither the response nor the state; it is left out.\<close>

definition createItinerary :: "lib \<Rightarrow> state \<Rightarrow> request \<Rightarrow> answer \<times> state" where
  "createItinerary E S req =
     (let itinerary =
            \<lparr>d_id = new_ObjectId req, d_userId = req_userId req,
             d_title = set_string (body_title req),
             d_destination = set_string (body_destination req),
             d_startDate = set_date E (body_startDate req),
             d_endDate = set_date E (body_endDate req),
             d_activities = Some (or_empty (body_activities req)),
             d_shareableId = None, d_createdAt = clock req, d_updatedAt = clock req\<rparr>
      in case save_new (clock req) (itineraries S) itinerary of
           Inl (ValidationError ms) \<Rightarrow> (reply 400 (json_message (first_message ms)), S)
         | Inl e \<Rightarrow> (server_error e, S)
         | Inr (saved, docs) \<Rightarrow>
             (reply 201 (JObj [(''message'', JStr ''Itinerary created successfully''),
                               (''itinerary'', itinerary_json saved)]),
              S\<lparr>itineraries := docs\<rparr>))"

text \<open>\<^verbatim>\<open>parseInt(page)\<close> with the default of the destructuring, \<^verbatim>\<open>page = 1\<close>.\<close>

definition parseInt_or :: "lib \<Rightarrow> int \<Rightarrow> qvalue option \<Rightarrow> js_error + jsnum" where
  "parseInt_or E dflt q =
     (case q of
        None \<Rightarrow> Inr (Fin dflt)
      | Some v \<Rightarrow>
          (case js_String v of
             None \<Rightarrow> Inl (Error ''Cannot convert object to primitive value'')
           | Some s \<Rightarrow> Inr (parseInt E s)))"

text \<open>\<^verbatim>\<open>sort.startsWith('-')\<close>, with the default \<^verbatim>\<open>sort = 'createdAt'\<close>: only a string
  has the method.\<close>

fun sort_string :: "qvalue option \<Rightarrow> js_error + string" where
  "sort_string None = Inr ''createdAt''"
| "sort_string (Some (QStr s)) = Inr s"
| "sort_string (Some v) = Inl (Error ''sort.startsWith is not a function'')"

definition sortOrder_of :: "string \<Rightarrow> int" where
  "sortOrder_of sort_param = (if take 1 sort_param = ''-'' then - 1 else 1)"

definition sortField_of :: "string \<Rightarrow> string" where
  "sortField_of sort_param = (if take 1 sort_param = ''-'' then drop 1 sort_param else sort_param)"

text \<open>\<^verbatim>\<open>if (destination) query.destination = new RegExp(destination, 'i')\<close>: the pattern
  of the filter, \<open>None\<close> when there is no filter.  Only the empty string is falsy.\<close>

fun destination_pattern :: "qvalue option \<Rightarrow> js_error + string option" where
  "destination_pattern None = Inr None"
| "destination_pattern (Some (QStr s)) = Inr (if s = [] then None else Some s)"
| "destination_pattern (Some v) =
     (case js_String v of
        None \<Rightarrow> Inl (Error ''Cannot convert object to primitive value'')
      | Some s \<Rightarrow> Inr (Some s))"

text \<open>The query \<^verbatim>\<open>{ userId, destination? }\<close>: \<open>None\<close> when \<^verbatim>\<open>new RegExp\<close> throws.\<close>

definition build_query :: "lib \<Rightarrow> oid \<Rightarrow> string option \<Rightarrow> (itinerary \<Rightarrow> bool) option" where
  "build_query E uid pattern =
     (case pattern of
        None \<Rightarrow> Some (\<lambda>d. userId d = uid)
      | Some s \<Rightarrow>
          (case regExp E s of
             None \<Rightarrow> None
           | Some test \<Rightarrow> Some (\<lambda>d. userId d = uid \<and> test (destination d))))"

text \<open>\<^verbatim>\<open>(parseInt(page) - 1) * parseInt(limit)\<close>.\<close>

definition list_skip :: "jsnum \<Rightarrow> jsnum \<Rightarrow> jsnum" where
  "list_skip page limit = js_mul (js_sub page 1) limit"

definition getItineraries :: "lib \<Rightarrow> state \<Rightarrow> request \<Rightarrow> answer \<times> state" where
  "getItineraries E S req =
     (case destination_pattern (q_destination req) of
        Inl e \<Rightarrow> (server_error e, S)
      | Inr pattern \<Rightarrow>
     (case build_query E (req_userId req) pattern of
        None \<Rightarrow> (server_error (Error ''Invalid regular expression''), S)
      | Some query \<Rightarrow>
     (case parseInt_or E 1 (q_page req) of
        Inl e \<Rightarrow> (server_error e, S)
      | Inr page \<Rightarrow>
     (case parseInt_or E 10 (q_limit req) of
        Inl e \<Rightarrow> (server_error e, S)
      | Inr limit \<Rightarrow>
     (case sort_string (q_sort req) of
        Inl e \<Rightarrow> (server_error e, S)
      | Inr sort_param \<Rightarrow>
     (case db_find E query (sortField_of sort_param) (sortOrder_of sort_param)
             (list_skip page limit) limit (itineraries S) of
        Inl e \<Rightarrow> (server_error e, S)
      | Inr found \<Rightarrow>
          let n = countDocuments query (itineraries S) in
          (reply 200
             (JObj [(''itineraries'', JArr (map itinerary_json found)),
                    (''pagination'',
                     JObj [(''page'', json_num page),
                           (''limit'', json_num limit),
                           (''total'', JNum (int n)),
                           (''pages'', json_num (ceil_div n limit))])]),
           S)))))))"

definition getItineraryById :: "lib \<Rightarrow> state \<Rightarrow> request \<Rightarrow> answer \<times> state" where
  "getItineraryById E S req =
     (case objectId E (param_id req) of
        None \<Rightarrow> (reply 400 (json_message ''Invalid itinerary ID format''), S)
      | Some i \<Rightarrow>
          let cacheKey = ''itinerary:'' @ param_id req in
          (case getCache S cacheKey of
             (Pending, S1) \<Rightarrow> (None, S1)
           | (Rejected e, S1) \<Rightarrow> (server_error e, S1)
           | (Fulfilled cached, S1) \<Rightarrow>
               if truthy cached
               then (reply 200 cached, S1\<lparr>console := console S1 @ [LogCached cached]\<rparr>)
               else (case findById (itineraries S1) i of
                       None \<Rightarrow> (reply 404 (json_message ''Itinerary not found''), S1)
                     | Some itinerary \<Rightarrow>
                         if userId itinerary \<noteq> req_userId req
                         then (reply 403 (json_message ''Access denied''), S1)
                         else (case setCache S1 cacheKey (itinerary_json itinerary) 300 of
                                 (Pending, S2) \<Rightarrow> (None, S2)
                               | (Rejected e, S2) \<Rightarrow> (server_error e, S2)
                               | (Fulfilled u, S2) \<Rightarrow>
                                   (reply 200 (JObj [(''itinerary'', itinerary_json itinerary)]), S2)))))"

text \<open>\<^verbatim>\<open>if (title) itinerary.title = title;\<close> and the four assignments after it.\<close>

definition rest_assign :: "lib \<Rightarrow> request \<Rightarrow> doc \<Rightarrow> doc" where
  "rest_assign E req d =
     (let d1 = (if truthy_string (body_title req) then d\<lparr>d_title := set_string (body_title req)\<rparr> else d);
          d2 = (if truthy_string (body_destination req)
                then d1\<lparr>d_destination := set_string (body_destination req)\<rparr> else d1);
          d3 = (if truthy_string (body_startDate req)
                then d2\<lparr>d_startDate := set_date E (body_startDate req)\<rparr> else d2);
          d4 = (if truthy_string (body_endDate req)
                then d3\<lparr>d_endDate := set_date E (body_endDate req)\<rparr> else d3)
      in if truthy_array (body_activities req)
         then d4\<lparr>d_activities := Some (or_empty (body_activities req))\<rparr> else d4)"

definition updateItinerary :: "lib \<Rightarrow> state \<Rightarrow> request \<Rightarrow> answer \<times> state" where
  "updateItinerary E S req =
     (case objectId E (param_id req) of
        None \<Rightarrow> (reply 400 (json_message ''Invalid itinerary ID format''), S)
      | Some i \<Rightarrow>
          (case findById (itineraries S) i of
             None \<Rightarrow> (reply 404 (json_message ''Itinerary not found''), S)
           | Some stored \<Rightarrow>
               if userId stored \<noteq> req_userId req
               then (reply 403 (json_message ''Access denied''), S)
               else (case save_loaded (clock req) (itineraries S) (rest_assign E req (hydrate stored)) of
                       Inl (ValidationError ms) \<Rightarrow> (reply 400 (json_message (first_message ms)), S)
                     | Inl e \<Rightarrow> (server_error e, S)
                     | Inr (saved, docs) \<Rightarrow>
                         (case deleteCache (S\<lparr>itineraries := docs\<rparr>) (''itinerary:'' @ param_id req) of
                            (Pending, S2) \<Rightarrow> (None, S2)
                          | (Rejected e, S2) \<Rightarrow> (server_error e, S2)
                          | (Fulfilled u, S2) \<Rightarrow>
                              (reply 200 (JObj [(''message'', JStr ''Itinerary updated successfully''),
                                                (''itinerary'', itinerary_json saved)]),
                               S2)))))"

definition deleteItinerary :: "lib \<Rightarrow> state \<Rightarrow> request \<Rightarrow> answer \<times> state" where
  "deleteItinerary E S req =
     (case objectId E (param_id req) of
        None \<Rightarrow> (reply 400 (json_message ''Invalid itinerary ID format''), S)
      | Some i \<Rightarrow>
          (case findById (itineraries S) i of
             None \<Rightarrow> (reply 404 (json_message ''Itinerary not found''), S)
           | Some stored \<Rightarrow>
               if userId stored \<noteq> req_userId req
               then (reply 403 (json_message ''Access denied''), S)
               else (case deleteCache (S\<lparr>itineraries := findByIdAndDelete (itineraries S) i\<rparr>)
                            (''itinerary:'' @ param_id req) of
                       (Pending, S2) \<Rightarrow> (None, S2)
                     | (Rejected e, S2) \<Rightarrow> (server_error e, S2)
                     | (Fulfilled u, S2) \<Rightarrow>
                         (reply 200 (json_message ''Itinerary deleted successfully''), S2))))"

text \<open>\<^verbatim>\<open>!itinerary.shareableId\<close>: no token, or the empty string.\<close>

fun no_shareableId :: "string option \<Rightarrow> bool" where
  "no_shareableId None = True"
| "no_shareableId (Some s) = (s = [])"

definition share_json :: "request \<Rightarrow> string option \<Rightarrow> json" where
  "share_json req sid =
     (let s = (case sid of None \<Rightarrow> ''undefined'' | Some t \<Rightarrow> t) in
      JObj ([(''message'', JStr ''Shareable link generated''),
             (''shareableUrl'',
              JStr (protocol req @ ''://'' @ host req @ ''/api/itineraries/share/'' @ s))] @
            (case sid of None \<Rightarrow> [] | Some t \<Rightarrow> [(''shareableId'', JStr t)])))"

definition generateShareableLink :: "lib \<Rightarrow> state \<Rightarrow> request \<Rightarrow> answer \<times> state" where
  "generateShareableLink E S req =
     (case objectId E (param_id req) of
        None \<Rightarrow> (reply 400 (json_message ''Invalid itinerary ID format''), S)
      | Some i \<Rightarrow>
          (case findById (itineraries S) i of
             None \<Rightarrow> (reply 404 (json_message ''Itinerary not found''), S)
           | Some stored \<Rightarrow>
               if userId stored \<noteq> req_userId req
               then (reply 403 (json_message ''Access denied''), S)
               else if no_shareableId (shareableId stored)
               then (case save_loaded (clock req) (itineraries S)
                            ((hydrate stored)\<lparr>d_shareableId := Some (uuidv4 req)\<rparr>) of
                       Inl e \<Rightarrow> (server_error e, S)
                     | Inr (saved, docs) \<Rightarrow>
                         (reply 200 (share_json req (shareableId saved)), S\<lparr>itineraries := docs\<rparr>))
               else (reply 200 (share_json req (shareableId stored)), S)))"

definition getSharedItinerary :: "lib \<Rightarrow> state \<Rightarrow> request \<Rightarrow> answer \<times> state" where
  "getSharedItinerary E S req =
     (case findOne_shareableId (itineraries S) (param_shareableId req) of
        None \<Rightarrow> (reply 404 (json_message ''Shared itinerary not found''), S)
      | Some itinerary \<Rightarrow>
          (reply 200
             (JObj [(''itinerary'',
                     JObj [(''_id'', JStr (doc_id itinerary)),
                           (''title'', JStr (title itinerary)),
                           (''destination'', JStr (destination itinerary)),
                           (''startDate'', JDate (startDate itinerary)),
                           (''endDate'', JDate (endDate itinerary)),
                           (''activities'', activities_json (activities itinerary)),
                           (''createdAt'', JDate (createdAt itinerary)),
                           (''updatedAt'', JDate (updatedAt itinerary))])]),
           S))"

section \<open>The response cache and the routes (utils/cache.js, routes/itineraries.js)\<close>

text \<open>
  \<^verbatim>\<open>cacheMiddleware(duration)\<close> around the rest of the chain \<open>next\<close>.  On a miss it
  replaces \<^verbatim>\<open>res.json\<close>, so whatever body the handler sends, with whatever status, is
  stored under the key of the URL before it is sent; the \<^verbatim>\<open>setCache\<close> there is not
  awaited and its outcome is dropped.  While \<^verbatim>\<open>getCache\<close> is pending the chain does not
  go on.  A rejected \<^verbatim>\<open>getCache\<close> would leave the middleware without a reply of its own;
  the branch passes the error on as a 500.
\<close>

definition cacheMiddleware ::
  "nat \<Rightarrow> (state \<Rightarrow> request \<Rightarrow> answer \<times> state) \<Rightarrow> state \<Rightarrow> request \<Rightarrow> answer \<times> state" where
  "cacheMiddleware duration next S req =
     (if http_method req \<noteq> GET then next S req
      else if q_nocache req = Some (QStr ''true'') then next S req
      else let key = ''cache:'' @ originalUrl req in
        (case getCache S key of
           (Pending, S1) \<Rightarrow> (None, S1)
         | (Rejected e, S1) \<Rightarrow> (server_error e, S1)
         | (Fulfilled cached, S1) \<Rightarrow>
             if truthy cached then (reply 200 cached, S1)
             else (case next S1 req of
                     (None, S2) \<Rightarrow> (None, S2)
                   | (Some res, S2) \<Rightarrow> (Some res, snd (setCache S2 key (body res) duration)))))"

text \<open>\<^verbatim>\<open>router.use(authenticate)\<close> before a handler.\<close>

definition protected ::
  "lib \<Rightarrow> (state \<Rightarrow> request \<Rightarrow> answer \<times> state) \<Rightarrow> state \<Rightarrow> request \<Rightarrow> answer \<times> state" where
  "protected E handler S req =
     (case authenticate E S req of
        Inl res \<Rightarrow> (res, S)
      | Inr req' \<Rightarrow> handler S req')"

text \<open>\<^verbatim>\<open>router.get('/:id', cacheMiddleware(300), getItineraryById)\<close> and its siblings.\<close>

definition POST_itineraries :: "lib \<Rightarrow> state \<Rightarrow> request \<Rightarrow> answer \<times> state" where
  "POST_itineraries E = protected E (createItinerary E)"

definition GET_itinerary :: "lib \<Rightarrow> state \<Rightarrow> request \<Rightarrow> answer \<times> state" where
  "GET_itinerary E = protected E (cacheMiddleware 300 (getItineraryById E))"

definition DELETE_itinerary :: "lib \<Rightarrow> state \<Rightarrow> request \<Rightarrow> answer \<times> state" where
  "DELETE_itinerary E = protected E (deleteItinerary E)"

definition PUT_itinerary :: "lib \<Rightarrow> state \<Rightarrow> request \<Rightarrow> answer \<times> state" where
  "PUT_itinerary E = protected E (updateItinerary E)"

definition GET_itineraries :: "lib \<Rightarrow> state \<Rightarrow> request \<Rightarrow> answer \<times> state" where
  "GET_itineraries E = protected E (getItineraries E)"

definition POST_share :: "lib \<Rightarrow> state \<Rightarrow> request \<Rightarrow> answer \<times> state" where
  "POST_share E = protected E (generateShareableLink E)"

section \<open>The GraphQL resolvers (graphql/resolvers.js, graphql/schema.js)\<close>

text \<open>
  A GraphQL request: a document with one root field, whose arguments are written in the
  document.  It has the header, the arguments of the field, the input object of a
  mutation, and the selection set under a field of type \<^verbatim>\<open>Itinerary\<close> (the names of the
  selected fields; \<^verbatim>\<open>activities\<close> stands for the activities with their three fields).
  An argument with a default in the schema is \<open>Absent\<close> when the query leaves it out.
  The last three fields are as in a REST request.
\<close>

record gql_request =
  g_authorization :: "string option"
  arg_id :: string
  arg_shareableId :: string
  arg_destination :: "string field"
  arg_page :: "int field"
  arg_limit :: "int field"
  arg_sort :: "string field"
  input_title :: "string field"
  input_destination :: "string field"
  input_startDate :: "string field"
  input_endDate :: "string field"
  input_activities :: "activity list field"
  selection :: "string list"
  g_clock :: int
  g_new_ObjectId :: oid
  g_uuidv4 :: string

definition getUserFromRequest :: "lib \<Rightarrow> gql_request \<Rightarrow> oid option" where
  "getUserFromRequest E req =
     (case map_option (remove_first ''Bearer '') (g_authorization req) of
        None \<Rightarrow> None
      | Some token \<Rightarrow> if token = [] then None else jwt_verify E token)"

text \<open>\<^verbatim>\<open>if (!userId) throw new Error('Authentication required')\<close>, around a resolver body.\<close>

definition as_user ::
  "lib \<Rightarrow> gql_request \<Rightarrow> state \<Rightarrow> (oid \<Rightarrow> (js_error + 'a) \<times> state) \<Rightarrow> (js_error + 'a) \<times> state" where
  "as_user E req S body_of =
     (case getUserFromRequest E req of
        None \<Rightarrow> (Inl (Error ''Authentication required''), S)
      | Some uid \<Rightarrow>
          if uid = [] then (Inl (Error ''Authentication required''), S) else body_of uid)"

text \<open>An \<^verbatim>\<open>Int\<close> argument with a schema default, after \<^verbatim>\<open>parseInt\<close>; an explicit
  \<^verbatim>\<open>null\<close> parses to \<^verbatim>\<open>NaN\<close>.\<close>

fun int_arg :: "int \<Rightarrow> int field \<Rightarrow> jsnum" where
  "int_arg dflt Absent = Fin dflt"
| "int_arg dflt Null = NaN"
| "int_arg dflt (Value n) = Fin n"

text \<open>The GraphQL type \<^verbatim>\<open>Int\<close> serialises 32-bit integers only.\<close>

fun serialize_Int :: "jsnum \<Rightarrow> js_error + json" where
  "serialize_Int (Fin n) =
     (if - 2147483648 \<le> n \<and> n \<le> 2147483647 then Inr (JNum n)
      else Inl (Error ''Int cannot represent non 32-bit signed integer value''))"
| "serialize_Int NaN = Inl (Error ''Int cannot represent non-integer value'')"
| "serialize_Int PosInf = Inl (Error ''Int cannot represent non-integer value'')"
| "serialize_Int NegInf = Inl (Error ''Int cannot represent non-integer value'')"

text \<open>\<^verbatim>\<open>if (destination)\<close> on a string argument: the pattern of the filter.\<close>

fun truthy_pattern :: "string field \<Rightarrow> string option" where
  "truthy_pattern (Value s) = (if s = [] then None else Some s)"
| "truthy_pattern Absent = None"
| "truthy_pattern Null = None"

definition Query_itineraries :: "lib \<Rightarrow> state \<Rightarrow> gql_request \<Rightarrow> (js_error + json) \<times> state" where
  "Query_itineraries E S req =
     as_user E req S (\<lambda>uid.
       case arg_sort req of
         Null \<Rightarrow> (Inl (Error ''Cannot read properties of null''), S)
       | _ \<Rightarrow>
       let sort_param = (case arg_sort req of Value s \<Rightarrow> s | _ \<Rightarrow> ''createdAt'') in
       case objectId E uid of
         None \<Rightarrow> (Inl (Error ''input must be a 24 character hex string''), S)
       | Some owner \<Rightarrow>
       (case build_query E owner (truthy_pattern (arg_destination req)) of
          None \<Rightarrow> (Inl (Error ''Invalid regular expression''), S)
        | Some query \<Rightarrow>
            let page = int_arg 1 (arg_page req); limit = int_arg 10 (arg_limit req)
            in (case db_find E query (sortField_of sort_param) (sortOrder_of sort_param)
                       (list_skip page limit) limit (itineraries S) of
                  Inl e \<Rightarrow> (Inl e, S)
                | Inr found \<Rightarrow>
                    let n = countDocuments query (itineraries S) in
                    (case (serialize_Int page, serialize_Int (ceil_div n limit)) of
                       (Inr pg, Inr pgs) \<Rightarrow>
                         (Inr (JObj [(''itineraries'', JArr (map itinerary_json found)),
                                     (''total'', JNum (int n)), (''page'', pg), (''pages'', pgs)]), S)
                     | (Inl e, _) \<Rightarrow> (Inl e, S)
                     | (_, Inl e) \<Rightarrow> (Inl e, S)))))"

definition Query_itinerary :: "lib \<Rightarrow> state \<Rightarrow> gql_request \<Rightarrow> (js_error + json) \<times> state" where
  "Query_itinerary E S req =
     as_user E req S (\<lambda>uid.
       case objectId E (arg_id req) of
         None \<Rightarrow> (Inl (Error ''Invalid itinerary ID format''), S)
       | Some i \<Rightarrow>
           (case findById (itineraries S) i of
              None \<Rightarrow> (Inl (Error ''Itinerary not found''), S)
            | Some itinerary \<Rightarrow>
                if userId itinerary \<noteq> uid then (Inl (Error ''Access denied''), S)
                else (Inr (JObj (toObject itinerary)), S)))"

definition Query_sharedItinerary :: "lib \<Rightarrow> state \<Rightarrow> gql_request \<Rightarrow> (js_error + json) \<times> state" where
  "Query_sharedItinerary E S req =
     (case findOne_shareableId (itineraries S) (arg_shareableId req) of
        None \<Rightarrow> (Inl (Error ''Shared itinerary not found''), S)
      | Some itinerary \<Rightarrow> (Inr (JObj (toObject itinerary)), S))"

text \<open>The input type \<^verbatim>\<open>CreateItineraryInput\<close> has four fields of type \<^verbatim>\<open>String!\<close>: a
  request without one of them is rejected before the resolver runs.\<close>

definition Mutation_createItinerary :: "lib \<Rightarrow> state \<Rightarrow> gql_request \<Rightarrow> (js_error + json) \<times> state" where
  "Mutation_createItinerary E S req =
     (case (input_title req, input_destination req, input_startDate req, input_endDate req) of
        (Value t, Value de, Value sd, Value ed) \<Rightarrow>
          as_user E req S (\<lambda>uid.
            case objectId E uid of
              None \<Rightarrow> (Inl (Error ''input must be a 24 character hex string''), S)
            | Some owner \<Rightarrow>
                let itinerary =
                      \<lparr>d_id = g_new_ObjectId req, d_userId = owner,
                       d_title = set_string (Value t), d_destination = set_string (Value de),
                       d_startDate = set_new_Date E sd, d_endDate = set_new_Date E ed,
                       d_activities = Some (or_empty (input_activities req)),
                       d_shareableId = None, d_createdAt = g_clock req, d_updatedAt = g_clock req\<rparr>
                in (case save_new (g_clock req) (itineraries S) itinerary of
                      Inl e \<Rightarrow> (Inl e, S)
                    | Inr (saved, docs) \<Rightarrow> (Inr (JObj (toObject saved)), S\<lparr>itineraries := docs\<rparr>)))
      | _ \<Rightarrow> (Inl (GraphQLError ''Field of required type String! was not provided''), S))"

text \<open>\<^verbatim>\<open>new Date(input.startDate)\<close>; \<^verbatim>\<open>new Date(null)\<close> is the epoch.\<close>

fun gql_date :: "lib \<Rightarrow> string field \<Rightarrow> int path" where
  "gql_date E (Value s) = set_new_Date E s"
| "gql_date E Null = Valid 0"
| "gql_date E Absent = Undefined"

text \<open>\<^verbatim>\<open>if (input.title !== undefined) itinerary.title = input.title;\<close> and the four
  assignments after it.  A value of an input field is assigned as it is given: Mongoose
  sets a path that is assigned \<^verbatim>\<open>null\<close> to \<^verbatim>\<open>null\<close>, also the array of activities.\<close>

fun set_array :: "'a list field \<Rightarrow> 'a list option" where
  "set_array (Value xs) = Some xs"
| "set_array Null = None"
| "set_array Absent = None"

definition gql_assign :: "lib \<Rightarrow> gql_request \<Rightarrow> doc \<Rightarrow> doc" where
  "gql_assign E req d =
     (let d1 = (if input_title req \<noteq> Absent then d\<lparr>d_title := set_string (input_title req)\<rparr> else d);
          d2 = (if input_destination req \<noteq> Absent
                then d1\<lparr>d_destination := set_string (input_destination req)\<rparr> else d1);
          d3 = (if input_startDate req \<noteq> Absent
                then d2\<lparr>d_startDate := gql_date E (input_startDate req)\<rparr> else d2);
          d4 = (if input_endDate req \<noteq> Absent
                then d3\<lparr>d_endDate := gql_date E (input_endDate req)\<rparr> else d3)
      in if input_activities req \<noteq> Absent
         then d4\<lparr>d_activities := set_array (input_activities req)\<rparr> else d4)"

definition Mutation_updateItinerary :: "lib \<Rightarrow> state \<Rightarrow> gql_request \<Rightarrow> (js_error + json) \<times> state" where
  "Mutation_updateItinerary E S req =
     as_user E req S (\<lambda>uid.
       case objectId E (arg_id req) of
         None \<Rightarrow> (Inl (Error ''Invalid itinerary ID format''), S)
       | Some i \<Rightarrow>
           (case findById (itineraries S) i of
              None \<Rightarrow> (Inl (Error ''Itinerary not found''), S)
            | Some stored \<Rightarrow>
                if userId stored \<noteq> uid then (Inl (Error ''Access denied''), S)
                else (case save_loaded (g_clock req) (itineraries S) (gql_assign E req (hydrate stored)) of
                        Inl e \<Rightarrow> (Inl e, S)
                      | Inr (saved, docs) \<Rightarrow>
                          (Inr (JObj (toObject saved)), S\<lparr>itineraries := docs\<rparr>))))"

definition Mutation_deleteItinerary :: "lib \<Rightarrow> state \<Rightarrow> gql_request \<Rightarrow> (js_error + json) \<times> state" where
  "Mutation_deleteItinerary E S req =
     as_user E req S (\<lambda>uid.
       case objectId E (arg_id req) of
         None \<Rightarrow> (Inl (Error ''Invalid itinerary ID format''), S)
       | Some i \<Rightarrow>
           (case findById (itineraries S) i of
              None \<Rightarrow> (Inl (Error ''Itinerary not found''), S)
            | Some stored \<Rightarrow>
                if userId stored \<noteq> uid then (Inl (Error ''Access denied''), S)
                else (Inr (JBool True), S\<lparr>itineraries := findByIdAndDelete (itineraries S) i\<rparr>)))"

definition share_url :: "lib \<Rightarrow> string option \<Rightarrow> string" where
  "share_url E sid =
     (case BASE_URL E of
        None \<Rightarrow> ''http://localhost:5000''
      | Some b \<Rightarrow> if b = [] then ''http://localhost:5000'' else b) @
     ''/api/itineraries/share/'' @ (case sid of None \<Rightarrow> ''undefined'' | Some t \<Rightarrow> t)"

definition Mutation_generateShareableLink ::
  "lib \<Rightarrow> state \<Rightarrow> gql_request \<Rightarrow> (js_error + json) \<times> state" where
  "Mutation_generateShareableLink E S req =
     as_user E req S (\<lambda>uid.
       case objectId E (arg_id req) of
         None \<Rightarrow> (Inl (Error ''Invalid itinerary ID format''), S)
       | Some i \<Rightarrow>
           (case findById (itineraries S) i of
              None \<Rightarrow> (Inl (Error ''Itinerary not found''), S)
            | Some stored \<Rightarrow>
                if userId stored \<noteq> uid then (Inl (Error ''Access denied''), S)
                else if no_shareableId (shareableId stored)
                then (case save_loaded (g_clock req) (itineraries S)
                             ((hydrate stored)\<lparr>d_shareableId := Some (g_uuidv4 req)\<rparr>) of
                        Inl e \<Rightarrow> (Inl e, S)
                      | Inr (saved, docs) \<Rightarrow>
                          (Inr (JStr (share_url E (shareableId saved))), S\<lparr>itineraries := docs\<rparr>))
                else (Inr (JStr (share_url E (shareableId stored))), S)))"

subsection \<open>Execution of a field of type Itinerary\<close>

text \<open>The fields of the type \<^verbatim>\<open>Itinerary\<close> in the schema.\<close>

definition Itinerary_type :: "string list" where
  "Itinerary_type =
     [''_id'', ''userId'', ''title'', ''destination'', ''startDate'', ''endDate'',
      ''activities'', ''shareableId'', ''createdAt'', ''updatedAt'']"

text \<open>\<^verbatim>\<open>obj[f]\<close>, read by the default field resolver: \<^verbatim>\<open>null\<close> for a missing property.\<close>

fun property :: "(string \<times> json) list \<Rightarrow> string \<Rightarrow> json" where
  "property [] f = JNull"
| "property ((k, v) # kvs) f = (if k = f then v else property kvs f)"

definition select_fields :: "string list \<Rightarrow> json \<Rightarrow> json" where
  "select_fields sel v =
     (case v of JObj kvs \<Rightarrow> JObj (map (\<lambda>f. (f, property kvs f)) sel) | _ \<Rightarrow> JNull)"

text \<open>
  A document that selects no field, or a field the type does not have, fails the
  validation and no resolver runs.  Otherwise the resolver runs, and the result carries
  the selected fields of the object it returned; every field of the type but
  \<^verbatim>\<open>shareableId\<close> is declared non-null, and a \<^verbatim>\<open>null\<close> in one of them is an error of the
  field of type \<^verbatim>\<open>Itinerary\<close>.
\<close>

definition null_field :: "json \<Rightarrow> string \<Rightarrow> bool" where
  "null_field v f = (case v of JObj kvs \<Rightarrow> property kvs f = JNull | _ \<Rightarrow> True)"

definition execute_Itinerary ::
  "(state \<Rightarrow> gql_request \<Rightarrow> (js_error + json) \<times> state) \<Rightarrow> state \<Rightarrow> gql_request \<Rightarrow> (js_error + json) \<times> state" where
  "execute_Itinerary resolver S req =
     (if selection req = [] \<or> \<not> list_all (\<lambda>f. f \<in> set Itinerary_type) (selection req)
      then (Inl (GraphQLError ''Cannot query field on type Itinerary''), S)
      else case resolver S req of
             (Inl e, S') \<Rightarrow> (Inl e, S')
           | (Inr v, S') \<Rightarrow>
               if list_ex (\<lambda>f. f \<noteq> ''shareableId'' \<and> null_field v f) (selection req)
               then (Inl (Error ''Cannot return null for non-nullable field''), S')
               else (Inr (select_fields (selection req) v), S'))"

subsection \<open>The endpoint (graphql/graphqlMiddleware.js)\<close>

text \<open>
  The response of \<^verbatim>\<open>graphqlHTTP\<close>, as far as its status, its \<^verbatim>\<open>data\<close> and the errors it
  lists.  A document that fails the validation is answered 400, without \<^verbatim>\<open>data\<close>.  The
  error of a resolver makes its field \<^verbatim>\<open>null\<close>; when the type of the field is non-null
  the whole \<^verbatim>\<open>data\<close> is \<^verbatim>\<open>null\<close>, and a result whose \<^verbatim>\<open>data\<close> is \<^verbatim>\<open>null\<close> is sent with
  status 500.  Everything else is sent with status 200.
\<close>

record gql_response =
  http_status :: nat
  data :: "json field"
  errors :: "js_error list"

datatype nullability = Nullable | NonNull

definition graphqlHTTP :: "nullability \<Rightarrow> string \<Rightarrow> js_error + json \<Rightarrow> gql_response" where
  "graphqlHTTP n root result =
     (case result of
        Inr v \<Rightarrow> \<lparr>http_status = 200, data = Value (JObj [(root, v)]), errors = []\<rparr>
      | Inl (GraphQLError m) \<Rightarrow> \<lparr>http_status = 400, data = Absent, errors = [GraphQLError m]\<rparr>
      | Inl e \<Rightarrow>
          (case n of
             NonNull \<Rightarrow> \<lparr>http_status = 500, data = Null, errors = [e]\<rparr>
           | Nullable \<Rightarrow>
               \<lparr>http_status = 200, data = Value (JObj [(root, JNull)]), errors = [e]\<rparr>))"

text \<open>The two mutations that write dates, as the endpoint answers them: both fields have
  the type \<^verbatim>\<open>Itinerary!\<close>.\<close>

definition POST_graphql_createItinerary :: "lib \<Rightarrow> state \<Rightarrow> gql_request \<Rightarrow> gql_response \<times> state" where
  "POST_graphql_createItinerary E S req =
     (case execute_Itinerary (Mutation_createItinerary E) S req of
        (result, S') \<Rightarrow> (graphqlHTTP NonNull ''createItinerary'' result, S'))"

definition POST_graphql_updateItinerary :: "lib \<Rightarrow> state \<Rightarrow> gql_request \<Rightarrow> gql_response \<times> state" where
  "POST_graphql_updateItinerary E S req =
     (case execute_Itinerary (Mutation_updateItinerary E) S req of
        (result, S') \<Rightarrow> (graphqlHTTP NonNull ''updateItinerary'' result, S'))"

section \<open>Concrete inputs\<close>

text \<open>
  A library instance, two users, one itinerary of the first user and the requests used
  below to run the handlers.  The instance gives what the libraries give on the strings
  that occur in these requests: the two tokens verify to the two users, a 24-digit
  lower-case hexadecimal string is a valid ObjectId and its own canonical form,
  \<^verbatim>\<open>parseInt\<close> reads the numerals 0, 1 and 2, the three dates are the midnights (UTC) of
  those days in milliseconds, Mongoose's cast reads a string of digits as milliseconds
  where \<^verbatim>\<open>new Date\<close> gives an Invalid Date, the pattern \<^verbatim>\<open>Paris\<close> matches the destination
  \<^verbatim>\<open>Paris\<close>, the pattern \<^verbatim>\<open>(\<close> does not compile (an unterminated group), and a name
  without a dot that is not empty and does not start with \<^verbatim>\<open>$\<close> is a sort key.
\<close>

definition is_hex :: "char \<Rightarrow> bool" where
  "is_hex c = (c \<in> set ''0123456789abcdef'')"

definition lib0 :: lib where
  "lib0 =
     \<lparr>NODE_ENV = ''production'',
      jwt_verify = (\<lambda>t. if t = ''token-of-alice'' then Some ''aaaaaaaaaaaaaaaaaaaaaaaa''
                       else if t = ''token-of-bob'' then Some ''bbbbbbbbbbbbbbbbbbbbbbbb''
                       else None),
      objectId = (\<lambda>s. if length s = 24 \<and> list_all is_hex s then Some s else None),
      parseInt = (\<lambda>s. if s = ''0'' then Fin 0 else if s = ''1'' then Fin 1
                     else if s = ''2'' then Fin 2 else NaN),
      regExp = (\<lambda>s. if s = ''('' then None else Some (\<lambda>t. t = s)),
      castDate = (\<lambda>s. if s = ''2024-06-01'' then Some 1717200000000
                     else if s = ''2024-06-05'' then Some 1717545600000
                     else if s = ''2024-06-10'' then Some 1717977600000
                     else if s = ''1717200000000'' then Some 1717200000000 else None),
      newDate = (\<lambda>s. if s = ''2024-06-01'' then Some 1717200000000
                    else if s = ''2024-06-05'' then Some 1717545600000
                    else if s = ''2024-06-10'' then Some 1717977600000 else None),
      sortKey = (\<lambda>f. f \<noteq> [] \<and> take 1 f \<noteq> ''$'' \<and> CHR ''.'' \<notin> set f),
      BASE_URL = None\<rparr>"

definition alice :: oid where
  "alice = ''aaaaaaaaaaaaaaaaaaaaaaaa''"

definition bob :: oid where
  "bob = ''bbbbbbbbbbbbbbbbbbbbbbbb''"

definition paris_id :: oid where
  "paris_id = ''0123456789abcdef01234567''"

definition paris :: itinerary where
  "paris =
     \<lparr>doc_id = paris_id, userId = alice, title = ''Paris Trip'', destination = ''Paris'',
      startDate = 1717200000000, endDate = 1717545600000, activities = Some [],
      shareableId = None, createdAt = 1700000000000, updatedAt = 1700000000000\<rparr>"

definition state0 :: state where
  "state0 =
     \<lparr>users = [\<lparr>user_id = alice, email = ''alice@example.com'', name = ''Alice''\<rparr>,
               \<lparr>user_id = bob, email = ''bob@example.com'', name = ''Bob''\<rparr>],
      itineraries = [paris], redisClient = None, memoryCache = Map.empty, timers = [],
      console = []\<rparr>"

text \<open>\<^verbatim>\<open>GET /api/itineraries/0123456789abcdef01234567\<close> without a token.\<close>

definition get_paris :: request where
  "get_paris =
     \<lparr>http_method = GET, originalUrl = ''/api/itineraries/0123456789abcdef01234567'',
      protocol = ''http'', host = ''localhost:5000'', authorization = None, req_userId = [],
      param_id = paris_id, param_shareableId = [], q_destination = None, q_page = None,
      q_limit = None, q_sort = None, q_nocache = None, body_title = Absent,
      body_destination = Absent, body_startDate = Absent, body_endDate = Absent,
      body_activities = Absent, clock = 1700000001000,
      new_ObjectId = ''0123456789abcdef01234568'',
      uuidv4 = ''1b9d6bcd-bbfd-4b2d-9b5d-ab8dfbbd4bed''\<rparr>"

definition as_alice :: "request \<Rightarrow> request" where
  "as_alice r = r\<lparr>authorization := Some ''Bearer token-of-alice''\<rparr>"

definition as_bob :: "request \<Rightarrow> request" where
  "as_bob r = r\<lparr>authorization := Some ''Bearer token-of-bob''\<rparr>"

text \<open>The same request with \<^verbatim>\<open>?nocache=true\<close>.\<close>

definition get_paris_nocache :: request where
  "get_paris_nocache =
     get_paris\<lparr>originalUrl := ''/api/itineraries/0123456789abcdef01234567?nocache=true'',
               q_nocache := Some (QStr ''true'')\<rparr>"

text \<open>\<^verbatim>\<open>DELETE /api/itineraries/0123456789abcdef01234567\<close>.\<close>

definition delete_paris :: request where
  "delete_paris = get_paris\<lparr>http_method := DELETE\<rparr>"

text \<open>The state after the owner has fetched the itinerary once: both cache keys are filled.\<close>

definition state_cached :: state where
  "state_cached =
     state0\<lparr>memoryCache :=
              [''itinerary:0123456789abcdef01234567'' \<mapsto> itinerary_json paris,
               ''cache:/api/itineraries/0123456789abcdef01234567'' \<mapsto>
                 JObj [(''itinerary'', itinerary_json paris)]],
            timers := [(''itinerary:0123456789abcdef01234567'', 300000),
                       (''cache:/api/itineraries/0123456789abcdef01234567'', 300000)]\<rparr>"

text \<open>The state after the owner has then deleted it: the document is gone, the key
  \<^verbatim>\<open>itinerary:<id>\<close> is evicted, the key of the URL is not.\<close>

definition state_deleted :: state where
  "state_deleted =
     state0\<lparr>itineraries := [],
            memoryCache :=
              [''cache:/api/itineraries/0123456789abcdef01234567'' \<mapsto>
                 JObj [(''itinerary'', itinerary_json paris)]],
            timers := [(''itinerary:0123456789abcdef01234567'', 300000),
                       (''cache:/api/itineraries/0123456789abcdef01234567'', 300000)]\<rparr>"

text \<open>The server started while Redis is out of reach: \<^verbatim>\<open>initRedis\<close> has created the
  client and awaits \<^verbatim>\<open>connect()\<close>; nothing is stored and no command is queued yet.\<close>

definition redis_offline :: redis where
  "redis_offline = \<lparr>rdata = Map.empty, connection = Offline, offlineQueue = []\<rparr>"

definition state_offline :: state where
  "state_offline = state0\<lparr>redisClient := Some redis_offline\<rparr>"

text \<open>A shared itinerary, and the GraphQL query
  \<^verbatim>\<open>{ sharedItinerary(shareableId: "test-shareable-id-123") { title userId } }\<close>.\<close>

definition paris_shared :: itinerary where
  "paris_shared = paris\<lparr>shareableId := Some ''test-shareable-id-123''\<rparr>"

definition state_shared :: state where
  "state_shared = state0\<lparr>itineraries := [paris_shared]\<rparr>"

definition gql0 :: gql_request where
  "gql0 =
     \<lparr>g_authorization = None, arg_id = paris_id, arg_shareableId = [],
      arg_destination = Absent, arg_page = Absent, arg_limit = Absent, arg_sort = Absent,
      input_title = Absent, input_destination = Absent, input_startDate = Absent,
      input_endDate = Absent, input_activities = Absent, selection = [],
      g_clock = 1700000001000, g_new_ObjectId = ''0123456789abcdef01234568'',
      g_uuidv4 = ''1b9d6bcd-bbfd-4b2d-9b5d-ab8dfbbd4bed''\<rparr>"

definition shared_query :: gql_request where
  "shared_query =
     gql0\<lparr>arg_shareableId := ''test-shareable-id-123'', selection := [''title'', ''userId'']\<rparr>"

text \<open>An itinerary of the second user with the same destination, and a list request of the
  first user, on either surface, filtered by that destination.\<close>

definition rome :: itinerary where
  "rome =
     \<lparr>doc_id = ''0123456789abcdef01234569'', userId = bob, title = ''Rome, then Paris'',
      destination = ''Paris'', startDate = 1717200000000, endDate = 1717545600000,
      activities = Some [], shareableId = None, createdAt = 1700000000500,
      updatedAt = 1700000000500\<rparr>"

definition state_two :: state where
  "state_two = state0\<lparr>itineraries := [paris, rome]\<rparr>"

definition list_paris :: request where
  "list_paris =
     get_paris\<lparr>originalUrl := ''/api/itineraries?destination=Paris'', param_id := [],
               q_destination := Some (QStr ''Paris'')\<rparr>"

definition list_query :: gql_request where
  "list_query =
     gql0\<lparr>g_authorization := Some ''Bearer token-of-alice'', arg_destination := Value ''Paris''\<rparr>"

text \<open>\<^verbatim>\<open>POST /api/itineraries/<id>/share\<close> by the owner, twice (the second time the
  runtime would draw another UUID), and the same mutation in GraphQL.\<close>

definition share_paris :: request where
  "share_paris =
     get_paris\<lparr>http_method := POST,
               originalUrl := ''/api/itineraries/0123456789abcdef01234567/share'',
               req_userId := alice\<rparr>"

definition share_paris_again :: request where
  "share_paris_again =
     share_paris\<lparr>clock := 1700000002000, uuidv4 := ''9c5b94b1-35ad-49bb-b118-8e8fc24abf80''\<rparr>"

definition share_mutation :: gql_request where
  "share_mutation = gql0\<lparr>g_authorization := Some ''Bearer token-of-alice''\<rparr>"

definition share_mutation_again :: gql_request where
  "share_mutation_again =
     share_mutation\<lparr>g_clock := 1700000002000, g_uuidv4 := ''9c5b94b1-35ad-49bb-b118-8e8fc24abf80''\<rparr>"

text \<open>The store after the first of the two requests.\<close>

definition state_linked :: state where
  "state_linked =
     state0\<lparr>itineraries :=
              [paris\<lparr>shareableId := Some ''1b9d6bcd-bbfd-4b2d-9b5d-ab8dfbbd4bed'',
                     updatedAt := 1700000001000\<rparr>]\<rparr>"

text \<open>\<^verbatim>\<open>GET /api/itineraries?limit=0\<close>, handled for the first user; the same with the
  destination filter \<^verbatim>\<open>(\<close>; and the same with \<^verbatim>\<open>sort\<close> given twice, which the
  query parser makes an array.\<close>

definition list_limit_zero :: request where
  "list_limit_zero =
     get_paris\<lparr>originalUrl := ''/api/itineraries?limit=0'', param_id := [],
               req_userId := alice, q_limit := Some (QStr ''0'')\<rparr>"

definition list_limit_zero_bad_filter :: request where
  "list_limit_zero_bad_filter =
     list_limit_zero\<lparr>originalUrl := ''/api/itineraries?limit=0&destination=('',
                     q_destination := Some (QStr ''('')\<rparr>"

definition list_limit_zero_two_sorts :: request where
  "list_limit_zero_two_sorts =
     list_limit_zero\<lparr>originalUrl := ''/api/itineraries?limit=0&sort=title&sort=createdAt'',
                     q_sort := Some (QArr [QStr ''title'', QStr ''createdAt''])\<rparr>"

text \<open>The invariant of the store: no stored itinerary ends before it starts.\<close>

definition dates_ordered :: "state \<Rightarrow> bool" where
  "dates_ordered S = list_all (\<lambda>d. startDate d \<le> endDate d) (itineraries S)"

text \<open>Writes that would store an end before the start: a creation with the two dates
  swapped, and an update that moves only the start past the stored end; on either
  surface.\<close>

definition create_inverted :: request where
  "create_inverted =
     get_paris\<lparr>http_method := POST, originalUrl := ''/api/itineraries'', param_id := [],
               req_userId := alice, body_title := Value ''Lyon Trip'',
               body_destination := Value ''Lyon'', body_startDate := Value ''2024-06-05'',
               body_endDate := Value ''2024-06-01''\<rparr>"

definition update_start_late :: request where
  "update_start_late =
     get_paris\<lparr>http_method := PUT, req_userId := alice, body_startDate := Value ''2024-06-10''\<rparr>"

definition create_inverted_mutation :: gql_request where
  "create_inverted_mutation =
     gql0\<lparr>g_authorization := Some ''Bearer token-of-alice'', input_title := Value ''Lyon Trip'',
          input_destination := Value ''Lyon'', input_startDate := Value ''2024-06-05'',
          input_endDate := Value ''2024-06-01'', selection := [''_id'', ''title'']\<rparr>"

definition update_start_late_mutation :: gql_request where
  "update_start_late_mutation =
     gql0\<lparr>g_authorization := Some ''Bearer token-of-alice'',
          input_startDate := Value ''2024-06-10'', selection := [''_id'', ''title'']\<rparr>"

text \<open>\<^verbatim>\<open>PUT /api/itineraries/<id>\<close> by the owner with the body \<^verbatim>\<open>{"title": "Updated"}\<close>,
  the same with \<^verbatim>\<open>{"title": ""}\<close>, the mutation \<^verbatim>\<open>updateItinerary\<close> with the input
  \<^verbatim>\<open>{title: "Updated"}\<close>, and the state after the first.\<close>

definition update_title :: request where
  "update_title = get_paris\<lparr>http_method := PUT, req_userId := alice, body_title := Value ''Updated''\<rparr>"

definition update_empty_title :: request where
  "update_empty_title = get_paris\<lparr>http_method := PUT, req_userId := alice, body_title := Value []\<rparr>"

definition update_title_mutation :: gql_request where
  "update_title_mutation =
     gql0\<lparr>g_authorization := Some ''Bearer token-of-alice'', input_title := Value ''Updated''\<rparr>"

definition paris_updated :: itinerary where
  "paris_updated = paris\<lparr>title := ''Updated'', updatedAt := 1700000001000\<rparr>"

definition state_updated :: state where
  "state_updated = state0\<lparr>itineraries := [paris_updated]\<rparr>"

section \<open>The two surfaces side by side\<close>

text \<open>
  The shaping of the transport, for comparing a REST route with the GraphQL resolver of the
  same operation.  The two requests carry the same \<^verbatim>\<open>Authorization\<close> header, whose token
  verifies to a user that has a record (its id an ObjectId in canonical form), and the
  runtime supplies the same clock, ObjectId and UUID; for an operation on one itinerary
  they name the same itinerary.
\<close>

definition same_caller :: "lib \<Rightarrow> state \<Rightarrow> request \<Rightarrow> gql_request \<Rightarrow> bool" where
  "same_caller E S req g =
     (g_authorization g = authorization req \<and>
      (case getUserFromRequest E g of
         None \<Rightarrow> False
       | Some uid \<Rightarrow>
           uid \<noteq> [] \<and> objectId E uid = Some uid \<and> User_findById (users S) uid \<noteq> None) \<and>
      g_clock g = clock req \<and> g_uuidv4 g = uuidv4 req \<and>
      g_new_ObjectId g = new_ObjectId req)"

definition same_target :: "lib \<Rightarrow> state \<Rightarrow> request \<Rightarrow> gql_request \<Rightarrow> bool" where
  "same_target E S req g = (same_caller E S req g \<and> arg_id g = param_id req)"

text \<open>
  A field of an update is left out on both sides, or given on both with the same value,
  which is neither \<^verbatim>\<open>null\<close> nor the empty string; a date string is one that Mongoose's
  cast and \<^verbatim>\<open>new Date\<close> read alike.
\<close>

fun same_string :: "string field \<Rightarrow> string field \<Rightarrow> bool" where
  "same_string Absent Absent = True"
| "same_string (Value a) (Value b) = (a = b \<and> a \<noteq> [])"
| "same_string x y = False"

fun same_date :: "lib \<Rightarrow> string field \<Rightarrow> string field \<Rightarrow> bool" where
  "same_date E Absent Absent = True"
| "same_date E (Value a) (Value b) = (a = b \<and> a \<noteq> [] \<and> castDate E a = newDate E a)"
| "same_date E x y = False"

fun same_array :: "'a list field \<Rightarrow> 'a list field \<Rightarrow> bool" where
  "same_array Absent Absent = True"
| "same_array (Value a) (Value b) = (a = b)"
| "same_array x y = False"

definition same_update :: "lib \<Rightarrow> state \<Rightarrow> request \<Rightarrow> gql_request \<Rightarrow> bool" where
  "same_update E S req g =
     (same_target E S req g \<and>
      same_string (body_title req) (input_title g) \<and>
      same_string (body_destination req) (input_destination g) \<and>
      same_date E (body_startDate req) (input_startDate g) \<and>
      same_date E (body_endDate req) (input_endDate g) \<and>
      same_array (body_activities req) (input_activities g))"

text \<open>For a creation the four strings are required by the GraphQL schema; the title and the
  destination may be empty (both surfaces then fail the validation).\<close>

fun same_required :: "string field \<Rightarrow> string field \<Rightarrow> bool" where
  "same_required (Value a) (Value b) = (a = b)"
| "same_required x y = False"

fun same_required_date :: "lib \<Rightarrow> string field \<Rightarrow> string field \<Rightarrow> bool" where
  "same_required_date E (Value a) (Value b) = (a = b \<and> a \<noteq> [] \<and> castDate E a = newDate E a)"
| "same_required_date E x y = False"

definition same_create :: "lib \<Rightarrow> state \<Rightarrow> request \<Rightarrow> gql_request \<Rightarrow> bool" where
  "same_create E S req g =
     (same_caller E S req g \<and>
      same_required (body_title req) (input_title g) \<and>
      same_required (body_destination req) (input_destination g) \<and>
      same_required_date E (body_startDate req) (input_startDate g) \<and>
      same_required_date E (body_endDate req) (input_endDate g) \<and>
      or_empty (body_activities req) = or_empty (input_activities g))"

text \<open>For a list the query string reads as the arguments of the query: the same filter,
  page and limit, and the same sort string, given on both sides or left out on both (a
  query string has no \<^verbatim>\<open>null\<close>).\<close>

definition same_list_query :: "lib \<Rightarrow> state \<Rightarrow> request \<Rightarrow> gql_request \<Rightarrow> bool" where
  "same_list_query E S req g =
     (same_caller E S req g \<and>
      destination_pattern (q_destination req) = Inr (truthy_pattern (arg_destination g)) \<and>
      parseInt_or E 1 (q_page req) = Inr (int_arg 1 (arg_page g)) \<and>
      parseInt_or E 10 (q_limit req) = Inr (int_arg 10 (arg_limit g)) \<and>
      arg_sort g \<noteq> Null \<and>
      sort_string (q_sort req) = Inr (case arg_sort g of Value s \<Rightarrow> s | _ \<Rightarrow> ''createdAt''))"

text \<open>A \<^verbatim>\<open>GET\<close> by id finds nothing in the cache: the backend is in reach, and when it is
  ready neither the key of the URL nor the key of the itinerary holds an entry.\<close>

definition cache_misses :: "state \<Rightarrow> request \<Rightarrow> bool" where
  "cache_misses S req =
     (case backend S of
        Offline \<Rightarrow> False
      | Rejecting e \<Rightarrow> True
      | Ready \<Rightarrow>
          \<not> truthy (cached_value S (''cache:'' @ originalUrl req)) \<and>
          \<not> truthy (cached_value S (''itinerary:'' @ param_id req)))"

text \<open>The REST reply for the error a resolver throws: the messages of the guards have a
  status of their own, a validation error is a 400 with its first message, anything else a
  500.  \<^verbatim>\<open>generateShareableLink\<close> has no branch for the validation error.\<close>

definition status_message :: "nat \<Rightarrow> string \<Rightarrow> answer" where
  "status_message code m = Some \<lparr>status = code, body = JObj [(''message'', JStr m)]\<rparr>"

definition status_500 :: "js_error \<Rightarrow> answer" where
  "status_500 e =
     Some \<lparr>status = 500,
           body = JObj [(''message'', JStr ''Server error''), (''error'', JStr (error_message e))]\<rparr>"

fun rest_error :: "js_error \<Rightarrow> answer" where
  "rest_error (ValidationError ms) = status_message 400 (first_message ms)"
| "rest_error (Error m) =
     (if m = ''Invalid itinerary ID format'' then status_message 400 m
      else if m = ''Itinerary not found'' then status_message 404 m
      else if m = ''Access denied'' then status_message 403 m
      else if m = ''Authentication required'' then status_message 401 m
      else status_500 (Error m))"
| "rest_error (MongoServerError m) = status_500 (MongoServerError m)"
| "rest_error (GraphQLError m) = status_500 (GraphQLError m)"

fun share_error :: "js_error \<Rightarrow> answer" where
  "share_error (ValidationError ms) = status_500 (ValidationError ms)"
| "share_error e = rest_error e"

text \<open>The errors with which the type \<^verbatim>\<open>Int\<close> refuses a number.\<close>

definition Int_errors :: "js_error list" where
  "Int_errors =
     [Error ''Int cannot represent non 32-bit signed integer value'',
      Error ''Int cannot represent non-integer value'']"

text \<open>Requests of the first user for the comparison: a creation, and the query and the
  mutations on her itinerary as the GraphQL surface receives them.\<close>

definition create_lyon :: request where
  "create_lyon =
     get_paris\<lparr>http_method := POST, originalUrl := ''/api/itineraries'', param_id := [],
               body_title := Value ''Lyon Trip'',
               body_destination := Value ''Lyon'', body_startDate := Value ''2024-06-01'',
               body_endDate := Value ''2024-06-05''\<rparr>"

definition create_lyon_mutation :: gql_request where
  "create_lyon_mutation =
     gql0\<lparr>g_authorization := Some ''Bearer token-of-alice'', arg_id := [],
          input_title := Value ''Lyon Trip'', input_destination := Value ''Lyon'',
          input_startDate := Value ''2024-06-01'', input_endDate := Value ''2024-06-05''\<rparr>"

definition paris_query :: gql_request where
  "paris_query = gql0\<lparr>g_authorization := Some ''Bearer token-of-alice''\<rparr>"

text \<open>Where the two surfaces part: the same requests with no record of the user in the
  store; an update with the empty title, with \<^verbatim>\<open>null\<close> activities, and with the start
  date as a string of milliseconds, which Mongoose's cast reads and \<^verbatim>\<open>new Date\<close> does not;
  a list with limit 0; and the query of the second user for the itinerary of the first.
  The requests still lack the header, which \<^const>\<open>as_alice\<close> adds.\<close>

definition state_no_users :: state where
  "state_no_users = state0\<lparr>users := []\<rparr>"

definition update_empty_title_mutation :: gql_request where
  "update_empty_title_mutation =
     gql0\<lparr>g_authorization := Some ''Bearer token-of-alice'', input_title := Value []\<rparr>"

definition update_null_activities :: request where
  "update_null_activities = get_paris\<lparr>http_method := PUT, body_activities := Null\<rparr>"

definition update_null_activities_mutation :: gql_request where
  "update_null_activities_mutation =
     gql0\<lparr>g_authorization := Some ''Bearer token-of-alice'', input_activities := Null\<rparr>"

definition update_start_millis :: request where
  "update_start_millis =
     get_paris\<lparr>http_method := PUT, body_startDate := Value ''1717200000000''\<rparr>"

definition update_start_millis_mutation :: gql_request where
  "update_start_millis_mutation =
     gql0\<lparr>g_authorization := Some ''Bearer token-of-alice'',
          input_startDate := Value ''1717200000000''\<rparr>"

definition list_limit_zero_query :: gql_request where
  "list_limit_zero_query =
     gql0\<lparr>g_authorization := Some ''Bearer token-of-alice'', arg_limit := Value 0\<rparr>"

definition paris_query_of_bob :: gql_request where
  "paris_query_of_bob = gql0\<lparr>g_authorization := Some ''Bearer token-of-bob''\<rparr>"

text \<open>A creation with the empty string as its start date, on either surface.\<close>

definition create_empty_start :: request where
  "create_empty_start = create_lyon\<lparr>body_startDate := Value []\<rparr>"

definition create_empty_start_mutation :: gql_request where
  "create_empty_start_mutation = create_lyon_mutation\<lparr>input_startDate := Value []\<rparr>"

text \<open>\<^verbatim>\<open>GET /api/itineraries\<close> with no query string, beside the query
  \<^verbatim>\<open>{ itineraries(sort: null) { total } }\<close>.\<close>

definition list_unfiltered :: request where
  "list_unfiltered = get_paris\<lparr>originalUrl := ''/api/itineraries'', param_id := []\<rparr>"

definition list_sort_null_query :: gql_request where
  "list_sort_null_query =
     gql0\<lparr>g_authorization := Some ''Bearer token-of-alice'', arg_sort := Null\<rparr>"

section \<open>What the cache operations return\<close>

lemmas cache_defs =
  getCache_def getCache_try_def setCache_def setCache_try_def deleteCache_def
  deleteCache_try_def redis_get_def redis_setEx_def redis_del_def redis_command_def

text \<open>No cache operation rejects: the \<^verbatim>\<open>catch\<close> of each turns a rejection of the
  backend into a line on the console.\<close>

lemma getCache_not_rejected: "fst (getCache S key) \<noteq> Rejected e"
  by (simp add: cache_defs split: option.split connection.split)

lemma setCache_not_rejected: "fst (setCache S key v n) \<noteq> Rejected e"
  by (simp add: cache_defs split: option.split connection.split)

lemma deleteCache_not_rejected: "fst (deleteCache S key) \<noteq> Rejected e"
  by (simp add: cache_defs split: option.split connection.split)

text \<open>On a backend that is ready the three operations are fulfilled: the read returns the
  stored value and changes nothing, the write and the eviction are seen by the next
  read.\<close>

lemma getCache_ready:
  "backend S = Ready \<Longrightarrow> getCache S key = (Fulfilled (cached_value S key), S)"
  by (auto simp add: cache_defs backend_def cached_value_def split: option.splits)

lemma setCache_ready:
  "backend S = Ready \<Longrightarrow>
   fst (setCache S key v n) = Fulfilled () \<and>
   cached_value (snd (setCache S key v n)) key =
     (if redisClient S = None \<and> \<not> truthy v then JNull else v)"
  by (auto simp add: cache_defs backend_def cached_value_def split: option.splits)

lemma deleteCache_ready:
  "backend S = Ready \<Longrightarrow>
   fst (deleteCache S key) = Fulfilled () \<and> cached_value (snd (deleteCache S key)) key = JNull"
  by (auto simp add: cache_defs backend_def cached_value_def split: option.splits)

text \<open>On a backend that rejects its commands the read is a miss, and each operation leaves
  the state as it was but for one line on the console.\<close>

lemma cache_rejecting:
  assumes "backend S = Rejecting e"
  shows "getCache S key =
           (Fulfilled JNull,
            S\<lparr>console := console S @ [LogError ''Cache get error:'' (error_message e)]\<rparr>)"
    and "setCache S key v n =
           (Fulfilled (),
            S\<lparr>console := console S @ [LogError ''Cache set error:'' (error_message e)]\<rparr>)"
    and "deleteCache S key =
           (Fulfilled (),
            S\<lparr>console := console S @ [LogError ''Cache delete error:'' (error_message e)]\<rparr>)"
  using assms by (auto simp add: cache_defs backend_def split: option.splits)

text \<open>While the server is out of reach the command is queued, and the operation stays
  pending.\<close>

lemma cache_offline:
  assumes "backend S = Offline"
  shows "fst (getCache S key) = Pending" and "fst (setCache S key v n) = Pending"
    and "fst (deleteCache S key) = Pending"
  using assms by (auto simp add: cache_defs backend_def split: option.splits)

lemma cache_settles_iff:
  "(fst (getCache S key) = Pending) = (backend S = Offline)"
  "(fst (setCache S key v n) = Pending) = (backend S = Offline)"
  "(fst (deleteCache S key) = Pending) = (backend S = Offline)"
  by (auto simp add: cache_defs backend_def split: option.splits connection.splits)

section \<open>Runs of the handlers on the concrete inputs\<close>

lemmas input_defs =
  lib0_def state0_def state_cached_def state_deleted_def state_shared_def get_paris_def
  get_paris_nocache_def delete_paris_def as_alice_def as_bob_def alice_def bob_def paris_def
  paris_shared_def paris_id_def is_hex_def gql0_def shared_query_def

lemmas route_defs =
  GET_itinerary_def DELETE_itinerary_def PUT_itinerary_def GET_itineraries_def POST_share_def
  protected_def authenticate_def cacheMiddleware_def User_findById_def findById_def
  findByIdAndDelete_def reply_def json_message_def itinerary_json_def toObject_def
  server_error_def

lemma owner_GET_fills_cache:
  "GET_itinerary lib0 state0 (as_alice get_paris) =
     (reply 200 (JObj [(''itinerary'', itinerary_json paris)]), state_cached)"
  by (simp add: input_defs route_defs cache_defs getItineraryById_def Let_def)

text \<open>Without a token the route answers 401 before the cache is read, in every state.\<close>

lemma anonymous_GET_is_401:
  "authorization req = None \<Longrightarrow>
   GET_itinerary E S req = (reply 401 (json_message ''Authentication required''), S)"
  by (simp add: GET_itinerary_def protected_def authenticate_def)

text \<open>
  C1.  The owner's \<^verbatim>\<open>GET\<close> of her itinerary fills both cache keys.  Bob, who does not own
  it, is refused with 403 as long as the cache is empty; after the owner's request the same
  \<^verbatim>\<open>GET\<close> by Bob is answered 200 with the owner's itinerary, from the key of the URL, and
  with \<^verbatim>\<open>?nocache=true\<close> it is answered 200 from the key \<^verbatim>\<open>itinerary:<id>\<close>: both
  cache reads come before the ownership check.
\<close>

theorem nonowner_GET_answered_from_cache:
  "userId paris \<noteq> bob \<and>
   fst (GET_itinerary lib0 state0 (as_bob get_paris)) = reply 403 (json_message ''Access denied'') \<and>
   snd (GET_itinerary lib0 state0 (as_alice get_paris)) = state_cached \<and>
   fst (GET_itinerary lib0 state_cached (as_bob get_paris)) =
     reply 200 (JObj [(''itinerary'', itinerary_json paris)]) \<and>
   fst (GET_itinerary lib0 state_cached (as_bob get_paris_nocache)) =
     reply 200 (itinerary_json paris)"
  by (simp add: input_defs route_defs cache_defs getItineraryById_def Let_def)

text \<open>
  C2.  After the owner has fetched and then deleted her itinerary, the document is gone
  from the store, yet her next \<^verbatim>\<open>GET\<close> is answered 200 with the deleted itinerary:
  \<^verbatim>\<open>deleteItinerary\<close> evicts \<^verbatim>\<open>itinerary:<id>\<close> and leaves the entry that the response
  cache wrote under the URL.
\<close>

theorem GET_after_DELETE_answered_from_cache:
  "snd (GET_itinerary lib0 state0 (as_alice get_paris)) = state_cached \<and>
   DELETE_itinerary lib0 state_cached (as_alice delete_paris) =
     (reply 200 (json_message ''Itinerary deleted successfully''), state_deleted) \<and>
   findById (itineraries state_deleted) paris_id = None \<and>
   fst (GET_itinerary lib0 state_deleted (as_alice get_paris)) =
     reply 200 (JObj [(''itinerary'', itinerary_json paris)])"
  by (simp add: input_defs route_defs cache_defs getItineraryById_def deleteItinerary_def
      Let_def fun_upd_twist)

text \<open>The REST handler of a shared itinerary sends exactly eight properties, and
  \<^verbatim>\<open>userId\<close> is not one of them.\<close>

lemma getSharedItinerary_redacted:
  "getSharedItinerary E S req = (Some res, S') \<Longrightarrow> status res = 200 \<Longrightarrow>
   \<exists>kvs. body res = JObj [(''itinerary'', JObj kvs)] \<and>
         map fst kvs = [''_id'', ''title'', ''destination'', ''startDate'', ''endDate'',
                        ''activities'', ''createdAt'', ''updatedAt'']"
  by (auto simp add: getSharedItinerary_def reply_def split: option.splits)

text \<open>
  C3.  The GraphQL query \<^verbatim>\<open>sharedItinerary\<close> needs no token, and the type of its result
  has the field \<^verbatim>\<open>userId\<close>: a query that selects it receives the owner's id.
\<close>

theorem sharedItinerary_returns_userId:
  "g_authorization shared_query = None \<and>
   fst (execute_Itinerary (Query_sharedItinerary lib0) state_shared shared_query) =
     Inr (JObj [(''title'', JStr ''Paris Trip''), (''userId'', JStr alice)])"
  by (simp add: input_defs execute_Itinerary_def Query_sharedItinerary_def
      findOne_shareableId_def select_fields_def null_field_def toObject_def Itinerary_type_def)

section \<open>The cache while Redis is out of reach\<close>

lemmas offline_defs =
  redis_offline_def state_offline_def update_title_def paris_updated_def

text \<open>
  C9.  With the Redis server out of reach, the three cache operations neither return a
  value nor throw: each awaits a command that stays in the client's queue.  So the owner's
  \<^verbatim>\<open>GET\<close> of her itinerary is never answered, with or without \<^verbatim>\<open>?nocache=true\<close>, and
  her update is written to the store and never answered.
\<close>

theorem cache_operations_pending_while_offline:
  "redisClient state_offline = Some redis_offline \<and> connection redis_offline = Offline \<and>
   fst (getCache state_offline ''itinerary:0123456789abcdef01234567'') = Pending \<and>
   fst (setCache state_offline ''itinerary:0123456789abcdef01234567'' (itinerary_json paris) 300) =
     Pending \<and>
   fst (deleteCache state_offline ''itinerary:0123456789abcdef01234567'') = Pending \<and>
   fst (GET_itinerary lib0 state_offline (as_alice get_paris)) = None \<and>
   fst (GET_itinerary lib0 state_offline (as_alice get_paris_nocache)) = None \<and>
   fst (PUT_itinerary lib0 state_offline (as_alice update_title)) = None \<and>
   itineraries (snd (PUT_itinerary lib0 state_offline (as_alice update_title))) = [paris_updated]"
  by (simp add: input_defs offline_defs route_defs cache_defs getItineraryById_def
      updateItinerary_def save_loaded_def validated_def validate_def hydrate_def
      rest_assign_def shareableId_taken_def trim_def is_space_def Let_def)

section \<open>Listing returns only the itineraries of the requester\<close>

lemma set_db_sort: "set (db_sort f ord xs) = set xs"
  by (simp add: db_sort_def)

lemma in_db_page:
  "x \<in> set (take m (drop n (db_sort f ord (filter q docs)))) \<Longrightarrow> x \<in> set docs \<and> q x"
  by (auto dest!: in_set_takeD in_set_dropD simp add: set_db_sort)

lemma in_db_rest:
  "x \<in> set (drop n (db_sort f ord (filter q docs))) \<Longrightarrow> x \<in> set docs \<and> q x"
  by (auto dest!: in_set_dropD simp add: set_db_sort)

lemma db_find_subset:
  assumes "db_find E q f ord sk lm docs = Inr found" and "x \<in> set found"
  shows "x \<in> set docs \<and> q x"
proof (cases sk)
  case (Fin s)
  note sk = this
  show ?thesis
  proof (cases lm)
    case (Fin l)
    with sk assms show ?thesis
      by (cases "l = 0") (auto simp add: db_find_def Let_def dest: in_db_page in_db_rest split: if_splits)
  qed (use sk assms in \<open>simp_all add: db_find_def split: if_splits\<close>)
qed (use assms in \<open>simp_all add: db_find_def split: if_splits\<close>)

lemma build_query_shape:
  assumes "build_query E uid pattern = Some q"
  obtains test where "q = (\<lambda>d. userId d = uid \<and> test (destination d))"
proof (cases pattern)
  case None
  with assms have "q = (\<lambda>d. userId d = uid \<and> (\<lambda>t. True) (destination d))"
    by (auto simp add: build_query_def)
  then show ?thesis by (rule that)
next
  case (Some s)
  with assms obtain test where "q = (\<lambda>d. userId d = uid \<and> test (destination d))"
    by (cases "regExp E s") (auto simp add: build_query_def)
  then show ?thesis by (rule that)
qed

lemma getItineraries_200:
  assumes "getItineraries E S req = (Some res, S')" and "status res = 200"
  shows "\<exists>pattern q page limit sort_param found.
    destination_pattern (q_destination req) = Inr pattern \<and>
    build_query E (req_userId req) pattern = Some q \<and>
    parseInt_or E 1 (q_page req) = Inr page \<and>
    parseInt_or E 10 (q_limit req) = Inr limit \<and>
    sort_string (q_sort req) = Inr sort_param \<and>
    db_find E q (sortField_of sort_param) (sortOrder_of sort_param) (list_skip page limit) limit
      (itineraries S) = Inr found \<and>
    S' = S \<and>
    body res =
       JObj [(''itineraries'', JArr (map itinerary_json found)),
             (''pagination'',
              JObj [(''page'', json_num page),
                    (''limit'', json_num limit),
                    (''total'', JNum (int (countDocuments q (itineraries S)))),
                    (''pages'', json_num (ceil_div (countDocuments q (itineraries S)) limit))])]"
  using assms
  by (auto simp add: getItineraries_def server_error_def reply_def Let_def
      split: sum.splits option.splits)

lemma retry_findById_Some: "retry_findById n us i = Some u \<Longrightarrow> User_findById us i = Some u"
  by (induction n) (auto split: option.splits)

lemma authenticate_cases:
  obtains (refused) res where "authenticate E S req = Inl (Some res)" "status res = 401"
  | (accepted) hdr uid where "authorization req = Some hdr"
      "jwt_verify E (remove_first ''Bearer '' hdr) = Some uid"
      "User_findById (users S) uid \<noteq> None"
      "authenticate E S req = Inr (req\<lparr>req_userId := uid\<rparr>)"
proof (cases "authenticate E S req")
  case (Inl a)
  then obtain res where "a = Some res" "status res = 401"
    by (auto simp add: authenticate_def reply_def Let_def split: option.splits if_splits)
  with Inl show ?thesis by (auto intro: refused)
next
  case (Inr req')
  then obtain hdr uid where "authorization req = Some hdr"
      "jwt_verify E (remove_first ''Bearer '' hdr) = Some uid" "req' = req\<lparr>req_userId := uid\<rparr>"
      "User_findById (users S) uid \<noteq> None"
    by (auto simp add: authenticate_def Let_def split: option.splits if_splits
        dest: retry_findById_Some)
  with Inr show ?thesis by (auto intro: accepted)
qed

lemma protected_200:
  assumes "protected E handler S req = (Some res, S')" and "status res = 200"
  obtains hdr uid where "authorization req = Some hdr"
      "jwt_verify E (remove_first ''Bearer '' hdr) = Some uid"
      "handler S (req\<lparr>req_userId := uid\<rparr>) = (Some res, S')"
proof (cases rule: authenticate_cases [of E S req])
  case (refused r)
  with assms show ?thesis by (auto simp add: protected_def)
next
  case (accepted hdr uid)
  with assms that [OF accepted(1,2)] show ?thesis by (simp add: protected_def)
qed

lemma GET_itineraries_own:
  assumes "GET_itineraries E S req = (Some res, S')" and "status res = 200"
  shows "\<exists>hdr uid found test page limit.
           authorization req = Some hdr \<and>
           jwt_verify E (remove_first ''Bearer '' hdr) = Some uid \<and>
           parseInt_or E 1 (q_page req) = Inr page \<and>
           parseInt_or E 10 (q_limit req) = Inr limit \<and>
           body res =
             JObj [(''itineraries'', JArr (map itinerary_json found)),
                   (''pagination'',
                    JObj [(''page'', json_num page),
                          (''limit'', json_num limit),
                          (''total'', JNum (int (length (filter (\<lambda>d. userId d = uid \<and> test (destination d)) (itineraries S))))),
                          (''pages'', json_num (ceil_div (length (filter (\<lambda>d. userId d = uid \<and> test (destination d)) (itineraries S))) limit))])] \<and>
           list_all (\<lambda>d. userId d = uid \<and> test (destination d) \<and> d \<in> set (itineraries S)) found"
proof -
  from assms obtain hdr uid where hdr: "authorization req = Some hdr"
    and uid: "jwt_verify E (remove_first ''Bearer '' hdr) = Some uid"
    and run: "getItineraries E S (req\<lparr>req_userId := uid\<rparr>) = (Some res, S')"
    unfolding GET_itineraries_def by (rule protected_200)
  from getItineraries_200 [OF run assms(2)] obtain pattern q page limit sort_param found where
    q: "build_query E uid pattern = Some q"
    and page: "parseInt_or E 1 (q_page req) = Inr page"
    and limit: "parseInt_or E 10 (q_limit req) = Inr limit"
    and found: "db_find E q (sortField_of sort_param) (sortOrder_of sort_param)
       (list_skip page limit) limit (itineraries S) = Inr found"
    and b: "body res =
       JObj [(''itineraries'', JArr (map itinerary_json found)),
             (''pagination'',
              JObj [(''page'', json_num page),
                    (''limit'', json_num limit),
                    (''total'', JNum (int (countDocuments q (itineraries S)))),
                    (''pages'', json_num (ceil_div (countDocuments q (itineraries S)) limit))])]"
    by auto
  from q obtain test where test: "q = (\<lambda>d. userId d = uid \<and> test (destination d))"
    by (rule build_query_shape)
  from db_find_subset [OF found] test
  have own: "list_all (\<lambda>d. userId d = uid \<and> test (destination d) \<and> d \<in> set (itineraries S)) found"
    by (simp add: list_all_iff)
  from b test have b': "body res =
             JObj [(''itineraries'', JArr (map itinerary_json found)),
                   (''pagination'',
                    JObj [(''page'', json_num page),
                          (''limit'', json_num limit),
                          (''total'', JNum (int (length (filter (\<lambda>d. userId d = uid \<and> test (destination d)) (itineraries S))))),
                          (''pages'', json_num (ceil_div (length (filter (\<lambda>d. userId d = uid \<and> test (destination d)) (itineraries S))) limit))])]"
    by (simp add: countDocuments_def)
  show ?thesis
    by (intro exI conjI) (rule hdr, rule uid, rule page, rule limit, rule b', rule own)
qed

lemma as_user_Inr:
  assumes "as_user E req S f = (Inr v, S')"
  obtains uid where "getUserFromRequest E req = Some uid" "uid \<noteq> []" "f uid = (Inr v, S')"
  using assms by (auto simp add: as_user_def split: option.splits if_splits)

lemma Query_itineraries_Inr:
  assumes "Query_itineraries E S req = (Inr v, S')"
  shows "\<exists>uid owner q found sf so sk pg pgs.
    getUserFromRequest E req = Some uid \<and> objectId E uid = Some owner \<and>
    build_query E owner (truthy_pattern (arg_destination req)) = Some q \<and>
    db_find E q sf so sk (int_arg 10 (arg_limit req)) (itineraries S) = Inr found \<and>
    v = JObj [(''itineraries'', JArr (map itinerary_json found)),
               (''total'', JNum (int (countDocuments q (itineraries S)))),
               (''page'', pg), (''pages'', pgs)]"
proof -
  from assms obtain uid where uid: "getUserFromRequest E req = Some uid"
    and run: "(case arg_sort req of
         Null \<Rightarrow> (Inl (Error ''Cannot read properties of null''), S)
       | _ \<Rightarrow>
       let sort_param = (case arg_sort req of Value s \<Rightarrow> s | _ \<Rightarrow> ''createdAt'') in
       case objectId E uid of
         None \<Rightarrow> (Inl (Error ''input must be a 24 character hex string''), S)
       | Some owner \<Rightarrow>
       (case build_query E owner (truthy_pattern (arg_destination req)) of
          None \<Rightarrow> (Inl (Error ''Invalid regular expression''), S)
        | Some query \<Rightarrow>
            let page = int_arg 1 (arg_page req); limit = int_arg 10 (arg_limit req)
            in (case db_find E query (sortField_of sort_param) (sortOrder_of sort_param)
                       (list_skip page limit) limit (itineraries S) of
                  Inl e \<Rightarrow> (Inl e, S)
                | Inr found \<Rightarrow>
                    let n = countDocuments query (itineraries S) in
                    (case (serialize_Int page, serialize_Int (ceil_div n limit)) of
                       (Inr pg, Inr pgs) \<Rightarrow>
                         (Inr (JObj [(''itineraries'', JArr (map itinerary_json found)),
                                     (''total'', JNum (int n)), (''page'', pg), (''pages'', pgs)]), S)
                     | (Inl e, _) \<Rightarrow> (Inl e, S)
                     | (_, Inl e) \<Rightarrow> (Inl e, S))))) = (Inr v, S')"
    unfolding Query_itineraries_def by (rule as_user_Inr)
  from run obtain owner where owner: "objectId E uid = Some owner"
    by (cases "objectId E uid") (auto simp add: Let_def split: field.splits)
  from run owner obtain q where q: "build_query E owner (truthy_pattern (arg_destination req)) = Some q"
    by (cases "build_query E owner (truthy_pattern (arg_destination req))")
      (auto simp add: Let_def split: field.splits)
  from run owner q uid show ?thesis
    by (auto simp add: Let_def split: field.splits sum.splits)
qed

lemmas input_defs2 = rome_def state_two_def list_paris_def list_query_def

lemmas list_defs = getItineraries_def build_query_def db_find_def db_sort_def sort_value_def
  countDocuments_def list_skip_def parseInt_or_def sortField_of_def sortOrder_of_def

lemma list_paris_run:
  "GET_itineraries lib0 state_two (as_alice list_paris) =
     (Some \<lparr>status = 200, body = JObj [(''itineraries'', JArr [itinerary_json paris]),
                       (''pagination'', JObj [(''page'', JNum 1), (''limit'', JNum 10),
                                             (''total'', JNum 1), (''pages'', JNum 1)])]\<rparr>,
      state_two)"
  by (simp add: input_defs input_defs2 route_defs list_defs Let_def)

lemma list_query_run:
  "Query_itineraries lib0 state_two list_query =
     (Inr (JObj [(''itineraries'', JArr [itinerary_json paris]), (''total'', JNum 1),
                 (''page'', JNum 1), (''pages'', JNum 1)]), state_two)"
  by (simp add: input_defs input_defs2 Query_itineraries_def as_user_def getUserFromRequest_def
      list_defs Let_def itinerary_json_def toObject_def)

text \<open>
  C7.  A list request that is answered 200 on the REST route was made with a token that
  verifies to a user \<open>uid\<close>, and every itinerary of the page is a stored itinerary of
  \<open>uid\<close> that passes the destination filter; the reported total is the number of stored
  itineraries of \<open>uid\<close> that pass the filter.  The same holds for the value of the GraphQL
  query \<^verbatim>\<open>itineraries\<close>, with the ObjectId of the token's user.  Page, limit and sort
  are arbitrary.
\<close>

theorem list_returns_only_own_itineraries:
  "(GET_itineraries E S req = (Some res, S') \<and> status res = 200 \<longrightarrow>
      (\<exists>hdr uid found test page limit.
           authorization req = Some hdr \<and>
           jwt_verify E (remove_first ''Bearer '' hdr) = Some uid \<and>
           parseInt_or E 1 (q_page req) = Inr page \<and>
           parseInt_or E 10 (q_limit req) = Inr limit \<and>
           body res =
             JObj [(''itineraries'', JArr (map itinerary_json found)),
                   (''pagination'',
                    JObj [(''page'', json_num page),
                          (''limit'', json_num limit),
                          (''total'', JNum (int (length (filter (\<lambda>d. userId d = uid \<and> test (destination d)) (itineraries S))))),
                          (''pages'', json_num (ceil_div (length (filter (\<lambda>d. userId d = uid \<and> test (destination d)) (itineraries S))) limit))])] \<and>
           list_all (\<lambda>d. userId d = uid \<and> test (destination d) \<and> d \<in> set (itineraries S)) found)) \<and>
   (Query_itineraries E S greq = (Inr v, S'') \<longrightarrow>
      (\<exists>uid owner found test pg pgs.
           getUserFromRequest E greq = Some uid \<and> objectId E uid = Some owner \<and>
           v = JObj [(''itineraries'', JArr (map itinerary_json found)),
                     (''total'', JNum (int (length (filter (\<lambda>d. userId d = owner \<and> test (destination d)) (itineraries S))))),
                     (''page'', pg), (''pages'', pgs)] \<and>
           list_all (\<lambda>d. userId d = owner \<and> test (destination d) \<and> d \<in> set (itineraries S)) found))"
proof (intro conjI impI)
  assume "GET_itineraries E S req = (Some res, S') \<and> status res = 200"
  then show "\<exists>hdr uid found test page limit.
           authorization req = Some hdr \<and>
           jwt_verify E (remove_first ''Bearer '' hdr) = Some uid \<and>
           parseInt_or E 1 (q_page req) = Inr page \<and>
           parseInt_or E 10 (q_limit req) = Inr limit \<and>
           body res =
             JObj [(''itineraries'', JArr (map itinerary_json found)),
                   (''pagination'',
                    JObj [(''page'', json_num page),
                          (''limit'', json_num limit),
                          (''total'', JNum (int (length (filter (\<lambda>d. userId d = uid \<and> test (destination d)) (itineraries S))))),
                          (''pages'', json_num (ceil_div (length (filter (\<lambda>d. userId d = uid \<and> test (destination d)) (itineraries S))) limit))])] \<and>
           list_all (\<lambda>d. userId d = uid \<and> test (destination d) \<and> d \<in> set (itineraries S)) found"
    using GET_itineraries_own [of E S req res S'] by simp
next
  assume run: "Query_itineraries E S greq = (Inr v, S'')"
  from Query_itineraries_Inr [OF run] obtain uid owner q found sf so sk pg pgs where
    uid: "getUserFromRequest E greq = Some uid" and owner: "objectId E uid = Some owner"
    and q: "build_query E owner (truthy_pattern (arg_destination greq)) = Some q"
    and found: "db_find E q sf so sk (int_arg 10 (arg_limit greq)) (itineraries S) = Inr found"
    and v: "v = JObj [(''itineraries'', JArr (map itinerary_json found)),
               (''total'', JNum (int (countDocuments q (itineraries S)))),
               (''page'', pg), (''pages'', pgs)]"
    by auto
  from q obtain test where test: "q = (\<lambda>d. userId d = owner \<and> test (destination d))"
    by (rule build_query_shape)
  from db_find_subset [OF found] test
  have own: "list_all (\<lambda>d. userId d = owner \<and> test (destination d) \<and> d \<in> set (itineraries S)) found"
    by (simp add: list_all_iff)
  from v test have v': "v = JObj [(''itineraries'', JArr (map itinerary_json found)),
                     (''total'', JNum (int (length (filter (\<lambda>d. userId d = owner \<and> test (destination d)) (itineraries S))))),
                     (''page'', pg), (''pages'', pgs)]"
    by (simp add: countDocuments_def)
  show "\<exists>uid owner found test pg pgs.
           getUserFromRequest E greq = Some uid \<and> objectId E uid = Some owner \<and>
           v = JObj [(''itineraries'', JArr (map itinerary_json found)),
                     (''total'', JNum (int (length (filter (\<lambda>d. userId d = owner \<and> test (destination d)) (itineraries S))))),
                     (''page'', pg), (''pages'', pgs)] \<and>
           list_all (\<lambda>d. userId d = owner \<and> test (destination d) \<and> d \<in> set (itineraries S)) found"
    by (intro exI conjI) (rule uid, rule owner, rule v', rule own)
qed

theorem list_returns_only_own_itineraries_witness:
  "(GET_itineraries lib0 state_two (as_alice list_paris) = (Some \<lparr>status = 200, body = JObj [(''itineraries'', JArr [itinerary_json paris]),
                       (''pagination'', JObj [(''page'', JNum 1), (''limit'', JNum 10),
                                             (''total'', JNum 1), (''pages'', JNum 1)])]\<rparr>, state_two) \<and>
    status \<lparr>status = 200, body = JObj [(''itineraries'', JArr [itinerary_json paris]),
                       (''pagination'', JObj [(''page'', JNum 1), (''limit'', JNum 10),
                                             (''total'', JNum 1), (''pages'', JNum 1)])]\<rparr> = 200) \<and>
   (\<exists>hdr uid found test page limit.
           authorization (as_alice list_paris) = Some hdr \<and>
           jwt_verify lib0 (remove_first ''Bearer '' hdr) = Some uid \<and>
           parseInt_or lib0 1 (q_page (as_alice list_paris)) = Inr page \<and>
           parseInt_or lib0 10 (q_limit (as_alice list_paris)) = Inr limit \<and>
           body \<lparr>status = 200, body = JObj [(''itineraries'', JArr [itinerary_json paris]),
                       (''pagination'', JObj [(''page'', JNum 1), (''limit'', JNum 10),
                                             (''total'', JNum 1), (''pages'', JNum 1)])]\<rparr> =
             JObj [(''itineraries'', JArr (map itinerary_json found)),
                   (''pagination'',
                    JObj [(''page'', json_num page),
                          (''limit'', json_num limit),
                          (''total'', JNum (int (length (filter (\<lambda>d. userId d = uid \<and> test (destination d)) (itineraries state_two))))),
                          (''pages'', json_num (ceil_div (length (filter (\<lambda>d. userId d = uid \<and> test (destination d)) (itineraries state_two))) limit))])] \<and>
           list_all (\<lambda>d. userId d = uid \<and> test (destination d) \<and> d \<in> set (itineraries state_two)) found) \<and>
   Query_itineraries lib0 state_two list_query = (Inr (JObj [(''itineraries'', JArr [itinerary_json paris]), (''total'', JNum 1),
                 (''page'', JNum 1), (''pages'', JNum 1)]), state_two) \<and>
   (\<exists>uid owner found test pg pgs.
           getUserFromRequest lib0 list_query = Some uid \<and> objectId lib0 uid = Some owner \<and>
           (JObj [(''itineraries'', JArr [itinerary_json paris]), (''total'', JNum 1),
                 (''page'', JNum 1), (''pages'', JNum 1)]) = JObj [(''itineraries'', JArr (map itinerary_json found)),
                     (''total'', JNum (int (length (filter (\<lambda>d. userId d = owner \<and> test (destination d)) (itineraries state_two))))),
                     (''page'', pg), (''pages'', pgs)] \<and>
           list_all (\<lambda>d. userId d = owner \<and> test (destination d) \<and> d \<in> set (itineraries state_two)) found)"
proof -
  have A: "GET_itineraries lib0 state_two (as_alice list_paris) = (Some \<lparr>status = 200, body = JObj [(''itineraries'', JArr [itinerary_json paris]),
                       (''pagination'', JObj [(''page'', JNum 1), (''limit'', JNum 10),
                                             (''total'', JNum 1), (''pages'', JNum 1)])]\<rparr>, state_two) \<and>
    status \<lparr>status = 200, body = JObj [(''itineraries'', JArr [itinerary_json paris]),
                       (''pagination'', JObj [(''page'', JNum 1), (''limit'', JNum 10),
                                             (''total'', JNum 1), (''pages'', JNum 1)])]\<rparr> = 200"
    using list_paris_run by simp
  have B: "Query_itineraries lib0 state_two list_query = (Inr (JObj [(''itineraries'', JArr [itinerary_json paris]), (''total'', JNum 1),
                 (''page'', JNum 1), (''pages'', JNum 1)]), state_two)"
    by (rule list_query_run)
  note inst = list_returns_only_own_itineraries
         [of lib0 state_two "as_alice list_paris" "\<lparr>status = 200, body = JObj [(''itineraries'', JArr [itinerary_json paris]),
                       (''pagination'', JObj [(''page'', JNum 1), (''limit'', JNum 10),
                                             (''total'', JNum 1), (''pages'', JNum 1)])]\<rparr>" state_two list_query "(JObj [(''itineraries'', JArr [itinerary_json paris]), (''total'', JNum 1),
                 (''page'', JNum 1), (''pages'', JNum 1)])" state_two]
  have C1: "(\<exists>hdr uid found test page limit.
           authorization (as_alice list_paris) = Some hdr \<and>
           jwt_verify lib0 (remove_first ''Bearer '' hdr) = Some uid \<and>
           parseInt_or lib0 1 (q_page (as_alice list_paris)) = Inr page \<and>
           parseInt_or lib0 10 (q_limit (as_alice list_paris)) = Inr limit \<and>
           body \<lparr>status = 200, body = JObj [(''itineraries'', JArr [itinerary_json paris]),
                       (''pagination'', JObj [(''page'', JNum 1), (''limit'', JNum 10),
                                             (''total'', JNum 1), (''pages'', JNum 1)])]\<rparr> =
             JObj [(''itineraries'', JArr (map itinerary_json found)),
                   (''pagination'',
                    JObj [(''page'', json_num page),
                          (''limit'', json_num limit),
                          (''total'', JNum (int (length (filter (\<lambda>d. userId d = uid \<and> test (destination d)) (itineraries state_two))))),
                          (''pages'', json_num (ceil_div (length (filter (\<lambda>d. userId d = uid \<and> test (destination d)) (itineraries state_two))) limit))])] \<and>
           list_all (\<lambda>d. userId d = uid \<and> test (destination d) \<and> d \<in> set (itineraries state_two)) found)"
    by (rule inst [THEN conjunct1, THEN mp, OF A])
  have C2: "(\<exists>uid owner found test pg pgs.
           getUserFromRequest lib0 list_query = Some uid \<and> objectId lib0 uid = Some owner \<and>
           (JObj [(''itineraries'', JArr [itinerary_json paris]), (''total'', JNum 1),
                 (''page'', JNum 1), (''pages'', JNum 1)]) = JObj [(''itineraries'', JArr (map itinerary_json found)),
                     (''total'', JNum (int (length (filter (\<lambda>d. userId d = owner \<and> test (destination d)) (itineraries state_two))))),
                     (''page'', pg), (''pages'', pgs)] \<and>
           list_all (\<lambda>d. userId d = owner \<and> test (destination d) \<and> d \<in> set (itineraries state_two)) found)"
    by (rule inst [THEN conjunct2, THEN mp, OF B])
  show ?thesis
    by (rule conjI [OF A conjI [OF C1 conjI [OF B C2]]])
qed

section \<open>What a successful save writes\<close>

lemma validated_Inr:
  assumes "validated d = Inr i"
  shows "doc_id i = d_id d" "userId i = d_userId d" "d_title d = Some (title i)"
    "d_destination d = Some (destination i)" "d_startDate d = Valid (startDate i)"
    "d_endDate d = Valid (endDate i)" "activities i = d_activities d"
    "shareableId i = d_shareableId d" "createdAt i = d_createdAt d"
    "updatedAt i = d_updatedAt d" "startDate i \<le> endDate i"
proof -
  from assms have ok: "validate d = []"
    by (auto simp add: validated_def split: if_splits)
  from assms ok obtain t de s e where f: "d_title d = Some t" "d_destination d = Some de"
      "d_startDate d = Valid s" "d_endDate d = Valid e"
    and i: "i = \<lparr>doc_id = d_id d, userId = d_userId d, title = t, destination = de,
               startDate = s, endDate = e, activities = d_activities d,
               shareableId = d_shareableId d, createdAt = d_createdAt d,
               updatedAt = d_updatedAt d\<rparr>"
    by (auto simp add: validated_def split: option.splits path.splits)
  from ok f have "s \<le> e"
    by (auto simp add: validate_def split: if_splits)
  with f i show "doc_id i = d_id d" "userId i = d_userId d" "d_title d = Some (title i)"
    "d_destination d = Some (destination i)" "d_startDate d = Valid (startDate i)"
    "d_endDate d = Valid (endDate i)" "activities i = d_activities d"
    "shareableId i = d_shareableId d" "createdAt i = d_createdAt d"
    "updatedAt i = d_updatedAt d" "startDate i \<le> endDate i"
    by simp_all
qed

lemma findById_id: "findById docs i = Some d \<Longrightarrow> doc_id d = i \<and> d \<in> set docs"
  by (auto simp add: findById_def find_Some_iff)

lemma findById_replace:
  assumes "findById docs i = Some d" and "doc_id d' = i"
  shows "findById (map (\<lambda>x. if doc_id x = i then d' else x) docs) i = Some d'"
  using assms by (induction docs) (auto simp add: findById_def)

lemma findById_replace_other:
  assumes "j \<noteq> i" and "doc_id d' = i"
  shows "findById (map (\<lambda>x. if doc_id x = i then d' else x) docs) j = findById docs j"
  using assms by (induction docs) (auto simp add: findById_def)

lemma save_loaded_Inr:
  assumes "save_loaded now docs d = Inr (saved, docs')"
  obtains i where "validated d = Inr i"
    and "(saved = i \<and> docs' = docs \<and> findById docs (doc_id i) = Some i) \<or>
         (saved = i\<lparr>updatedAt := now\<rparr> \<and> \<not> shareableId_taken docs i \<and>
          docs' = map (\<lambda>x. if doc_id x = doc_id i then i\<lparr>updatedAt := now\<rparr> else x) docs)"
  using assms by (auto simp add: save_loaded_def Let_def split: sum.splits if_splits)

lemma save_loaded_fields:
  assumes "save_loaded now docs d = Inr (saved, docs')"
  shows "doc_id saved = d_id d" "userId saved = d_userId d" "d_title d = Some (title saved)"
    "d_destination d = Some (destination saved)" "d_startDate d = Valid (startDate saved)"
    "d_endDate d = Valid (endDate saved)" "activities saved = d_activities d"
    "shareableId saved = d_shareableId d" "createdAt saved = d_createdAt d"
    "startDate saved \<le> endDate saved"
proof -
  from assms obtain i where i: "validated d = Inr i"
    and "saved = i \<or> saved = i\<lparr>updatedAt := now\<rparr>"
    by (rule save_loaded_Inr) auto
  with validated_Inr [OF i]
  show "doc_id saved = d_id d" "userId saved = d_userId d" "d_title d = Some (title saved)"
    "d_destination d = Some (destination saved)" "d_startDate d = Valid (startDate saved)"
    "d_endDate d = Valid (endDate saved)" "activities saved = d_activities d"
    "shareableId saved = d_shareableId d" "createdAt saved = d_createdAt d"
    "startDate saved \<le> endDate saved"
    by auto
qed

lemma save_loaded_findById:
  assumes "save_loaded now docs d = Inr (saved, docs')" and "findById docs (d_id d) = Some stored"
  shows "findById docs' (d_id d) = Some saved"
    and "j \<noteq> d_id d \<Longrightarrow> findById docs' j = findById docs j"
proof -
  from assms(1) obtain i where i: "validated d = Inr i"
    and alt: "(saved = i \<and> docs' = docs \<and> findById docs (doc_id i) = Some i) \<or>
         (saved = i\<lparr>updatedAt := now\<rparr> \<and> \<not> shareableId_taken docs i \<and>
          docs' = map (\<lambda>x. if doc_id x = doc_id i then i\<lparr>updatedAt := now\<rparr> else x) docs)"
    by (rule save_loaded_Inr)
  have id: "doc_id i = d_id d" by (rule validated_Inr(1) [OF i])
  from alt id assms(2) show "findById docs' (d_id d) = Some saved"
    by (auto simp add: findById_replace)
  from alt id show "j \<noteq> d_id d \<Longrightarrow> findById docs' j = findById docs j"
    by (auto simp add: findById_replace_other)
qed

section \<open>Sharing is idempotent\<close>

lemma generateShareableLink_existing:
  assumes "objectId E (param_id req) = Some i" and "findById (itineraries S) i = Some stored"
    and "userId stored = req_userId req" and "shareableId stored = Some tok" and "tok \<noteq> []"
  shows "generateShareableLink E S req = (reply 200 (share_json req (Some tok)), S)"
  using assms by (simp add: generateShareableLink_def)

lemma generateShareableLink_200:
  assumes "generateShareableLink E S req = (Some res, S')" and "status res = 200"
    and "uuidv4 req \<noteq> []"
  obtains i saved tok where "objectId E (param_id req) = Some i"
    "findById (itineraries S') i = Some saved" "userId saved = req_userId req"
    "shareableId saved = Some tok" "tok \<noteq> []" "Some res = reply 200 (share_json req (Some tok))"
proof -
  from assms(1,2) obtain i where i: "objectId E (param_id req) = Some i"
    by (cases "objectId E (param_id req)")
      (auto simp add: generateShareableLink_def reply_def)
  from assms(1,2) i obtain stored where stored: "findById (itineraries S) i = Some stored"
    by (cases "findById (itineraries S) i")
      (auto simp add: generateShareableLink_def reply_def)
  from assms(1,2) i stored have own: "userId stored = req_userId req"
    by (auto simp add: generateShareableLink_def reply_def split: if_splits)
  show ?thesis
  proof (cases "no_shareableId (shareableId stored)")
    case False
    then obtain tok where tok: "shareableId stored = Some tok" "tok \<noteq> []"
      by (cases "shareableId stored") auto
    from assms(1) generateShareableLink_existing [OF i stored own tok]
    have "Some res = reply 200 (share_json req (Some tok))" "S' = S" by simp_all
    with i stored own tok show ?thesis by (auto intro: that)
  next
    case True
    let ?d = "(hydrate stored)\<lparr>d_shareableId := Some (uuidv4 req)\<rparr>"
    from assms(1,2) i stored own True obtain saved docs where
      sv: "save_loaded (clock req) (itineraries S) ?d = Inr (saved, docs)"
      and res: "Some res = reply 200 (share_json req (shareableId saved))"
      and S': "S' = S\<lparr>itineraries := docs\<rparr>"
      by (cases "save_loaded (clock req) (itineraries S) ?d")
        (auto simp add: generateShareableLink_def reply_def server_error_def)
    have did: "d_id ?d = i" using findById_id [OF stored] by (simp add: hydrate_def)
    from stored did have "findById (itineraries S) (d_id ?d) = Some stored" by simp
    from save_loaded_findById(1) [OF sv this] did S'
    have f: "findById (itineraries S') i = Some saved" by simp
    from save_loaded_fields(2,8) [OF sv] own
    have "userId saved = req_userId req" "shareableId saved = Some (uuidv4 req)"
      by (simp_all add: hydrate_def)
    with i f res assms(3) show ?thesis by (auto intro: that)
  qed
qed


lemma Mutation_generateShareableLink_existing:
  assumes "getUserFromRequest E req = Some uid" and "uid \<noteq> []"
    and "objectId E (arg_id req) = Some i" and "findById (itineraries S) i = Some stored"
    and "userId stored = uid" and "shareableId stored = Some tok" and "tok \<noteq> []"
  shows "Mutation_generateShareableLink E S req = (Inr (JStr (share_url E (Some tok))), S)"
  using assms by (simp add: Mutation_generateShareableLink_def as_user_def)

lemma Mutation_generateShareableLink_Inr:
  assumes "Mutation_generateShareableLink E S req = (Inr v, S')" and "g_uuidv4 req \<noteq> []"
  obtains uid i saved tok where "getUserFromRequest E req = Some uid" "uid \<noteq> []"
    "objectId E (arg_id req) = Some i" "findById (itineraries S') i = Some saved"
    "userId saved = uid" "shareableId saved = Some tok" "tok \<noteq> []"
    "v = JStr (share_url E (Some tok))"
proof -
  from assms(1) obtain uid where uid: "getUserFromRequest E req = Some uid" "uid \<noteq> []"
    and run: "(case objectId E (arg_id req) of
         None \<Rightarrow> (Inl (Error ''Invalid itinerary ID format''), S)
       | Some i \<Rightarrow>
           (case findById (itineraries S) i of
              None \<Rightarrow> (Inl (Error ''Itinerary not found''), S)
            | Some stored \<Rightarrow>
                if userId stored \<noteq> uid then (Inl (Error ''Access denied''), S)
                else if no_shareableId (shareableId stored)
                then (case save_loaded (g_clock req) (itineraries S)
                             ((hydrate stored)\<lparr>d_shareableId := Some (g_uuidv4 req)\<rparr>) of
                        Inl e \<Rightarrow> (Inl e, S)
                      | Inr (saved, docs) \<Rightarrow>
                          (Inr (JStr (share_url E (shareableId saved))), S\<lparr>itineraries := docs\<rparr>))
                else (Inr (JStr (share_url E (shareableId stored))), S))) = (Inr v, S')"
    unfolding Mutation_generateShareableLink_def by (rule as_user_Inr)
  from run obtain i where i: "objectId E (arg_id req) = Some i"
    by (cases "objectId E (arg_id req)") auto
  from run i obtain stored where stored: "findById (itineraries S) i = Some stored"
    by (cases "findById (itineraries S) i") auto
  from run i stored have own: "userId stored = uid"
    by (auto split: if_splits)
  show ?thesis
  proof (cases "no_shareableId (shareableId stored)")
    case False
    then obtain tok where tok: "shareableId stored = Some tok" "tok \<noteq> []"
      by (cases "shareableId stored") auto
    from run i stored own tok have "v = JStr (share_url E (Some tok))" "S' = S" by simp_all
    with uid i stored own tok show ?thesis by (auto intro: that)
  next
    case True
    let ?d = "(hydrate stored)\<lparr>d_shareableId := Some (g_uuidv4 req)\<rparr>"
    from run i stored own True obtain saved docs where
      sv: "save_loaded (g_clock req) (itineraries S) ?d = Inr (saved, docs)"
      and v: "v = JStr (share_url E (shareableId saved))"
      and S': "S' = S\<lparr>itineraries := docs\<rparr>"
      by (cases "save_loaded (g_clock req) (itineraries S) ?d") auto
    have did: "d_id ?d = i" using findById_id [OF stored] by (simp add: hydrate_def)
    from stored did have "findById (itineraries S) (d_id ?d) = Some stored" by simp
    from save_loaded_findById(1) [OF sv this] did S'
    have f: "findById (itineraries S') i = Some saved" by simp
    from save_loaded_fields(2,8) [OF sv] own
    have "userId saved = uid" "shareableId saved = Some (g_uuidv4 req)"
      by (simp_all add: hydrate_def)
    with uid i f v assms(2) show ?thesis by (auto intro: that)
  qed
qed

lemmas share_defs =
  share_paris_def share_paris_again_def share_mutation_def share_mutation_again_def
  state_linked_def

lemmas share_run_defs =
  generateShareableLink_def Mutation_generateShareableLink_def as_user_def
  getUserFromRequest_def findById_def save_loaded_def validated_def validate_def hydrate_def
  shareableId_taken_def reply_def share_json_def share_url_def

lemma share_reply:
  "reply 200 (share_json req (Some t)) =
     Some \<lparr>status = 200, body = JObj [(''message'', JStr ''Shareable link generated''),
                        (''shareableUrl'',
                         JStr (protocol req @ ''://'' @ host req @ ''/api/itineraries/share/'' @ t)),
                        (''shareableId'', JStr t)]\<rparr>"
  by (simp add: reply_def share_json_def)

lemma share_link:
  "JStr (share_url E (Some t)) =
     JStr ((case BASE_URL E of
                      None \<Rightarrow> ''http://localhost:5000''
                    | Some b \<Rightarrow> if b = [] then ''http://localhost:5000'' else b) @
                   ''/api/itineraries/share/'' @ t)"
  by (simp add: share_url_def)

text \<open>
  C5.  When the owner asks for the link of an itinerary that has a token, the reply
  carries that token, as \<^verbatim>\<open>shareableId\<close> and at the end of the link, and the state is
  unchanged.  When a request for the link succeeds, its reply carries the token that is
  now stored, and the next request by the same user for the same itinerary returns the
  same token and changes nothing, whatever UUID the runtime would have drawn for it.  Both
  hold for the REST handler and for the GraphQL mutation, whose value is the link.  A
  token is a UUID, hence not the empty string.
\<close>

theorem shareable_link_is_idempotent:
  "(objectId E (param_id req) = Some i \<and> findById (itineraries S) i = Some stored \<and>
    userId stored = req_userId req \<and> shareableId stored = Some tok \<and> tok \<noteq> [] \<longrightarrow>
      generateShareableLink E S req =
        (Some \<lparr>status = 200, body = JObj [(''message'', JStr ''Shareable link generated''),
                        (''shareableUrl'',
                         JStr (protocol req @ ''://'' @ host req @ ''/api/itineraries/share/'' @ tok)),
                        (''shareableId'', JStr tok)]\<rparr>, S)) \<and>
   (generateShareableLink E S r1 = (Some res1, S1) \<and> status res1 = 200 \<and> uuidv4 r1 \<noteq> [] \<and>
    param_id r2 = param_id r1 \<and> req_userId r2 = req_userId r1 \<longrightarrow>
      (\<exists>t i saved. t \<noteq> [] \<and>
           res1 =
             \<lparr>status = 200, body = JObj [(''message'', JStr ''Shareable link generated''),
                        (''shareableUrl'',
                         JStr (protocol r1 @ ''://'' @ host r1 @ ''/api/itineraries/share/'' @ t)),
                        (''shareableId'', JStr t)]\<rparr> \<and>
           objectId E (param_id r1) = Some i \<and> findById (itineraries S1) i = Some saved \<and>
           shareableId saved = Some t \<and>
           generateShareableLink E S1 r2 =
             (Some \<lparr>status = 200, body = JObj [(''message'', JStr ''Shareable link generated''),
                        (''shareableUrl'',
                         JStr (protocol r2 @ ''://'' @ host r2 @ ''/api/itineraries/share/'' @ t)),
                        (''shareableId'', JStr t)]\<rparr>, S1))) \<and>
   (getUserFromRequest E g = Some uid \<and> uid \<noteq> [] \<and> objectId E (arg_id g) = Some i \<and>
    findById (itineraries S) i = Some stored \<and> userId stored = uid \<and>
    shareableId stored = Some tok \<and> tok \<noteq> [] \<longrightarrow>
      Mutation_generateShareableLink E S g =
        (Inr (JStr ((case BASE_URL E of
                      None \<Rightarrow> ''http://localhost:5000''
                    | Some b \<Rightarrow> if b = [] then ''http://localhost:5000'' else b) @
                   ''/api/itineraries/share/'' @ tok)), S)) \<and>
   (Mutation_generateShareableLink E S g1 = (Inr v, S2) \<and> g_uuidv4 g1 \<noteq> [] \<and>
    arg_id g2 = arg_id g1 \<and> getUserFromRequest E g2 = getUserFromRequest E g1 \<longrightarrow>
      (\<exists>t i saved. t \<noteq> [] \<and>
           v =
             JStr ((case BASE_URL E of
                      None \<Rightarrow> ''http://localhost:5000''
                    | Some b \<Rightarrow> if b = [] then ''http://localhost:5000'' else b) @
                   ''/api/itineraries/share/'' @ t) \<and>
           objectId E (arg_id g1) = Some i \<and> findById (itineraries S2) i = Some saved \<and>
           shareableId saved = Some t \<and>
           Mutation_generateShareableLink E S2 g2 =
             (Inr (JStr ((case BASE_URL E of
                      None \<Rightarrow> ''http://localhost:5000''
                    | Some b \<Rightarrow> if b = [] then ''http://localhost:5000'' else b) @
                   ''/api/itineraries/share/'' @ t)), S2)))"
proof (intro conjI impI; (elim conjE)?)
  assume "objectId E (param_id req) = Some i" "findById (itineraries S) i = Some stored"
    "userId stored = req_userId req" "shareableId stored = Some tok" "tok \<noteq> []"
  then have "generateShareableLink E S req = (reply 200 (share_json req (Some tok)), S)"
    by (rule generateShareableLink_existing)
  then show "generateShareableLink E S req =
        (Some \<lparr>status = 200, body = JObj [(''message'', JStr ''Shareable link generated''),
                        (''shareableUrl'',
                         JStr (protocol req @ ''://'' @ host req @ ''/api/itineraries/share/'' @ tok)),
                        (''shareableId'', JStr tok)]\<rparr>, S)"
    by (simp only: share_reply)
next
  assume run: "generateShareableLink E S r1 = (Some res1, S1)" "status res1 = 200" "uuidv4 r1 \<noteq> []"
    and same: "param_id r2 = param_id r1" "req_userId r2 = req_userId r1"
  from run obtain j saved t where j: "objectId E (param_id r1) = Some j"
    and saved: "findById (itineraries S1) j = Some saved" "userId saved = req_userId r1"
      "shareableId saved = Some t" "t \<noteq> []"
    and res1: "Some res1 = reply 200 (share_json r1 (Some t))"
    by (rule generateShareableLink_200)
  from j saved same
  have "generateShareableLink E S1 r2 = (reply 200 (share_json r2 (Some t)), S1)"
    by (intro generateShareableLink_existing [where i = j and stored = saved]) simp_all
  then have again: "generateShareableLink E S1 r2 =
             (Some \<lparr>status = 200, body = JObj [(''message'', JStr ''Shareable link generated''),
                        (''shareableUrl'',
                         JStr (protocol r2 @ ''://'' @ host r2 @ ''/api/itineraries/share/'' @ t)),
                        (''shareableId'', JStr t)]\<rparr>, S1)"
    by (simp only: share_reply)
  from res1 have first: "res1 =
             \<lparr>status = 200, body = JObj [(''message'', JStr ''Shareable link generated''),
                        (''shareableUrl'',
                         JStr (protocol r1 @ ''://'' @ host r1 @ ''/api/itineraries/share/'' @ t)),
                        (''shareableId'', JStr t)]\<rparr>"
    by (simp only: share_reply option.inject)
  show "\<exists>t i saved. t \<noteq> [] \<and>
           res1 =
             \<lparr>status = 200, body = JObj [(''message'', JStr ''Shareable link generated''),
                        (''shareableUrl'',
                         JStr (protocol r1 @ ''://'' @ host r1 @ ''/api/itineraries/share/'' @ t)),
                        (''shareableId'', JStr t)]\<rparr> \<and>
           objectId E (param_id r1) = Some i \<and> findById (itineraries S1) i = Some saved \<and>
           shareableId saved = Some t \<and>
           generateShareableLink E S1 r2 =
             (Some \<lparr>status = 200, body = JObj [(''message'', JStr ''Shareable link generated''),
                        (''shareableUrl'',
                         JStr (protocol r2 @ ''://'' @ host r2 @ ''/api/itineraries/share/'' @ t)),
                        (''shareableId'', JStr t)]\<rparr>, S1)"
    by (intro exI conjI) (rule saved(4), rule first, rule j, rule saved(1), rule saved(3), rule again)
next
  assume "getUserFromRequest E g = Some uid" "uid \<noteq> []" "objectId E (arg_id g) = Some i"
    "findById (itineraries S) i = Some stored" "userId stored = uid"
    "shareableId stored = Some tok" "tok \<noteq> []"
  then have "Mutation_generateShareableLink E S g = (Inr (JStr (share_url E (Some tok))), S)"
    by (rule Mutation_generateShareableLink_existing)
  then show "Mutation_generateShareableLink E S g =
        (Inr (JStr ((case BASE_URL E of
                      None \<Rightarrow> ''http://localhost:5000''
                    | Some b \<Rightarrow> if b = [] then ''http://localhost:5000'' else b) @
                   ''/api/itineraries/share/'' @ tok)), S)"
    by (simp only: share_link)
next
  assume run: "Mutation_generateShareableLink E S g1 = (Inr v, S2)" "g_uuidv4 g1 \<noteq> []"
    and same: "arg_id g2 = arg_id g1" "getUserFromRequest E g2 = getUserFromRequest E g1"
  from run obtain u j saved t where u: "getUserFromRequest E g1 = Some u" "u \<noteq> []"
    and j: "objectId E (arg_id g1) = Some j"
    and saved: "findById (itineraries S2) j = Some saved" "userId saved = u"
      "shareableId saved = Some t" "t \<noteq> []"
    and v: "v = JStr (share_url E (Some t))"
    by (rule Mutation_generateShareableLink_Inr)
  from u j saved same
  have "Mutation_generateShareableLink E S2 g2 = (Inr (JStr (share_url E (Some t))), S2)"
    by (intro Mutation_generateShareableLink_existing [where i = j and stored = saved and uid = u])
      simp_all
  then have again: "Mutation_generateShareableLink E S2 g2 =
             (Inr (JStr ((case BASE_URL E of
                      None \<Rightarrow> ''http://localhost:5000''
                    | Some b \<Rightarrow> if b = [] then ''http://localhost:5000'' else b) @
                   ''/api/itineraries/share/'' @ t)), S2)"
    by (simp only: share_link)
  from v have first: "v =
             JStr ((case BASE_URL E of
                      None \<Rightarrow> ''http://localhost:5000''
                    | Some b \<Rightarrow> if b = [] then ''http://localhost:5000'' else b) @
                   ''/api/itineraries/share/'' @ t)"
    by (simp only: share_link)
  show "\<exists>t i saved. t \<noteq> [] \<and>
           v =
             JStr ((case BASE_URL E of
                      None \<Rightarrow> ''http://localhost:5000''
                    | Some b \<Rightarrow> if b = [] then ''http://localhost:5000'' else b) @
                   ''/api/itineraries/share/'' @ t) \<and>
           objectId E (arg_id g1) = Some i \<and> findById (itineraries S2) i = Some saved \<and>
           shareableId saved = Some t \<and>
           Mutation_generateShareableLink E S2 g2 =
             (Inr (JStr ((case BASE_URL E of
                      None \<Rightarrow> ''http://localhost:5000''
                    | Some b \<Rightarrow> if b = [] then ''http://localhost:5000'' else b) @
                   ''/api/itineraries/share/'' @ t)), S2)"
    by (intro exI conjI) (rule saved(4), rule first, rule j, rule saved(1), rule saved(3), rule again)
qed

theorem shareable_link_is_idempotent_witness:
  "(objectId lib0 (param_id share_paris) = Some paris_id \<and> findById (itineraries state_shared) paris_id = Some paris_shared \<and>
    userId paris_shared = req_userId share_paris \<and> shareableId paris_shared = Some ''test-shareable-id-123'' \<and> ''test-shareable-id-123'' \<noteq> []) \<and>
   generateShareableLink lib0 state_shared share_paris =
        (Some \<lparr>status = 200, body = JObj [(''message'', JStr ''Shareable link generated''),
                        (''shareableUrl'',
                         JStr (protocol share_paris @ ''://'' @ host share_paris @ ''/api/itineraries/share/'' @ ''test-shareable-id-123'')),
                        (''shareableId'', JStr ''test-shareable-id-123'')]\<rparr>, state_shared) \<and>
   (generateShareableLink lib0 state0 share_paris = (Some \<lparr>status = 200, body = JObj [(''message'', JStr ''Shareable link generated''),
                        (''shareableUrl'',
                         JStr (protocol share_paris @ ''://'' @ host share_paris @ ''/api/itineraries/share/'' @ ''1b9d6bcd-bbfd-4b2d-9b5d-ab8dfbbd4bed'')),
                        (''shareableId'', JStr ''1b9d6bcd-bbfd-4b2d-9b5d-ab8dfbbd4bed'')]\<rparr>, state_linked) \<and> status \<lparr>status = 200, body = JObj [(''message'', JStr ''Shareable link generated''),
                        (''shareableUrl'',
                         JStr (protocol share_paris @ ''://'' @ host share_paris @ ''/api/itineraries/share/'' @ ''1b9d6bcd-bbfd-4b2d-9b5d-ab8dfbbd4bed'')),
                        (''shareableId'', JStr ''1b9d6bcd-bbfd-4b2d-9b5d-ab8dfbbd4bed'')]\<rparr> = 200 \<and> uuidv4 share_paris \<noteq> [] \<and>
    param_id share_paris_again = param_id share_paris \<and> req_userId share_paris_again = req_userId share_paris) \<and>
   (\<exists>t i saved. t \<noteq> [] \<and>
           \<lparr>status = 200, body = JObj [(''message'', JStr ''Shareable link generated''),
                        (''shareableUrl'',
                         JStr (protocol share_paris @ ''://'' @ host share_paris @ ''/api/itineraries/share/'' @ ''1b9d6bcd-bbfd-4b2d-9b5d-ab8dfbbd4bed'')),
                        (''shareableId'', JStr ''1b9d6bcd-bbfd-4b2d-9b5d-ab8dfbbd4bed'')]\<rparr> =
             \<lparr>status = 200, body = JObj [(''message'', JStr ''Shareable link generated''),
                        (''shareableUrl'',
                         JStr (protocol share_paris @ ''://'' @ host share_paris @ ''/api/itineraries/share/'' @ t)),
                        (''shareableId'', JStr t)]\<rparr> \<and>
           objectId lib0 (param_id share_paris) = Some i \<and> findById (itineraries state_linked) i = Some saved \<and>
           shareableId saved = Some t \<and>
           generateShareableLink lib0 state_linked share_paris_again =
             (Some \<lparr>status = 200, body = JObj [(''message'', JStr ''Shareable link generated''),
                        (''shareableUrl'',
                         JStr (protocol share_paris_again @ ''://'' @ host share_paris_again @ ''/api/itineraries/share/'' @ t)),
                        (''shareableId'', JStr t)]\<rparr>, state_linked)) \<and>
   (getUserFromRequest lib0 share_mutation = Some alice \<and> alice \<noteq> [] \<and> objectId lib0 (arg_id share_mutation) = Some paris_id \<and>
    findById (itineraries state_shared) paris_id = Some paris_shared \<and> userId paris_shared = alice \<and>
    shareableId paris_shared = Some ''test-shareable-id-123'' \<and> ''test-shareable-id-123'' \<noteq> []) \<and>
   Mutation_generateShareableLink lib0 state_shared share_mutation =
        (Inr (JStr ((case BASE_URL lib0 of
                      None \<Rightarrow> ''http://localhost:5000''
                    | Some b \<Rightarrow> if b = [] then ''http://localhost:5000'' else b) @
                   ''/api/itineraries/share/'' @ ''test-shareable-id-123'')), state_shared) \<and>
   (Mutation_generateShareableLink lib0 state0 share_mutation = (Inr (JStr ((case BASE_URL lib0 of
                      None \<Rightarrow> ''http://localhost:5000''
                    | Some b \<Rightarrow> if b = [] then ''http://localhost:5000'' else b) @
                   ''/api/itineraries/share/'' @ ''1b9d6bcd-bbfd-4b2d-9b5d-ab8dfbbd4bed'')), state_linked) \<and> g_uuidv4 share_mutation \<noteq> [] \<and>
    arg_id share_mutation_again = arg_id share_mutation \<and> getUserFromRequest lib0 share_mutation_again = getUserFromRequest lib0 share_mutation) \<and>
   (\<exists>t i saved. t \<noteq> [] \<and>
           (JStr ((case BASE_URL lib0 of
                      None \<Rightarrow> ''http://localhost:5000''
                    | Some b \<Rightarrow> if b = [] then ''http://localhost:5000'' else b) @
                   ''/api/itineraries/share/'' @ ''1b9d6bcd-bbfd-4b2d-9b5d-ab8dfbbd4bed'')) =
             JStr ((case BASE_URL lib0 of
                      None \<Rightarrow> ''http://localhost:5000''
                    | Some b \<Rightarrow> if b = [] then ''http://localhost:5000'' else b) @
                   ''/api/itineraries/share/'' @ t) \<and>
           objectId lib0 (arg_id share_mutation) = Some i \<and> findById (itineraries state_linked) i = Some saved \<and>
           shareableId saved = Some t \<and>
           Mutation_generateShareableLink lib0 state_linked share_mutation_again =
             (Inr (JStr ((case BASE_URL lib0 of
                      None \<Rightarrow> ''http://localhost:5000''
                    | Some b \<Rightarrow> if b = [] then ''http://localhost:5000'' else b) @
                   ''/api/itineraries/share/'' @ t)), state_linked))"
proof -
  note inst1 = shareable_link_is_idempotent
    [where E = lib0 and S = state_shared and req = share_paris and i = paris_id
       and stored = paris_shared and tok = "''test-shareable-id-123''"
       and g = share_mutation and uid = alice]
  note inst2 = shareable_link_is_idempotent
    [where E = lib0 and S = state0 and ?r1.0 = share_paris
       and ?res1.0 = "\<lparr>status = 200, body = JObj [(''message'', JStr ''Shareable link generated''),
                        (''shareableUrl'',
                         JStr (protocol share_paris @ ''://'' @ host share_paris @ ''/api/itineraries/share/'' @ ''1b9d6bcd-bbfd-4b2d-9b5d-ab8dfbbd4bed'')),
                        (''shareableId'', JStr ''1b9d6bcd-bbfd-4b2d-9b5d-ab8dfbbd4bed'')]\<rparr>"
       and ?S1.0 = state_linked and ?r2.0 = share_paris_again and ?g1.0 = share_mutation
       and v = "(JStr ((case BASE_URL lib0 of
                      None \<Rightarrow> ''http://localhost:5000''
                    | Some b \<Rightarrow> if b = [] then ''http://localhost:5000'' else b) @
                   ''/api/itineraries/share/'' @ ''1b9d6bcd-bbfd-4b2d-9b5d-ab8dfbbd4bed''))"
       and ?S2.0 = state_linked and ?g2.0 = share_mutation_again]
  have H1: "objectId lib0 (param_id share_paris) = Some paris_id \<and> findById (itineraries state_shared) paris_id = Some paris_shared \<and>
    userId paris_shared = req_userId share_paris \<and> shareableId paris_shared = Some ''test-shareable-id-123'' \<and> ''test-shareable-id-123'' \<noteq> []"
    by (simp add: input_defs share_defs share_run_defs Let_def)
  have C1: "generateShareableLink lib0 state_shared share_paris =
        (Some \<lparr>status = 200, body = JObj [(''message'', JStr ''Shareable link generated''),
                        (''shareableUrl'',
                         JStr (protocol share_paris @ ''://'' @ host share_paris @ ''/api/itineraries/share/'' @ ''test-shareable-id-123'')),
                        (''shareableId'', JStr ''test-shareable-id-123'')]\<rparr>, state_shared)"
    by (rule inst1 [THEN conjunct1, THEN mp, OF H1])
  have H2: "generateShareableLink lib0 state0 share_paris = (Some \<lparr>status = 200, body = JObj [(''message'', JStr ''Shareable link generated''),
                        (''shareableUrl'',
                         JStr (protocol share_paris @ ''://'' @ host share_paris @ ''/api/itineraries/share/'' @ ''1b9d6bcd-bbfd-4b2d-9b5d-ab8dfbbd4bed'')),
                        (''shareableId'', JStr ''1b9d6bcd-bbfd-4b2d-9b5d-ab8dfbbd4bed'')]\<rparr>, state_linked) \<and> status \<lparr>status = 200, body = JObj [(''message'', JStr ''Shareable link generated''),
                        (''shareableUrl'',
                         JStr (protocol share_paris @ ''://'' @ host share_paris @ ''/api/itineraries/share/'' @ ''1b9d6bcd-bbfd-4b2d-9b5d-ab8dfbbd4bed'')),
                        (''shareableId'', JStr ''1b9d6bcd-bbfd-4b2d-9b5d-ab8dfbbd4bed'')]\<rparr> = 200 \<and> uuidv4 share_paris \<noteq> [] \<and>
    param_id share_paris_again = param_id share_paris \<and> req_userId share_paris_again = req_userId share_paris"
    by (simp add: input_defs share_defs share_run_defs Let_def)
  have C2: "\<exists>t i saved. t \<noteq> [] \<and>
           \<lparr>status = 200, body = JObj [(''message'', JStr ''Shareable link generated''),
                        (''shareableUrl'',
                         JStr (protocol share_paris @ ''://'' @ host share_paris @ ''/api/itineraries/share/'' @ ''1b9d6bcd-bbfd-4b2d-9b5d-ab8dfbbd4bed'')),
                        (''shareableId'', JStr ''1b9d6bcd-bbfd-4b2d-9b5d-ab8dfbbd4bed'')]\<rparr> =
             \<lparr>status = 200, body = JObj [(''message'', JStr ''Shareable link generated''),
                        (''shareableUrl'',
                         JStr (protocol share_paris @ ''://'' @ host share_paris @ ''/api/itineraries/share/'' @ t)),
                        (''shareableId'', JStr t)]\<rparr> \<and>
           objectId lib0 (param_id share_paris) = Some i \<and> findById (itineraries state_linked) i = Some saved \<and>
           shareableId saved = Some t \<and>
           generateShareableLink lib0 state_linked share_paris_again =
             (Some \<lparr>status = 200, body = JObj [(''message'', JStr ''Shareable link generated''),
                        (''shareableUrl'',
                         JStr (protocol share_paris_again @ ''://'' @ host share_paris_again @ ''/api/itineraries/share/'' @ t)),
                        (''shareableId'', JStr t)]\<rparr>, state_linked)"
    by (rule inst2 [THEN conjunct2, THEN conjunct1, THEN mp, OF H2])
  have H3: "getUserFromRequest lib0 share_mutation = Some alice \<and> alice \<noteq> [] \<and> objectId lib0 (arg_id share_mutation) = Some paris_id \<and>
    findById (itineraries state_shared) paris_id = Some paris_shared \<and> userId paris_shared = alice \<and>
    shareableId paris_shared = Some ''test-shareable-id-123'' \<and> ''test-shareable-id-123'' \<noteq> []"
    by (simp add: input_defs share_defs share_run_defs Let_def)
  have C3: "Mutation_generateShareableLink lib0 state_shared share_mutation =
        (Inr (JStr ((case BASE_URL lib0 of
                      None \<Rightarrow> ''http://localhost:5000''
                    | Some b \<Rightarrow> if b = [] then ''http://localhost:5000'' else b) @
                   ''/api/itineraries/share/'' @ ''test-shareable-id-123'')), state_shared)"
    by (rule inst1 [THEN conjunct2, THEN conjunct2, THEN conjunct1, THEN mp, OF H3])
  have H4: "Mutation_generateShareableLink lib0 state0 share_mutation = (Inr (JStr ((case BASE_URL lib0 of
                      None \<Rightarrow> ''http://localhost:5000''
                    | Some b \<Rightarrow> if b = [] then ''http://localhost:5000'' else b) @
                   ''/api/itineraries/share/'' @ ''1b9d6bcd-bbfd-4b2d-9b5d-ab8dfbbd4bed'')), state_linked) \<and> g_uuidv4 share_mutation \<noteq> [] \<and>
    arg_id share_mutation_again = arg_id share_mutation \<and> getUserFromRequest lib0 share_mutation_again = getUserFromRequest lib0 share_mutation"
    by (simp add: input_defs share_defs share_run_defs Let_def)
  have C4: "\<exists>t i saved. t \<noteq> [] \<and>
           (JStr ((case BASE_URL lib0 of
                      None \<Rightarrow> ''http://localhost:5000''
                    | Some b \<Rightarrow> if b = [] then ''http://localhost:5000'' else b) @
                   ''/api/itineraries/share/'' @ ''1b9d6bcd-bbfd-4b2d-9b5d-ab8dfbbd4bed'')) =
             JStr ((case BASE_URL lib0 of
                      None \<Rightarrow> ''http://localhost:5000''
                    | Some b \<Rightarrow> if b = [] then ''http://localhost:5000'' else b) @
                   ''/api/itineraries/share/'' @ t) \<and>
           objectId lib0 (arg_id share_mutation) = Some i \<and> findById (itineraries state_linked) i = Some saved \<and>
           shareableId saved = Some t \<and>
           Mutation_generateShareableLink lib0 state_linked share_mutation_again =
             (Inr (JStr ((case BASE_URL lib0 of
                      None \<Rightarrow> ''http://localhost:5000''
                    | Some b \<Rightarrow> if b = [] then ''http://localhost:5000'' else b) @
                   ''/api/itineraries/share/'' @ t)), state_linked)"
    by (rule inst2 [THEN conjunct2, THEN conjunct2, THEN conjunct2, THEN mp, OF H4])
  show ?thesis
    by (rule conjI [OF H1 conjI [OF C1 conjI [OF H2 conjI [OF C2 conjI [OF H3 conjI [OF C3 conjI [OF H4 C4]]]]]]])
qed

section \<open>A list request with limit 0\<close>

lemmas list_input_defs =
  list_limit_zero_def list_limit_zero_bad_filter_def list_limit_zero_two_sorts_def

lemma authenticate_accepts:
  assumes "authorization req = Some hdr" and "remove_first ''Bearer '' hdr \<noteq> []"
    and "jwt_verify E (remove_first ''Bearer '' hdr) = Some uid"
    and "User_findById (users S) uid = Some u"
  shows "authenticate E S req = Inr (req\<lparr>req_userId := uid\<rparr>)"
  using assms by (simp add: authenticate_def)

lemma error_message_surj: "\<exists>e. m = error_message e"
  by (rule exI [of _ "Error m"]) simp

lemma getItineraries_limit_zero_200:
  assumes "parseInt_or E 10 (q_limit req) = Inr (Fin 0)"
    and "destination_pattern (q_destination req) = Inr pattern \<and>
         build_query E (req_userId req) pattern = Some query \<and>
         parseInt_or E 1 (q_page req) = Inr (Fin p) \<and>
         sort_string (q_sort req) = Inr sort_param \<and>
         sortKey E (sortField_of sort_param)"
  shows "list_skip (Fin p) (Fin 0) = Fin 0 \<and>
      getItineraries E S req =
        (Some \<lparr>status = 200,
               body =
                 JObj [(''itineraries'',
                        JArr (map itinerary_json
                                (db_sort (sortField_of sort_param) (sortOrder_of sort_param)
                                   (filter query (itineraries S))))),
                       (''pagination'',
                        JObj [(''page'', JNum p), (''limit'', JNum 0),
                              (''total'', JNum (int (countDocuments query (itineraries S)))),
                              (''pages'', JNull)])]\<rparr>,
         S) \<and>
      ceil_div (countDocuments query (itineraries S)) (Fin 0) =
        (if countDocuments query (itineraries S) = 0 then NaN else PosInf)"
  using assms by (simp add: getItineraries_def db_find_def list_skip_def reply_def Let_def)

lemma getItineraries_limit_zero_500:
  assumes "parseInt_or E 10 (q_limit req) = Inr (Fin 0)"
    and "\<not> (\<exists>pattern query p sort_param.
      destination_pattern (q_destination req) = Inr pattern \<and>
      build_query E (req_userId req) pattern = Some query \<and>
      parseInt_or E 1 (q_page req) = Inr (Fin p) \<and>
      sort_string (q_sort req) = Inr sort_param \<and>
      sortKey E (sortField_of sort_param))"
  shows "\<exists>e. getItineraries E S req =
        (Some \<lparr>status = 500,
               body = JObj [(''message'', JStr ''Server error''),
                            (''error'', JStr (error_message e))]\<rparr>,
         S)"
proof (cases "destination_pattern (q_destination req)")
  case (Inl e)
  then show ?thesis
    by (auto simp add: getItineraries_def server_error_def reply_def)
next
  case (Inr pattern)
  note pattern = this
  show ?thesis
  proof (cases "build_query E (req_userId req) pattern")
    case None
    with pattern show ?thesis
      by (auto simp add: getItineraries_def server_error_def reply_def error_message_surj)
  next
    case (Some query)
    note query = this
    show ?thesis
    proof (cases "parseInt_or E 1 (q_page req)")
      case (Inl e)
      with pattern query show ?thesis
        by (auto simp add: getItineraries_def server_error_def reply_def)
    next
      case (Inr page)
      note page = this
      show ?thesis
      proof (cases "sort_string (q_sort req)")
        case (Inl e)
        with pattern query page assms(1) show ?thesis
          by (auto simp add: getItineraries_def server_error_def reply_def)
      next
        case (Inr sort_param)
        note sort_param = this
        show ?thesis
        proof (cases "sortKey E (sortField_of sort_param)")
          case False
          with pattern query page sort_param assms(1) show ?thesis
            by (auto simp add: getItineraries_def db_find_def server_error_def reply_def
                error_message_surj)
        next
          case True
          with pattern query page sort_param assms(2) have "\<forall>p. page \<noteq> Fin p"
            by auto
          then have "\<exists>e. db_find E query (sortField_of sort_param) (sortOrder_of sort_param)
                 (list_skip page (Fin 0)) (Fin 0) (itineraries S) = Inl e"
            using True by (cases page) (simp_all add: db_find_def list_skip_def)
          with pattern query page sort_param assms(1) show ?thesis
            by (auto simp add: getItineraries_def server_error_def reply_def)
        qed
      qed
    qed
  qed
qed




section \<open>No itinerary ends before it starts\<close>

lemma validated_inverted:
  assumes "d_startDate d = Valid s" and "d_endDate d = Valid e" and "e < s"
  shows "\<exists>ms. validated d = Inl (ValidationError ms) \<and>
              ''End date must be after start date'' \<in> set ms"
proof -
  from assms have "''End date must be after start date'' \<in> set (validate d)"
    by (simp add: validate_def)
  moreover from this have "validate d \<noteq> []" by auto
  ultimately show ?thesis by (auto simp add: validated_def)
qed

lemma save_new_inverted:
  assumes "d_startDate d = Valid s" and "d_endDate d = Valid e" and "e < s"
  shows "\<exists>ms. save_new now docs d = Inl (ValidationError ms) \<and>
              ''End date must be after start date'' \<in> set ms"
proof -
  from assms validated_inverted [of "d\<lparr>d_createdAt := now, d_updatedAt := now\<rparr>" s e]
  obtain ms where "validated (d\<lparr>d_createdAt := now, d_updatedAt := now\<rparr>) = Inl (ValidationError ms)"
    "''End date must be after start date'' \<in> set ms"
    by auto
  then show ?thesis by (simp add: save_new_def)
qed

lemma save_loaded_inverted:
  assumes "d_startDate d = Valid s" and "d_endDate d = Valid e" and "e < s"
  shows "\<exists>ms. save_loaded now docs d = Inl (ValidationError ms) \<and>
              ''End date must be after start date'' \<in> set ms"
proof -
  from validated_inverted [OF assms]
  obtain ms where "validated d = Inl (ValidationError ms)"
    "''End date must be after start date'' \<in> set ms" by auto
  then show ?thesis by (simp add: save_loaded_def)
qed

lemma save_new_ordered:
  assumes "save_new now docs d = Inr (i, docs')"
    and "list_all (\<lambda>d. startDate d \<le> endDate d) docs"
  shows "list_all (\<lambda>d. startDate d \<le> endDate d) docs'"
proof -
  from assms(1) have v: "validated (d\<lparr>d_createdAt := now, d_updatedAt := now\<rparr>) = Inr i"
    and docs': "docs' = docs @ [i]"
    by (auto simp add: save_new_def split: sum.splits if_splits)
  from validated_Inr(11) [OF v] docs' assms(2) show ?thesis by simp
qed

lemma save_loaded_ordered:
  assumes "save_loaded now docs d = Inr (i, docs')"
    and "list_all (\<lambda>d. startDate d \<le> endDate d) docs"
  shows "list_all (\<lambda>d. startDate d \<le> endDate d) docs'"
proof -
  from assms(1) obtain j where j: "validated d = Inr j"
    and alt: "(i = j \<and> docs' = docs \<and> findById docs (doc_id j) = Some j) \<or>
         (i = j\<lparr>updatedAt := now\<rparr> \<and> \<not> shareableId_taken docs j \<and>
          docs' = map (\<lambda>x. if doc_id x = doc_id j then j\<lparr>updatedAt := now\<rparr> else x) docs)"
    by (rule save_loaded_Inr)
  from validated_Inr(11) [OF j] alt assms(2) show ?thesis
    by (auto simp add: list_all_iff)
qed

lemma itineraries_getCache [simp]: "itineraries (snd (getCache S k)) = itineraries S"
  by (auto simp add: cache_defs split: option.splits connection.splits)

lemma itineraries_setCache [simp]: "itineraries (snd (setCache S k v n)) = itineraries S"
  by (auto simp add: cache_defs split: option.splits connection.splits)

lemma itineraries_deleteCache [simp]: "itineraries (snd (deleteCache S k)) = itineraries S"
  by (auto simp add: cache_defs split: option.splits connection.splits)

lemma dates_ordered_cache [simp]:
  "dates_ordered (snd (getCache S k)) = dates_ordered S"
  "dates_ordered (snd (setCache S k v n)) = dates_ordered S"
  "dates_ordered (snd (deleteCache S k)) = dates_ordered S"
  by (simp_all add: dates_ordered_def)

lemma dates_ordered_console [simp]:
  "dates_ordered (S\<lparr>console := c\<rparr>) = dates_ordered S"
  by (simp add: dates_ordered_def)

lemma dates_ordered_saved_new:
  "save_new now (itineraries S) d = Inr (i, docs) \<Longrightarrow> dates_ordered S \<Longrightarrow>
   dates_ordered (S\<lparr>itineraries := docs\<rparr>)"
  by (auto simp add: dates_ordered_def dest: save_new_ordered)

lemma dates_ordered_saved_loaded:
  "save_loaded now (itineraries S) d = Inr (i, docs) \<Longrightarrow> dates_ordered S \<Longrightarrow>
   dates_ordered (S\<lparr>itineraries := docs\<rparr>)"
  by (auto simp add: dates_ordered_def dest: save_loaded_ordered)

lemma dates_ordered_deleted:
  "dates_ordered S \<Longrightarrow> dates_ordered (S\<lparr>itineraries := findByIdAndDelete (itineraries S) i\<rparr>)"
  by (auto simp add: dates_ordered_def findByIdAndDelete_def list_all_iff)

lemma createItinerary_ordered:
  "dates_ordered S \<Longrightarrow> dates_ordered (snd (createItinerary E S req))"
  by (auto simp add: createItinerary_def Let_def dest: dates_ordered_saved_new
      split: sum.splits js_error.splits)

lemma updateItinerary_ordered:
  "dates_ordered S \<Longrightarrow> dates_ordered (snd (updateItinerary E S req))"
proof -
  assume inv: "dates_ordered S"
  have "dates_ordered (snd (case deleteCache (S\<lparr>itineraries := docs\<rparr>) k of
                            (Pending, S2) \<Rightarrow> (None, S2)
                          | (Rejected e, S2) \<Rightarrow> (server_error e, S2)
                          | (Fulfilled u, S2) \<Rightarrow> (r, S2)))"
    if "dates_ordered (S\<lparr>itineraries := docs\<rparr>)" for docs k r
    using that dates_ordered_cache(3) [of "S\<lparr>itineraries := docs\<rparr>" k]
    by (cases "deleteCache (S\<lparr>itineraries := docs\<rparr>) k") (auto split: promise.splits)
  with inv show ?thesis
    by (auto simp add: updateItinerary_def Let_def dest: dates_ordered_saved_loaded
      split: option.splits sum.splits js_error.splits)
qed


lemma deleteItinerary_ordered:
  "dates_ordered S \<Longrightarrow> dates_ordered (snd (deleteItinerary E S req))"
proof -
  assume inv: "dates_ordered S"
  have "dates_ordered (snd (case deleteCache S1 k of
                            (Pending, S2) \<Rightarrow> (None, S2)
                          | (Rejected e, S2) \<Rightarrow> (server_error e, S2)
                          | (Fulfilled u, S2) \<Rightarrow> (r, S2)))"
    if "dates_ordered S1" for S1 k r
    using that dates_ordered_cache(3) [of S1 k]
    by (cases "deleteCache S1 k") (auto split: promise.splits)
  with inv dates_ordered_deleted show ?thesis
    by (auto simp add: deleteItinerary_def split: option.splits)
qed

lemma generateShareableLink_ordered:
  "dates_ordered S \<Longrightarrow> dates_ordered (snd (generateShareableLink E S req))"
  by (auto simp add: generateShareableLink_def dest: dates_ordered_saved_loaded
      split: option.splits sum.splits)

lemma getItineraryById_ordered:
  "dates_ordered S \<Longrightarrow> dates_ordered (snd (getItineraryById E S req))"
proof -
  assume inv: "dates_ordered S"
  have set: "dates_ordered (snd (case setCache S1 k v n of
                            (Pending, S2) \<Rightarrow> (None, S2)
                          | (Rejected e, S2) \<Rightarrow> (server_error e, S2)
                          | (Fulfilled u, S2) \<Rightarrow> (r, S2)))"
    if "dates_ordered S1" for S1 k v n r
    using that dates_ordered_cache(2) [of S1 k v n]
    by (cases "setCache S1 k v n") (auto split: promise.splits)
  obtain c S1 where g: "getCache S (''itinerary:'' @ param_id req) = (c, S1)"
    by (cases "getCache S (''itinerary:'' @ param_id req)")
  then have "S1 = snd (getCache S (''itinerary:'' @ param_id req))"
    by (simp only: snd_conv)
  with inv have "dates_ordered S1"
    by (simp only: dates_ordered_cache)
  with inv g set show ?thesis
    by (auto simp add: getItineraryById_def Let_def split: option.splits promise.splits)
qed

lemma getItineraries_state: "snd (getItineraries E S req) = S"
  by (auto simp add: getItineraries_def Let_def split: option.splits sum.splits)

lemma getSharedItinerary_state: "snd (getSharedItinerary E S req) = S"
  by (auto simp add: getSharedItinerary_def split: option.splits)

lemma as_user_ordered:
  assumes "dates_ordered S" and "\<And>uid. dates_ordered (snd (f uid))"
  shows "dates_ordered (snd (as_user E req S f))"
  using assms by (auto simp add: as_user_def split: option.splits)

lemma Mutation_createItinerary_ordered:
  "dates_ordered S \<Longrightarrow> dates_ordered (snd (Mutation_createItinerary E S req))"
  unfolding Mutation_createItinerary_def
  by (auto simp add: Let_def intro!: as_user_ordered dest: dates_ordered_saved_new
      split: field.splits option.splits sum.splits)

lemma Mutation_updateItinerary_ordered:
  "dates_ordered S \<Longrightarrow> dates_ordered (snd (Mutation_updateItinerary E S req))"
  unfolding Mutation_updateItinerary_def
  by (auto intro!: as_user_ordered dest: dates_ordered_saved_loaded
      split: option.splits sum.splits)

lemma Mutation_deleteItinerary_ordered:
  "dates_ordered S \<Longrightarrow> dates_ordered (snd (Mutation_deleteItinerary E S req))"
  unfolding Mutation_deleteItinerary_def
  by (auto intro!: as_user_ordered dates_ordered_deleted split: option.splits)

lemma Mutation_generateShareableLink_ordered:
  "dates_ordered S \<Longrightarrow> dates_ordered (snd (Mutation_generateShareableLink E S req))"
  unfolding Mutation_generateShareableLink_def
  by (auto intro!: as_user_ordered dest: dates_ordered_saved_loaded
      split: option.splits sum.splits)

lemma createItinerary_inverted:
  assumes "set_date E (body_startDate req) = Valid s" and "set_date E (body_endDate req) = Valid e"
    and "e < s"
  shows "\<exists>m. createItinerary E S req =
              (Some \<lparr>status = 400, body = JObj [(''message'', JStr m)]\<rparr>, S)"
proof -
  let ?d = "\<lparr>d_id = new_ObjectId req, d_userId = req_userId req,
             d_title = set_string (body_title req),
             d_destination = set_string (body_destination req),
             d_startDate = set_date E (body_startDate req),
             d_endDate = set_date E (body_endDate req),
             d_activities = Some (or_empty (body_activities req)),
             d_shareableId = None, d_createdAt = clock req, d_updatedAt = clock req\<rparr>"
  from assms save_new_inverted [of ?d s e "clock req" "itineraries S"]
  obtain ms where "save_new (clock req) (itineraries S) ?d = Inl (ValidationError ms)"
    by auto
  then show ?thesis by (auto simp add: createItinerary_def reply_def json_message_def Let_def)
qed

lemma updateItinerary_inverted:
  assumes "objectId E (param_id req) = Some i" and "findById (itineraries S) i = Some stored"
    and "userId stored = req_userId req"
    and "d_startDate (rest_assign E req (hydrate stored)) = Valid s"
    and "d_endDate (rest_assign E req (hydrate stored)) = Valid e" and "e < s"
  shows "\<exists>m. updateItinerary E S req =
              (Some \<lparr>status = 400, body = JObj [(''message'', JStr m)]\<rparr>, S)"
proof -
  from save_loaded_inverted [OF assms(4,5,6)]
  obtain ms where "save_loaded (clock req) (itineraries S) (rest_assign E req (hydrate stored)) =
      Inl (ValidationError ms)"
    by auto
  with assms(1,2,3) show ?thesis
    by (auto simp add: updateItinerary_def reply_def json_message_def)
qed

lemma Mutation_createItinerary_inverted:
  assumes "getUserFromRequest E req = Some uid" and "uid \<noteq> []" and "objectId E uid = Some owner"
    and "input_title req = Value t" and "input_destination req = Value de"
    and "input_startDate req = Value sd" and "input_endDate req = Value ed"
    and "newDate E sd = Some s" and "newDate E ed = Some e" and "e < s"
  shows "\<exists>ms. Mutation_createItinerary E S req = (Inl (ValidationError ms), S) \<and>
              ''End date must be after start date'' \<in> set ms"
proof -
  let ?d = "\<lparr>d_id = g_new_ObjectId req, d_userId = owner,
                       d_title = set_string (Value t), d_destination = set_string (Value de),
                       d_startDate = set_new_Date E sd, d_endDate = set_new_Date E ed,
                       d_activities = Some (or_empty (input_activities req)),
                       d_shareableId = None, d_createdAt = g_clock req, d_updatedAt = g_clock req\<rparr>"
  from assms(8,9,10) save_new_inverted [of ?d s e "g_clock req" "itineraries S"]
  obtain ms where "save_new (g_clock req) (itineraries S) ?d = Inl (ValidationError ms)"
    "''End date must be after start date'' \<in> set ms"
    by (auto simp add: set_new_Date_def)
  with assms(1-7) show ?thesis
    by (auto simp add: Mutation_createItinerary_def as_user_def Let_def)
qed

lemma Mutation_updateItinerary_inverted:
  assumes "getUserFromRequest E req = Some uid" and "uid \<noteq> []"
    and "objectId E (arg_id req) = Some i" and "findById (itineraries S) i = Some stored"
    and "userId stored = uid"
    and "d_startDate (gql_assign E req (hydrate stored)) = Valid s"
    and "d_endDate (gql_assign E req (hydrate stored)) = Valid e" and "e < s"
  shows "\<exists>ms. Mutation_updateItinerary E S req = (Inl (ValidationError ms), S) \<and>
              ''End date must be after start date'' \<in> set ms"
proof -
  from save_loaded_inverted [OF assms(6,7,8)]
  obtain ms where "save_loaded (g_clock req) (itineraries S) (gql_assign E req (hydrate stored)) =
      Inl (ValidationError ms)" "''End date must be after start date'' \<in> set ms"
    by auto
  with assms(1-5) show ?thesis by (auto simp add: Mutation_updateItinerary_def as_user_def)
qed

text \<open>A mutation whose resolver throws is answered 500 by the endpoint, with
  \<^verbatim>\<open>data: null\<close>: the type of its field is non-null.\<close>

lemma POST_graphql_thrown:
  assumes "selection req \<noteq> []" and "list_all (\<lambda>f. f \<in> set Itinerary_type) (selection req)"
    and "resolver S req = (Inl (ValidationError ms), S')"
  shows "(case execute_Itinerary resolver S req of
            (result, T) \<Rightarrow> (graphqlHTTP NonNull root result, T)) =
         (\<lparr>http_status = 500, data = Null, errors = [ValidationError ms]\<rparr>, S')"
  using assms by (simp add: execute_Itinerary_def graphqlHTTP_def)

lemma execute_Itinerary_ordered:
  "dates_ordered S \<Longrightarrow> dates_ordered (snd (resolver S req)) \<Longrightarrow>
   dates_ordered (snd (case execute_Itinerary resolver S req of
                         (result, T) \<Rightarrow> (graphqlHTTP n root result, T)))"
  by (auto simp add: execute_Itinerary_def split: prod.splits sum.splits if_splits)

lemma POST_graphql_createItinerary_ordered:
  "dates_ordered S \<Longrightarrow> dates_ordered (snd (POST_graphql_createItinerary E S req))"
  unfolding POST_graphql_createItinerary_def
  by (intro execute_Itinerary_ordered Mutation_createItinerary_ordered)

lemma POST_graphql_updateItinerary_ordered:
  "dates_ordered S \<Longrightarrow> dates_ordered (snd (POST_graphql_updateItinerary E S req))"
  unfolding POST_graphql_updateItinerary_def
  by (intro execute_Itinerary_ordered Mutation_updateItinerary_ordered)

lemmas inverted_defs =
  create_inverted_def update_start_late_def create_inverted_mutation_def
  update_start_late_mutation_def

text \<open>
  C6, as the claim states it: a write with the end before the start is not answered 400 on
  the GraphQL surface.  The creation with the two dates swapped and the update that moves
  the start past the stored end both fail with Mongoose's validation error, and the
  endpoint sends that error with status 500 and \<^verbatim>\<open>data: null\<close>.
\<close>

theorem inverted_dates_are_500_on_GraphQL:
  "newDate lib0 ''2024-06-05'' = Some 1717545600000 \<and>
   newDate lib0 ''2024-06-01'' = Some 1717200000000 \<and>
   POST_graphql_createItinerary lib0 state0 create_inverted_mutation =
     (\<lparr>http_status = 500, data = Null,
       errors = [ValidationError [''End date must be after start date'']]\<rparr>, state0) \<and>
   endDate paris = 1717545600000 \<and> newDate lib0 ''2024-06-10'' = Some 1717977600000 \<and>
   POST_graphql_updateItinerary lib0 state0 update_start_late_mutation =
     (\<lparr>http_status = 500, data = Null,
       errors = [ValidationError [''End date must be after start date'']]\<rparr>, state0)"
  by (simp add: input_defs inverted_defs POST_graphql_createItinerary_def
      POST_graphql_updateItinerary_def execute_Itinerary_def graphqlHTTP_def Itinerary_type_def
      Mutation_createItinerary_def Mutation_updateItinerary_def as_user_def
      getUserFromRequest_def findById_def save_new_def save_loaded_def validated_def
      validate_def hydrate_def gql_assign_def set_new_Date_def trim_def is_space_def Let_def)

text \<open>
  C6, amended.  A creation whose two dates are cast with the end before the start, and an
  update after whose assignments the document has its end before its start (whichever of
  the two dates the request changed), fail with Mongoose's validation error and leave the
  state as it was.  The REST handlers answer 400; the GraphQL endpoint, which has no
  status of its own for the error of a resolver, answers 500 with \<^verbatim>\<open>data: null\<close> and the
  validation error.  And every handler keeps the invariant of the store that no itinerary
  ends before it starts.
\<close>

theorem no_itinerary_ends_before_it_starts:
  "(set_date E (body_startDate rc) = Valid s1 \<and>
    set_date E (body_endDate rc) = Valid e1 \<and>
    e1 < s1 \<longrightarrow>
      (\<exists>m. createItinerary E S rc =
             (Some \<lparr>status = 400, body = JObj [(''message'', JStr m)]\<rparr>, S))) \<and>
   (objectId E (param_id ru) = Some i \<and>
    findById (itineraries S) i = Some stored \<and>
    userId stored = req_userId ru \<and>
    d_startDate (rest_assign E ru (hydrate stored)) = Valid s2 \<and>
    d_endDate (rest_assign E ru (hydrate stored)) = Valid e2 \<and>
    e2 < s2 \<longrightarrow>
      (\<exists>m. updateItinerary E S ru =
             (Some \<lparr>status = 400, body = JObj [(''message'', JStr m)]\<rparr>, S))) \<and>
   (selection gc \<noteq> [] \<and>
    list_all (\<lambda>f. f \<in> set Itinerary_type) (selection gc) \<and>
    getUserFromRequest E gc = Some uid \<and>
    uid \<noteq> [] \<and>
    objectId E uid = Some owner \<and>
    input_title gc = Value t \<and>
    input_destination gc = Value de \<and>
    input_startDate gc = Value sd \<and>
    input_endDate gc = Value ed \<and>
    newDate E sd = Some s3 \<and>
    newDate E ed = Some e3 \<and>
    e3 < s3 \<longrightarrow>
      (\<exists>ms. ''End date must be after start date'' \<in> set ms \<and>
            POST_graphql_createItinerary E S gc =
              (\<lparr>http_status = 500, data = Null, errors = [ValidationError ms]\<rparr>, S))) \<and>
   (selection gu \<noteq> [] \<and>
    list_all (\<lambda>f. f \<in> set Itinerary_type) (selection gu) \<and>
    getUserFromRequest E gu = Some uid2 \<and>
    uid2 \<noteq> [] \<and>
    objectId E (arg_id gu) = Some j \<and>
    findById (itineraries S) j = Some stored2 \<and>
    userId stored2 = uid2 \<and>
    d_startDate (gql_assign E gu (hydrate stored2)) = Valid s4 \<and>
    d_endDate (gql_assign E gu (hydrate stored2)) = Valid e4 \<and>
    e4 < s4 \<longrightarrow>
      (\<exists>ms. ''End date must be after start date'' \<in> set ms \<and>
            POST_graphql_updateItinerary E S gu =
              (\<lparr>http_status = 500, data = Null, errors = [ValidationError ms]\<rparr>, S))) \<and>
   (dates_ordered S \<longrightarrow>
      (dates_ordered (snd (createItinerary E S req)) \<and>
       dates_ordered (snd (updateItinerary E S req)) \<and>
       dates_ordered (snd (deleteItinerary E S req)) \<and>
       dates_ordered (snd (generateShareableLink E S req)) \<and>
       dates_ordered (snd (getItineraryById E S req)) \<and>
       dates_ordered (snd (getItineraries E S req)) \<and>
       dates_ordered (snd (getSharedItinerary E S req)) \<and>
       dates_ordered (snd (Mutation_createItinerary E S g)) \<and>
       dates_ordered (snd (Mutation_updateItinerary E S g)) \<and>
       dates_ordered (snd (Mutation_deleteItinerary E S g)) \<and>
       dates_ordered (snd (Mutation_generateShareableLink E S g)) \<and>
       dates_ordered (snd (POST_graphql_createItinerary E S g)) \<and>
       dates_ordered (snd (POST_graphql_updateItinerary E S g))))"
proof (intro conjI impI; (elim conjE)?)
  assume "set_date E (body_startDate rc) = Valid s1" "set_date E (body_endDate rc) = Valid e1" "e1 < s1"
  then show "\<exists>m. createItinerary E S rc =
             (Some \<lparr>status = 400, body = JObj [(''message'', JStr m)]\<rparr>, S)"
    by (rule createItinerary_inverted)
next
  assume "objectId E (param_id ru) = Some i" "findById (itineraries S) i = Some stored" "userId stored = req_userId ru" "d_startDate (rest_assign E ru (hydrate stored)) = Valid s2" "d_endDate (rest_assign E ru (hydrate stored)) = Valid e2" "e2 < s2"
  then show "\<exists>m. updateItinerary E S ru =
             (Some \<lparr>status = 400, body = JObj [(''message'', JStr m)]\<rparr>, S)"
    by (rule updateItinerary_inverted)
next
  assume sel: "selection gc \<noteq> []" "list_all (\<lambda>f. f \<in> set Itinerary_type) (selection gc)"
    and inv: "getUserFromRequest E gc = Some uid" "uid \<noteq> []" "objectId E uid = Some owner" "input_title gc = Value t" "input_destination gc = Value de" "input_startDate gc = Value sd" "input_endDate gc = Value ed" "newDate E sd = Some s3" "newDate E ed = Some e3" "e3 < s3"
  from inv obtain ms where run: "Mutation_createItinerary E S gc = (Inl (ValidationError ms), S)"
    and ms: "''End date must be after start date'' \<in> set ms"
    using Mutation_createItinerary_inverted [of E gc uid owner t de sd ed s3 e3 S] by blast
  from POST_graphql_thrown [where resolver = "Mutation_createItinerary E" and S = S and req = gc, OF sel run]
  have "POST_graphql_createItinerary E S gc =
              (\<lparr>http_status = 500, data = Null, errors = [ValidationError ms]\<rparr>, S)"
    by (simp only: POST_graphql_createItinerary_def)
  with ms show "\<exists>ms. ''End date must be after start date'' \<in> set ms \<and>
            POST_graphql_createItinerary E S gc =
              (\<lparr>http_status = 500, data = Null, errors = [ValidationError ms]\<rparr>, S)"
    by blast
next
  assume sel: "selection gu \<noteq> []" "list_all (\<lambda>f. f \<in> set Itinerary_type) (selection gu)"
    and inv: "getUserFromRequest E gu = Some uid2" "uid2 \<noteq> []" "objectId E (arg_id gu) = Some j" "findById (itineraries S) j = Some stored2" "userId stored2 = uid2" "d_startDate (gql_assign E gu (hydrate stored2)) = Valid s4" "d_endDate (gql_assign E gu (hydrate stored2)) = Valid e4" "e4 < s4"
  from inv obtain ms where run: "Mutation_updateItinerary E S gu = (Inl (ValidationError ms), S)"
    and ms: "''End date must be after start date'' \<in> set ms"
    using Mutation_updateItinerary_inverted [of E gu uid2 j S stored2 s4 e4] by blast
  from POST_graphql_thrown [where resolver = "Mutation_updateItinerary E" and S = S and req = gu, OF sel run]
  have "POST_graphql_updateItinerary E S gu =
              (\<lparr>http_status = 500, data = Null, errors = [ValidationError ms]\<rparr>, S)"
    by (simp only: POST_graphql_updateItinerary_def)
  with ms show "\<exists>ms. ''End date must be after start date'' \<in> set ms \<and>
            POST_graphql_updateItinerary E S gu =
              (\<lparr>http_status = 500, data = Null, errors = [ValidationError ms]\<rparr>, S)"
    by blast
qed (simp_all add: createItinerary_ordered updateItinerary_ordered deleteItinerary_ordered
      generateShareableLink_ordered getItineraryById_ordered getItineraries_state
      getSharedItinerary_state Mutation_createItinerary_ordered Mutation_updateItinerary_ordered
      Mutation_deleteItinerary_ordered Mutation_generateShareableLink_ordered
      POST_graphql_createItinerary_ordered POST_graphql_updateItinerary_ordered)

theorem no_itinerary_ends_before_it_starts_witness:
  "(set_date lib0 (body_startDate create_inverted) = Valid (1717545600000::int) \<and>
    set_date lib0 (body_endDate create_inverted) = Valid (1717200000000::int) \<and>
    (1717200000000::int) < (1717545600000::int)) \<and>
   (\<exists>m. createItinerary lib0 state0 create_inverted =
             (Some \<lparr>status = 400, body = JObj [(''message'', JStr m)]\<rparr>, state0)) \<and>
   (objectId lib0 (param_id update_start_late) = Some paris_id \<and>
    findById (itineraries state0) paris_id = Some paris \<and>
    userId paris = req_userId update_start_late \<and>
    d_startDate (rest_assign lib0 update_start_late (hydrate paris)) = Valid (1717977600000::int) \<and>
    d_endDate (rest_assign lib0 update_start_late (hydrate paris)) = Valid (1717545600000::int) \<and>
    (1717545600000::int) < (1717977600000::int)) \<and>
   (\<exists>m. updateItinerary lib0 state0 update_start_late =
             (Some \<lparr>status = 400, body = JObj [(''message'', JStr m)]\<rparr>, state0)) \<and>
   (selection create_inverted_mutation \<noteq> [] \<and>
    list_all (\<lambda>f. f \<in> set Itinerary_type) (selection create_inverted_mutation) \<and>
    getUserFromRequest lib0 create_inverted_mutation = Some alice \<and>
    alice \<noteq> [] \<and>
    objectId lib0 alice = Some alice \<and>
    input_title create_inverted_mutation = Value ''Lyon Trip'' \<and>
    input_destination create_inverted_mutation = Value ''Lyon'' \<and>
    input_startDate create_inverted_mutation = Value ''2024-06-05'' \<and>
    input_endDate create_inverted_mutation = Value ''2024-06-01'' \<and>
    newDate lib0 ''2024-06-05'' = Some (1717545600000::int) \<and>
    newDate lib0 ''2024-06-01'' = Some (1717200000000::int) \<and>
    (1717200000000::int) < (1717545600000::int)) \<and>
   (\<exists>ms. ''End date must be after start date'' \<in> set ms \<and>
            POST_graphql_createItinerary lib0 state0 create_inverted_mutation =
              (\<lparr>http_status = 500, data = Null, errors = [ValidationError ms]\<rparr>, state0)) \<and>
   (selection update_start_late_mutation \<noteq> [] \<and>
    list_all (\<lambda>f. f \<in> set Itinerary_type) (selection update_start_late_mutation) \<and>
    getUserFromRequest lib0 update_start_late_mutation = Some alice \<and>
    alice \<noteq> [] \<and>
    objectId lib0 (arg_id update_start_late_mutation) = Some paris_id \<and>
    findById (itineraries state0) paris_id = Some paris \<and>
    userId paris = alice \<and>
    d_startDate (gql_assign lib0 update_start_late_mutation (hydrate paris)) = Valid (1717977600000::int) \<and>
    d_endDate (gql_assign lib0 update_start_late_mutation (hydrate paris)) = Valid (1717545600000::int) \<and>
    (1717545600000::int) < (1717977600000::int)) \<and>
   (\<exists>ms. ''End date must be after start date'' \<in> set ms \<and>
            POST_graphql_updateItinerary lib0 state0 update_start_late_mutation =
              (\<lparr>http_status = 500, data = Null, errors = [ValidationError ms]\<rparr>, state0)) \<and>
   (dates_ordered state0) \<and>
   (dates_ordered (snd (createItinerary lib0 state0 update_start_late)) \<and>
       dates_ordered (snd (updateItinerary lib0 state0 update_start_late)) \<and>
       dates_ordered (snd (deleteItinerary lib0 state0 update_start_late)) \<and>
       dates_ordered (snd (generateShareableLink lib0 state0 update_start_late)) \<and>
       dates_ordered (snd (getItineraryById lib0 state0 update_start_late)) \<and>
       dates_ordered (snd (getItineraries lib0 state0 update_start_late)) \<and>
       dates_ordered (snd (getSharedItinerary lib0 state0 update_start_late)) \<and>
       dates_ordered (snd (Mutation_createItinerary lib0 state0 update_start_late_mutation)) \<and>
       dates_ordered (snd (Mutation_updateItinerary lib0 state0 update_start_late_mutation)) \<and>
       dates_ordered (snd (Mutation_deleteItinerary lib0 state0 update_start_late_mutation)) \<and>
       dates_ordered (snd (Mutation_generateShareableLink lib0 state0 update_start_late_mutation)) \<and>
       dates_ordered (snd (POST_graphql_createItinerary lib0 state0 update_start_late_mutation)) \<and>
       dates_ordered (snd (POST_graphql_updateItinerary lib0 state0 update_start_late_mutation)))"
proof -
  note inst = no_itinerary_ends_before_it_starts
    [where E = lib0 and S = state0 and rc = create_inverted and ?s1.0 = 1717545600000
       and ?e1.0 = 1717200000000 and ru = update_start_late and i = paris_id and stored = paris
       and ?s2.0 = 1717977600000 and ?e2.0 = 1717545600000 and gc = create_inverted_mutation
       and uid = alice and owner = alice and t = "''Lyon Trip''" and de = "''Lyon''"
       and sd = "''2024-06-05''" and ed = "''2024-06-01''" and ?s3.0 = 1717545600000
       and ?e3.0 = 1717200000000 and gu = update_start_late_mutation and ?uid2.0 = alice
       and j = paris_id and ?stored2.0 = paris and ?s4.0 = 1717977600000
       and ?e4.0 = 1717545600000 and req = update_start_late and g = update_start_late_mutation]
  have H1: "set_date lib0 (body_startDate create_inverted) = Valid (1717545600000::int) \<and>
    set_date lib0 (body_endDate create_inverted) = Valid (1717200000000::int) \<and>
    (1717200000000::int) < (1717545600000::int)"
    by (simp add: input_defs inverted_defs findById_def rest_assign_def gql_assign_def
        hydrate_def set_new_Date_def getUserFromRequest_def dates_ordered_def Itinerary_type_def)
  have C1: "(\<exists>m. createItinerary lib0 state0 create_inverted =
             (Some \<lparr>status = 400, body = JObj [(''message'', JStr m)]\<rparr>, state0))"
    by (rule inst [THEN conjunct1, THEN mp, OF H1])
  have H2: "objectId lib0 (param_id update_start_late) = Some paris_id \<and>
    findById (itineraries state0) paris_id = Some paris \<and>
    userId paris = req_userId update_start_late \<and>
    d_startDate (rest_assign lib0 update_start_late (hydrate paris)) = Valid (1717977600000::int) \<and>
    d_endDate (rest_assign lib0 update_start_late (hydrate paris)) = Valid (1717545600000::int) \<and>
    (1717545600000::int) < (1717977600000::int)"
    by (simp add: input_defs inverted_defs findById_def rest_assign_def gql_assign_def
        hydrate_def set_new_Date_def getUserFromRequest_def dates_ordered_def Itinerary_type_def)
  have C2: "(\<exists>m. updateItinerary lib0 state0 update_start_late =
             (Some \<lparr>status = 400, body = JObj [(''message'', JStr m)]\<rparr>, state0))"
    by (rule inst [THEN conjunct2, THEN conjunct1, THEN mp, OF H2])
  have H3: "selection create_inverted_mutation \<noteq> [] \<and>
    list_all (\<lambda>f. f \<in> set Itinerary_type) (selection create_inverted_mutation) \<and>
    getUserFromRequest lib0 create_inverted_mutation = Some alice \<and>
    alice \<noteq> [] \<and>
    objectId lib0 alice = Some alice \<and>
    input_title create_inverted_mutation = Value ''Lyon Trip'' \<and>
    input_destination create_inverted_mutation = Value ''Lyon'' \<and>
    input_startDate create_inverted_mutation = Value ''2024-06-05'' \<and>
    input_endDate create_inverted_mutation = Value ''2024-06-01'' \<and>
    newDate lib0 ''2024-06-05'' = Some (1717545600000::int) \<and>
    newDate lib0 ''2024-06-01'' = Some (1717200000000::int) \<and>
    (1717200000000::int) < (1717545600000::int)"
    by (simp add: input_defs inverted_defs findById_def rest_assign_def gql_assign_def
        hydrate_def set_new_Date_def getUserFromRequest_def dates_ordered_def Itinerary_type_def)
  have C3: "(\<exists>ms. ''End date must be after start date'' \<in> set ms \<and>
            POST_graphql_createItinerary lib0 state0 create_inverted_mutation =
              (\<lparr>http_status = 500, data = Null, errors = [ValidationError ms]\<rparr>, state0))"
    by (rule inst [THEN conjunct2, THEN conjunct2, THEN conjunct1, THEN mp, OF H3])
  have H4: "selection update_start_late_mutation \<noteq> [] \<and>
    list_all (\<lambda>f. f \<in> set Itinerary_type) (selection update_start_late_mutation) \<and>
    getUserFromRequest lib0 update_start_late_mutation = Some alice \<and>
    alice \<noteq> [] \<and>
    objectId lib0 (arg_id update_start_late_mutation) = Some paris_id \<and>
    findById (itineraries state0) paris_id = Some paris \<and>
    userId paris = alice \<and>
    d_startDate (gql_assign lib0 update_start_late_mutation (hydrate paris)) = Valid (1717977600000::int) \<and>
    d_endDate (gql_assign lib0 update_start_late_mutation (hydrate paris)) = Valid (1717545600000::int) \<and>
    (1717545600000::int) < (1717977600000::int)"
    by (simp add: input_defs inverted_defs findById_def rest_assign_def gql_assign_def
        hydrate_def set_new_Date_def getUserFromRequest_def dates_ordered_def Itinerary_type_def)
  have C4: "(\<exists>ms. ''End date must be after start date'' \<in> set ms \<and>
            POST_graphql_updateItinerary lib0 state0 update_start_late_mutation =
              (\<lparr>http_status = 500, data = Null, errors = [ValidationError ms]\<rparr>, state0))"
    by (rule inst [THEN conjunct2, THEN conjunct2, THEN conjunct2, THEN conjunct1, THEN mp, OF H4])
  have H5: "dates_ordered state0"
    by (simp add: input_defs inverted_defs findById_def rest_assign_def gql_assign_def
        hydrate_def set_new_Date_def getUserFromRequest_def dates_ordered_def Itinerary_type_def)
  have C5: "(dates_ordered (snd (createItinerary lib0 state0 update_start_late)) \<and>
       dates_ordered (snd (updateItinerary lib0 state0 update_start_late)) \<and>
       dates_ordered (snd (deleteItinerary lib0 state0 update_start_late)) \<and>
       dates_ordered (snd (generateShareableLink lib0 state0 update_start_late)) \<and>
       dates_ordered (snd (getItineraryById lib0 state0 update_start_late)) \<and>
       dates_ordered (snd (getItineraries lib0 state0 update_start_late)) \<and>
       dates_ordered (snd (getSharedItinerary lib0 state0 update_start_late)) \<and>
       dates_ordered (snd (Mutation_createItinerary lib0 state0 update_start_late_mutation)) \<and>
       dates_ordered (snd (Mutation_updateItinerary lib0 state0 update_start_late_mutation)) \<and>
       dates_ordered (snd (Mutation_deleteItinerary lib0 state0 update_start_late_mutation)) \<and>
       dates_ordered (snd (Mutation_generateShareableLink lib0 state0 update_start_late_mutation)) \<and>
       dates_ordered (snd (POST_graphql_createItinerary lib0 state0 update_start_late_mutation)) \<and>
       dates_ordered (snd (POST_graphql_updateItinerary lib0 state0 update_start_late_mutation)))"
    by (rule inst [THEN conjunct2, THEN conjunct2, THEN conjunct2, THEN conjunct2, THEN mp, OF H5])
  show ?thesis
    by (rule conjI [OF H1 conjI [OF C1 conjI [OF H2 conjI [OF C2 conjI [OF H3 conjI [OF C3
          conjI [OF H4 conjI [OF C4 conjI [OF H5 C5]]]]]]]]])
qed

section \<open>What an update changes\<close>

lemma rest_assign_fields:
  "d_id (rest_assign E req (hydrate stored)) = doc_id stored"
  "d_userId (rest_assign E req (hydrate stored)) = userId stored"
  "d_shareableId (rest_assign E req (hydrate stored)) = shareableId stored"
  "d_createdAt (rest_assign E req (hydrate stored)) = createdAt stored"
  "d_title (rest_assign E req (hydrate stored)) =
     (case body_title req of
        Value t \<Rightarrow> if t = [] then Some (title stored) else Some (trim t)
      | _ \<Rightarrow> Some (title stored))"
  "d_destination (rest_assign E req (hydrate stored)) =
     (case body_destination req of
        Value t \<Rightarrow> if t = [] then Some (destination stored) else Some (trim t)
      | _ \<Rightarrow> Some (destination stored))"
  "d_startDate (rest_assign E req (hydrate stored)) =
     (case body_startDate req of
        Value s \<Rightarrow> if s = [] then Valid (startDate stored)
                  else (case castDate E s of None \<Rightarrow> Invalid | Some t \<Rightarrow> Valid t)
      | _ \<Rightarrow> Valid (startDate stored))"
  "d_endDate (rest_assign E req (hydrate stored)) =
     (case body_endDate req of
        Value s \<Rightarrow> if s = [] then Valid (endDate stored)
                  else (case castDate E s of None \<Rightarrow> Invalid | Some t \<Rightarrow> Valid t)
      | _ \<Rightarrow> Valid (endDate stored))"
  "d_activities (rest_assign E req (hydrate stored)) =
     (case body_activities req of Value xs \<Rightarrow> Some xs | _ \<Rightarrow> activities stored)"
  by (simp_all add: rest_assign_def hydrate_def Let_def split: field.splits)

lemma gql_assign_fields:
  "d_id (gql_assign E req (hydrate stored)) = doc_id stored"
  "d_userId (gql_assign E req (hydrate stored)) = userId stored"
  "d_shareableId (gql_assign E req (hydrate stored)) = shareableId stored"
  "d_createdAt (gql_assign E req (hydrate stored)) = createdAt stored"
  "d_title (gql_assign E req (hydrate stored)) =
     (case input_title req of Absent \<Rightarrow> Some (title stored) | Null \<Rightarrow> None
      | Value t \<Rightarrow> Some (trim t))"
  "d_destination (gql_assign E req (hydrate stored)) =
     (case input_destination req of Absent \<Rightarrow> Some (destination stored) | Null \<Rightarrow> None
      | Value t \<Rightarrow> Some (trim t))"
  "d_startDate (gql_assign E req (hydrate stored)) =
     (case input_startDate req of Absent \<Rightarrow> Valid (startDate stored) | Null \<Rightarrow> Valid 0
      | Value s \<Rightarrow> (case newDate E s of None \<Rightarrow> Invalid | Some t \<Rightarrow> Valid t))"
  "d_endDate (gql_assign E req (hydrate stored)) =
     (case input_endDate req of Absent \<Rightarrow> Valid (endDate stored) | Null \<Rightarrow> Valid 0
      | Value s \<Rightarrow> (case newDate E s of None \<Rightarrow> Invalid | Some t \<Rightarrow> Valid t))"
  "d_activities (gql_assign E req (hydrate stored)) =
     (case input_activities req of Absent \<Rightarrow> activities stored | Null \<Rightarrow> None
      | Value xs \<Rightarrow> Some xs)"
  by (simp_all add: gql_assign_def hydrate_def set_new_Date_def Let_def split: field.splits)

text \<open>The two ways an update ends: refused, with the state as it was; or saved, and then
  answered 200 unless the eviction of the cache entry stays pending.\<close>

lemma updateItinerary_cases:
  obtains (refused) res where "updateItinerary E S req = (Some res, S)" "status res \<noteq> 200"
  | (saved) i stored saved docs where "objectId E (param_id req) = Some i"
      "findById (itineraries S) i = Some stored" "userId stored = req_userId req"
      "save_loaded (clock req) (itineraries S) (rest_assign E req (hydrate stored)) = Inr (saved, docs)"
      "snd (updateItinerary E S req) =
         snd (deleteCache (S\<lparr>itineraries := docs\<rparr>) (''itinerary:'' @ param_id req))"
      "fst (updateItinerary E S req) =
         (if fst (deleteCache (S\<lparr>itineraries := docs\<rparr>) (''itinerary:'' @ param_id req)) = Pending
          then None
          else Some \<lparr>status = 200,
             body = JObj [(''message'', JStr ''Itinerary updated successfully''),
                          (''itinerary'', itinerary_json saved)]\<rparr>)"
proof (cases "objectId E (param_id req)")
  case None
  then show ?thesis by (auto simp add: updateItinerary_def reply_def intro: refused)
next
  case (Some i)
  note i = this
  show ?thesis
  proof (cases "findById (itineraries S) i")
    case None
    with i show ?thesis by (auto simp add: updateItinerary_def reply_def intro: refused)
  next
    case (Some stored)
    note stored = this
    show ?thesis
    proof (cases "userId stored = req_userId req")
      case False
      with i stored show ?thesis by (auto simp add: updateItinerary_def reply_def intro: refused)
    next
      case True
      note own = this
      show ?thesis
      proof (cases "save_loaded (clock req) (itineraries S) (rest_assign E req (hydrate stored))")
        case (Inl e)
        with i stored own show ?thesis
          by (cases e) (auto simp add: updateItinerary_def reply_def server_error_def intro: refused)
      next
        case (Inr p)
        then obtain saved docs where
          sv: "save_loaded (clock req) (itineraries S) (rest_assign E req (hydrate stored)) = Inr (saved, docs)"
          by (cases p) auto
        obtain o' S2 where
          dc: "deleteCache (S\<lparr>itineraries := docs\<rparr>) (''itinerary:'' @ param_id req) = (o', S2)"
          by (cases "deleteCache (S\<lparr>itineraries := docs\<rparr>) (''itinerary:'' @ param_id req)")
        with deleteCache_not_rejected [of "S\<lparr>itineraries := docs\<rparr>" "''itinerary:'' @ param_id req"]
        have o': "o' = Pending \<or> o' = Fulfilled ()" by (cases o') auto
        from i stored own sv dc o'
        have "snd (updateItinerary E S req) =
                snd (deleteCache (S\<lparr>itineraries := docs\<rparr>) (''itinerary:'' @ param_id req))"
          and "fst (updateItinerary E S req) =
                (if fst (deleteCache (S\<lparr>itineraries := docs\<rparr>) (''itinerary:'' @ param_id req)) = Pending
                 then None
                 else Some \<lparr>status = 200,
             body = JObj [(''message'', JStr ''Itinerary updated successfully''),
                          (''itinerary'', itinerary_json saved)]\<rparr>)"
          by (auto simp add: updateItinerary_def reply_def)
        with i stored own sv show ?thesis by (rule saved)
      qed
    qed
  qed
qed

lemma Mutation_updateItinerary_Inr:
  assumes "Mutation_updateItinerary E S req = (Inr v, S')"
  obtains uid i stored saved docs where "getUserFromRequest E req = Some uid" "uid \<noteq> []"
    "objectId E (arg_id req) = Some i"
    "findById (itineraries S) i = Some stored" "userId stored = uid"
    "save_loaded (g_clock req) (itineraries S) (gql_assign E req (hydrate stored)) = Inr (saved, docs)"
    "S' = S\<lparr>itineraries := docs\<rparr>" "v = JObj (toObject saved)"
proof -
  from assms obtain uid where uid: "getUserFromRequest E req = Some uid" "uid \<noteq> []"
    and run: "(case objectId E (arg_id req) of
         None \<Rightarrow> (Inl (Error ''Invalid itinerary ID format''), S)
       | Some i \<Rightarrow>
           (case findById (itineraries S) i of
              None \<Rightarrow> (Inl (Error ''Itinerary not found''), S)
            | Some stored \<Rightarrow>
                if userId stored \<noteq> uid then (Inl (Error ''Access denied''), S)
                else (case save_loaded (g_clock req) (itineraries S) (gql_assign E req (hydrate stored)) of
                        Inl e \<Rightarrow> (Inl e, S)
                      | Inr (saved, docs) \<Rightarrow>
                          (Inr (JObj (toObject saved)), S\<lparr>itineraries := docs\<rparr>)))) = (Inr v, S')"
    unfolding Mutation_updateItinerary_def by (rule as_user_Inr)
  from run obtain i where i: "objectId E (arg_id req) = Some i"
    by (cases "objectId E (arg_id req)") auto
  from run i obtain stored where stored: "findById (itineraries S) i = Some stored"
    by (cases "findById (itineraries S) i") auto
  from run i stored have own: "userId stored = uid"
    by (auto split: if_splits)
  from run i stored own obtain saved docs where
    sv: "save_loaded (g_clock req) (itineraries S) (gql_assign E req (hydrate stored)) = Inr (saved, docs)"
    by (cases "save_loaded (g_clock req) (itineraries S) (gql_assign E req (hydrate stored))") auto
  from run i stored own sv have "S' = S\<lparr>itineraries := docs\<rparr>" "v = JObj (toObject saved)"
    by simp_all
  with uid i stored own sv show ?thesis by (rule that)
qed

lemma Mutation_updateItinerary_Inl:
  "Mutation_updateItinerary E S req = (Inl e, S') \<Longrightarrow> S' = S"
  by (auto simp add: Mutation_updateItinerary_def as_user_def
      split: option.splits if_splits sum.splits)

lemma updateItinerary_frame:
  assumes "updateItinerary E S req = (a, S')"
    and "case a of None \<Rightarrow> True | Some res \<Rightarrow> status res = 200"
  shows "\<exists>i stored saved.
        objectId E (param_id req) = Some i \<and> findById (itineraries S) i = Some stored \<and>
        findById (itineraries S') i = Some saved \<and>
        doc_id saved = doc_id stored \<and> userId saved = userId stored \<and>
        shareableId saved = shareableId stored \<and> createdAt saved = createdAt stored \<and>
        title saved =
          (case body_title req of
             Value t \<Rightarrow> if t = [] then title stored else trim t
           | _ \<Rightarrow> title stored) \<and>
        destination saved =
          (case body_destination req of
             Value t \<Rightarrow> if t = [] then destination stored else trim t
           | _ \<Rightarrow> destination stored) \<and>
        (case body_startDate req of
           Value s \<Rightarrow> if s = [] then startDate saved = startDate stored
                     else castDate E s = Some (startDate saved)
         | _ \<Rightarrow> startDate saved = startDate stored) \<and>
        (case body_endDate req of
           Value s \<Rightarrow> if s = [] then endDate saved = endDate stored
                     else castDate E s = Some (endDate saved)
         | _ \<Rightarrow> endDate saved = endDate stored) \<and>
        activities saved =
          (case body_activities req of Value xs \<Rightarrow> Some xs | _ \<Rightarrow> activities stored) \<and>
        (\<forall>j. j \<noteq> i \<longrightarrow> findById (itineraries S') j = findById (itineraries S) j)"
proof (cases rule: updateItinerary_cases [of E S req])
  case (refused res)
  from refused(1) assms(1) have "a = Some res" by simp
  with assms(2) refused(2) show ?thesis by simp
next
  case (saved i stored saved docs)
  note i = saved(1) and stored = saved(2) and sv = saved(4)
  from saved(5) assms(1)
  have S': "S' = snd (deleteCache (S\<lparr>itineraries := docs\<rparr>) (''itinerary:'' @ param_id req))"
    by simp
  let ?d = "rest_assign E req (hydrate stored)"
  have did: "d_id ?d = i"
    using findById_id [OF stored] by (simp add: rest_assign_fields)
  from S' have docs: "itineraries S' = docs" by simp
  from stored did have "findById (itineraries S) (d_id ?d) = Some stored" by simp
  from save_loaded_findById [OF sv this] did docs
  have saved: "findById (itineraries S') i = Some saved"
    and others: "\<forall>j. j \<noteq> i \<longrightarrow> findById (itineraries S') j = findById (itineraries S) j"
    by simp_all
  note f = save_loaded_fields [OF sv, unfolded rest_assign_fields]
  have ids: "doc_id saved = doc_id stored" "userId saved = userId stored"
    "shareableId saved = shareableId stored" "createdAt saved = createdAt stored"
    using f(1,2,8,9) by simp_all
  have t: "title saved =
          (case body_title req of
             Value t \<Rightarrow> if t = [] then title stored else trim t
           | _ \<Rightarrow> title stored)"
    using f(3) by (cases "body_title req") (auto split: if_splits)
  have de: "destination saved =
          (case body_destination req of
             Value t \<Rightarrow> if t = [] then destination stored else trim t
           | _ \<Rightarrow> destination stored)"
    using f(4) by (cases "body_destination req") (auto split: if_splits)
  have sd: "(case body_startDate req of
           Value s \<Rightarrow> if s = [] then startDate saved = startDate stored
                     else castDate E s = Some (startDate saved)
         | _ \<Rightarrow> startDate saved = startDate stored)"
    using f(5) by (cases "body_startDate req") (auto split: if_splits option.splits)
  have ed: "(case body_endDate req of
           Value s \<Rightarrow> if s = [] then endDate saved = endDate stored
                     else castDate E s = Some (endDate saved)
         | _ \<Rightarrow> endDate saved = endDate stored)"
    using f(6) by (cases "body_endDate req") (auto split: if_splits option.splits)
  have ac: "activities saved =
          (case body_activities req of Value xs \<Rightarrow> Some xs | _ \<Rightarrow> activities stored)"
    using f(7) by simp
  show ?thesis
    by (intro exI conjI) (rule i stored saved ids t de sd ed ac others)+
qed

lemma updateItinerary_refused:
  assumes "updateItinerary E S req = (Some res, S')" and "status res \<noteq> 200"
  shows "S' = S"
proof (cases rule: updateItinerary_cases [of E S req])
  case (refused r)
  with assms show ?thesis by simp
next
  case (saved i stored saved docs)
  from saved(6) assms show ?thesis by (simp split: if_splits)
qed

lemma validated_stored:
  "validate (hydrate stored) = [] \<Longrightarrow> validated (hydrate stored) = Inr stored"
  by (cases stored) (simp add: validated_def hydrate_def)

lemma updateItinerary_nothing_given:
  assumes "objectId E (param_id req) = Some i" and "findById (itineraries S) i = Some stored"
    and "userId stored = req_userId req" and "validate (hydrate stored) = []"
    and "\<not> truthy_string (body_title req)" and "\<not> truthy_string (body_destination req)"
    and "\<not> truthy_string (body_startDate req)" and "\<not> truthy_string (body_endDate req)"
    and "\<not> truthy_array (body_activities req)" and "backend S \<noteq> Offline"
  shows "fst (updateItinerary E S req) =
         Some \<lparr>status = 200,
             body = JObj [(''message'', JStr ''Itinerary updated successfully''),
                          (''itinerary'', itinerary_json stored)]\<rparr> \<and>
       itineraries (snd (updateItinerary E S req)) = itineraries S"
proof -
  from assms(5-9) have same: "rest_assign E req (hydrate stored) = hydrate stored"
    by (simp add: rest_assign_def)
  from findById_id [OF assms(2)] assms(2)
  have "findById (itineraries S) (doc_id stored) = Some stored" by simp
  with validated_stored [OF assms(4)]
  have sv: "save_loaded (clock req) (itineraries S) (hydrate stored) = Inr (stored, itineraries S)"
    by (simp add: save_loaded_def)
  have S: "S\<lparr>itineraries := itineraries S\<rparr> = S" by simp
  obtain o' S2 where dc: "deleteCache S (''itinerary:'' @ param_id req) = (o', S2)"
    by (cases "deleteCache S (''itinerary:'' @ param_id req)")
  with cache_settles_iff(3) [of S "''itinerary:'' @ param_id req"] assms(10)
    deleteCache_not_rejected [of S "''itinerary:'' @ param_id req"]
  have o': "o' = Fulfilled ()" by (cases o') auto
  from dc have "itineraries S2 = itineraries S"
    using itineraries_deleteCache [of S "''itinerary:'' @ param_id req"] by simp
  with assms(1-3) same sv S dc o' show ?thesis
    by (simp add: updateItinerary_def reply_def)
qed

lemma Mutation_updateItinerary_frame:
  assumes "Mutation_updateItinerary E S g = (Inr v, S'')"
  shows "\<exists>i stored saved.
        objectId E (arg_id g) = Some i \<and> findById (itineraries S) i = Some stored \<and>
        findById (itineraries S'') i = Some saved \<and>
        doc_id saved = doc_id stored \<and> userId saved = userId stored \<and>
        shareableId saved = shareableId stored \<and> createdAt saved = createdAt stored \<and>
        (case input_title g of
           Absent \<Rightarrow> title saved = title stored
         | Null \<Rightarrow> False
         | Value t \<Rightarrow> title saved = trim t) \<and>
        (case input_destination g of
           Absent \<Rightarrow> destination saved = destination stored
         | Null \<Rightarrow> False
         | Value t \<Rightarrow> destination saved = trim t) \<and>
        (case input_startDate g of
           Absent \<Rightarrow> startDate saved = startDate stored
         | Null \<Rightarrow> startDate saved = 0
         | Value s \<Rightarrow> newDate E s = Some (startDate saved)) \<and>
        (case input_endDate g of
           Absent \<Rightarrow> endDate saved = endDate stored
         | Null \<Rightarrow> endDate saved = 0
         | Value s \<Rightarrow> newDate E s = Some (endDate saved)) \<and>
        activities saved =
          (case input_activities g of
             Absent \<Rightarrow> activities stored | Null \<Rightarrow> None | Value xs \<Rightarrow> Some xs) \<and>
        (\<forall>j. j \<noteq> i \<longrightarrow> findById (itineraries S'') j = findById (itineraries S) j)"
proof -
  from assms obtain i stored saved docs where i: "objectId E (arg_id g) = Some i"
    and stored: "findById (itineraries S) i = Some stored"
    and sv: "save_loaded (g_clock g) (itineraries S) (gql_assign E g (hydrate stored)) = Inr (saved, docs)"
    and docs: "S'' = S\<lparr>itineraries := docs\<rparr>"
    by (rule Mutation_updateItinerary_Inr)
  let ?d = "gql_assign E g (hydrate stored)"
  have did: "d_id ?d = i"
    using findById_id [OF stored] by (simp add: gql_assign_fields)
  from stored did have "findById (itineraries S) (d_id ?d) = Some stored" by simp
  from save_loaded_findById [OF sv this] did docs
  have saved: "findById (itineraries S'') i = Some saved"
    and others: "\<forall>j. j \<noteq> i \<longrightarrow> findById (itineraries S'') j = findById (itineraries S) j"
    by simp_all
  note f = save_loaded_fields [OF sv, unfolded gql_assign_fields]
  have ids: "doc_id saved = doc_id stored" "userId saved = userId stored"
    "shareableId saved = shareableId stored" "createdAt saved = createdAt stored"
    using f(1,2,8,9) by simp_all
  have t: "(case input_title g of
           Absent \<Rightarrow> title saved = title stored
         | Null \<Rightarrow> False
         | Value t \<Rightarrow> title saved = trim t)"
    using f(3) by (cases "input_title g") auto
  have de: "(case input_destination g of
           Absent \<Rightarrow> destination saved = destination stored
         | Null \<Rightarrow> False
         | Value t \<Rightarrow> destination saved = trim t)"
    using f(4) by (cases "input_destination g") auto
  have sd: "(case input_startDate g of
           Absent \<Rightarrow> startDate saved = startDate stored
         | Null \<Rightarrow> startDate saved = 0
         | Value s \<Rightarrow> newDate E s = Some (startDate saved))"
    using f(5) by (cases "input_startDate g") (auto split: option.splits)
  have ed: "(case input_endDate g of
           Absent \<Rightarrow> endDate saved = endDate stored
         | Null \<Rightarrow> endDate saved = 0
         | Value s \<Rightarrow> newDate E s = Some (endDate saved))"
    using f(6) by (cases "input_endDate g") (auto split: option.splits)
  have ac: "activities saved =
          (case input_activities g of
             Absent \<Rightarrow> activities stored | Null \<Rightarrow> None | Value xs \<Rightarrow> Some xs)"
    using f(7) by simp
  show ?thesis
    by (intro exI conjI) (rule i stored saved ids t de sd ed ac others)+
qed

lemmas update_input_defs =
  update_title_def update_empty_title_def update_title_mutation_def paris_updated_def
  state_updated_def

lemmas update_run_defs =
  updateItinerary_def Mutation_updateItinerary_def as_user_def getUserFromRequest_def
  findById_def save_loaded_def validated_def validate_def hydrate_def rest_assign_def
  gql_assign_def set_new_Date_def shareableId_taken_def reply_def json_message_def trim_def
  is_space_def cache_defs itinerary_json_def toObject_def




section \<open>REST and GraphQL compared\<close>

lemma same_caller_auth:
  assumes "same_caller E S req g"
  obtains uid where "getUserFromRequest E g = Some uid" "uid \<noteq> []" "objectId E uid = Some uid"
    "authenticate E S req = Inr (req\<lparr>req_userId := uid\<rparr>)"
    "g_clock g = clock req" "g_uuidv4 g = uuidv4 req" "g_new_ObjectId g = new_ObjectId req"
proof -
  from assms obtain uid where uid: "getUserFromRequest E g = Some uid" "uid \<noteq> []"
      "objectId E uid = Some uid" "User_findById (users S) uid \<noteq> None"
    and hdr: "g_authorization g = authorization req"
    and a: "g_clock g = clock req" "g_uuidv4 g = uuidv4 req"
      "g_new_ObjectId g = new_ObjectId req"
    by (auto simp add: same_caller_def split: option.splits)
  from uid(1,4) hdr have auth: "authenticate E S req = Inr (req\<lparr>req_userId := uid\<rparr>)"
    by (auto simp add: getUserFromRequest_def authenticate_def split: option.splits if_splits)
  from uid(1-3) auth a show ?thesis by (rule that)
qed

lemma same_target_auth:
  assumes "same_target E S req g"
  obtains uid where "getUserFromRequest E g = Some uid" "uid \<noteq> []" "objectId E uid = Some uid"
    "authenticate E S req = Inr (req\<lparr>req_userId := uid\<rparr>)"
    "arg_id g = param_id req" "g_clock g = clock req" "g_uuidv4 g = uuidv4 req"
    "g_new_ObjectId g = new_ObjectId req"
proof -
  from assms have c: "same_caller E S req g" and i: "arg_id g = param_id req"
    by (simp_all add: same_target_def)
  from c obtain uid where u: "getUserFromRequest E g = Some uid" "uid \<noteq> []"
      "objectId E uid = Some uid"
    and auth: "authenticate E S req = Inr (req\<lparr>req_userId := uid\<rparr>)"
    and a: "g_clock g = clock req" "g_uuidv4 g = uuidv4 req" "g_new_ObjectId g = new_ObjectId req"
    by (rule same_caller_auth)
  from u auth i a show ?thesis by (rule that)
qed

lemma after_deleteCache:
  "(case deleteCache S k of
      (Pending, S2) \<Rightarrow> (None, S2)
    | (Rejected e, S2) \<Rightarrow> (f e, S2)
    | (Fulfilled u, S2) \<Rightarrow> (r, S2)) =
   (if fst (deleteCache S k) = Pending then None else r, snd (deleteCache S k))"
  using deleteCache_not_rejected [of S k]
  by (cases "deleteCache S k") (auto split: promise.splits)

lemma validated_error: "validated d = Inl e \<Longrightarrow> \<exists>ms. e = ValidationError ms"
  by (auto simp add: validated_def split: if_splits option.splits path.splits)

lemma save_loaded_error:
  assumes "save_loaded now docs d = Inl e"
  shows "rest_error e =
           (case e of ValidationError ms \<Rightarrow> reply 400 (json_message (first_message ms))
            | _ \<Rightarrow> server_error e)"
    and "share_error e = server_error e"
proof -
  from assms have "(\<exists>ms. e = ValidationError ms) \<or> (\<exists>m. e = MongoServerError m)"
    by (auto simp add: save_loaded_def Let_def split: sum.splits if_splits dest: validated_error)
  then show "rest_error e =
           (case e of ValidationError ms \<Rightarrow> reply 400 (json_message (first_message ms))
            | _ \<Rightarrow> server_error e)" and "share_error e = server_error e"
    by (auto simp add: status_message_def status_500_def reply_def json_message_def
        server_error_def)
qed

lemma save_new_error:
  assumes "save_new now docs d = Inl e"
  shows "rest_error e =
           (case e of ValidationError ms \<Rightarrow> reply 400 (json_message (first_message ms))
            | _ \<Rightarrow> server_error e)"
proof -
  from assms have "(\<exists>ms. e = ValidationError ms) \<or> (\<exists>m. e = MongoServerError m)"
    by (auto simp add: save_new_def Let_def split: sum.splits if_splits dest: validated_error)
  then show ?thesis
    by (auto simp add: status_message_def status_500_def reply_def json_message_def
        server_error_def)
qed

lemma guard_replies:
  "reply 400 (json_message ''Invalid itinerary ID format'') =
     rest_error (Error ''Invalid itinerary ID format'')"
  "reply 404 (json_message ''Itinerary not found'') = rest_error (Error ''Itinerary not found'')"
  "reply 403 (json_message ''Access denied'') = rest_error (Error ''Access denied'')"
  by (simp_all add: status_message_def reply_def json_message_def)

text \<open>The handlers behind \<^verbatim>\<open>authenticate\<close>, each against its resolver.\<close>

lemma update_compared:
  assumes "getUserFromRequest E g = Some (req_userId req)" and "req_userId req \<noteq> []"
    and "arg_id g = param_id req" and "g_clock g = clock req"
    and "\<And>d. rest_assign E req d = gql_assign E g d"
  shows "updateItinerary E S req =
     (case Mutation_updateItinerary E S g of
        (Inr v, S1) \<Rightarrow>
          (if fst (deleteCache S1 (''itinerary:'' @ param_id req)) = Pending then None
           else Some \<lparr>status = 200,
                      body = JObj [(''message'', JStr ''Itinerary updated successfully''),
                                   (''itinerary'', v)]\<rparr>,
           snd (deleteCache S1 (''itinerary:'' @ param_id req)))
      | (Inl e, S1) \<Rightarrow> (rest_error e, S1))"
proof -
  have saved: "(case save_loaded now docs d of
                  Inl (ValidationError ms) \<Rightarrow> (reply 400 (json_message (first_message ms)), S)
                | Inl e \<Rightarrow> (server_error e, S)
                | Inr (saved, docs') \<Rightarrow> f saved docs') =
               (case save_loaded now docs d of
                  Inl e \<Rightarrow> (rest_error e, S)
                | Inr (saved, docs') \<Rightarrow> f saved docs')" for now docs d f
    by (cases "save_loaded now docs d") (auto simp add: save_loaded_error(1) split: js_error.splits)
  show ?thesis
    by (simp add: updateItinerary_def Mutation_updateItinerary_def as_user_def assms(1-4)
        assms(5) [symmetric] itinerary_json_def after_deleteCache saved guard_replies
        split: option.split sum.split)
      (simp add: reply_def)
qed

lemma delete_compared:
  assumes "getUserFromRequest E g = Some (req_userId req)" and "req_userId req \<noteq> []"
    and "arg_id g = param_id req"
  shows "deleteItinerary E S req =
     (case Mutation_deleteItinerary E S g of
        (Inr v, S1) \<Rightarrow>
          (if fst (deleteCache S1 (''itinerary:'' @ param_id req)) = Pending then None
           else Some \<lparr>status = 200,
                      body = JObj [(''message'', JStr ''Itinerary deleted successfully'')]\<rparr>,
           snd (deleteCache S1 (''itinerary:'' @ param_id req)))
      | (Inl e, S1) \<Rightarrow> (rest_error e, S1))"
  by (simp add: deleteItinerary_def Mutation_deleteItinerary_def as_user_def assms
      after_deleteCache guard_replies split: option.split)
    (simp add: reply_def json_message_def)

lemma create_compared:
  assumes "getUserFromRequest E g = Some (req_userId req)" and "req_userId req \<noteq> []"
    and "objectId E (req_userId req) = Some (req_userId req)"
    and "g_clock g = clock req" and "g_new_ObjectId g = new_ObjectId req"
    and t: "same_required (body_title req) (input_title g)"
    and de: "same_required (body_destination req) (input_destination g)"
    and sd: "same_required_date E (body_startDate req) (input_startDate g)"
    and ed: "same_required_date E (body_endDate req) (input_endDate g)"
    and ac: "or_empty (body_activities req) = or_empty (input_activities g)"
  shows "createItinerary E S req =
     (case Mutation_createItinerary E S g of
        (Inr v, S1) \<Rightarrow>
          (Some \<lparr>status = 201,
                 body = JObj [(''message'', JStr ''Itinerary created successfully''),
                              (''itinerary'', v)]\<rparr>, S1)
      | (Inl e, S1) \<Rightarrow> (rest_error e, S1))"
proof -
  from t obtain tv where tv: "body_title req = Value tv" "input_title g = Value tv"
    by (cases "body_title req"; cases "input_title g") simp_all
  from de obtain dv where dv: "body_destination req = Value dv" "input_destination g = Value dv"
    by (cases "body_destination req"; cases "input_destination g") simp_all
  from sd obtain sv where sv: "body_startDate req = Value sv" "input_startDate g = Value sv"
      "sv \<noteq> []" "castDate E sv = newDate E sv"
    by (cases "body_startDate req"; cases "input_startDate g") simp_all
  from ed obtain ev where ev: "body_endDate req = Value ev" "input_endDate g = Value ev"
      "ev \<noteq> []" "castDate E ev = newDate E ev"
    by (cases "body_endDate req"; cases "input_endDate g") simp_all
  have saved: "(case save_new now docs d of
                  Inl (ValidationError ms) \<Rightarrow> (reply 400 (json_message (first_message ms)), S)
                | Inl e \<Rightarrow> (server_error e, S)
                | Inr (saved, docs') \<Rightarrow> f saved docs') =
               (case save_new now docs d of
                  Inl e \<Rightarrow> (rest_error e, S)
                | Inr (saved, docs') \<Rightarrow> f saved docs')" for now docs d f
    by (cases "save_new now docs d") (auto simp add: save_new_error split: js_error.splits)
  show ?thesis
    by (simp add: createItinerary_def Mutation_createItinerary_def as_user_def assms(1-5) tv dv
        sv ev ac set_new_Date_def itinerary_json_def Let_def saved reply_def split: sum.split)
qed

lemma share_compared:
  assumes "getUserFromRequest E g = Some (req_userId req)" and "req_userId req \<noteq> []"
    and "arg_id g = param_id req" and "g_clock g = clock req" and "g_uuidv4 g = uuidv4 req"
  shows "snd (generateShareableLink E S req) = snd (Mutation_generateShareableLink E S g) \<and>
         (case fst (Mutation_generateShareableLink E S g) of
            Inl e \<Rightarrow> fst (generateShareableLink E S req) = share_error e
          | Inr v \<Rightarrow>
              (\<exists>t. v = JStr ((case BASE_URL E of
                                None \<Rightarrow> ''http://localhost:5000''
                              | Some b \<Rightarrow> if b = [] then ''http://localhost:5000'' else b) @
                             ''/api/itineraries/share/'' @ t) \<and>
                   fst (generateShareableLink E S req) =
                     Some \<lparr>status = 200,
                           body = JObj [(''message'', JStr ''Shareable link generated''),
                                        (''shareableUrl'',
                                         JStr (protocol req @ ''://'' @ host req @
                                               ''/api/itineraries/share/'' @ t)),
                                        (''shareableId'', JStr t)]\<rparr>))"
proof (cases "objectId E (param_id req)")
  case None
  with assms show ?thesis
    by (simp add: generateShareableLink_def Mutation_generateShareableLink_def as_user_def
        guard_replies)
next
  case (Some i)
  note i = this
  show ?thesis
  proof (cases "findById (itineraries S) i")
    case None
    with assms i show ?thesis
      by (simp add: generateShareableLink_def Mutation_generateShareableLink_def as_user_def
          guard_replies)
  next
    case (Some stored)
    note stored = this
    show ?thesis
    proof (cases "userId stored = req_userId req")
      case False
      with assms i stored show ?thesis
        by (simp add: generateShareableLink_def Mutation_generateShareableLink_def as_user_def
            guard_replies)
    next
      case True
      note own = this
      show ?thesis
      proof (cases "no_shareableId (shareableId stored)")
        case False
        then obtain tok where tok: "shareableId stored = Some tok" "tok \<noteq> []"
          by (cases "shareableId stored") auto
        with assms i stored own show ?thesis
          by (simp add: generateShareableLink_def Mutation_generateShareableLink_def as_user_def
              share_reply share_url_def)
      next
        case True
        note fresh = this
        let ?d = "(hydrate stored)\<lparr>d_shareableId := Some (uuidv4 req)\<rparr>"
        show ?thesis
        proof (cases "save_loaded (clock req) (itineraries S) ?d")
          case (Inl e)
          with assms i stored own fresh save_loaded_error(2) [OF Inl] show ?thesis
            by (simp add: generateShareableLink_def Mutation_generateShareableLink_def
                as_user_def)
        next
          case (Inr p)
          then obtain saved docs where
            sv: "save_loaded (clock req) (itineraries S) ?d = Inr (saved, docs)"
            by (cases p) auto
          from save_loaded_fields(8) [OF sv]
          have "shareableId saved = Some (uuidv4 req)" by simp
          with assms i stored own fresh sv show ?thesis
            by (simp add: generateShareableLink_def Mutation_generateShareableLink_def
                as_user_def share_reply share_url_def)
        qed
      qed
    qed
  qed
qed

text \<open>A cache backend in reach settles every operation, and only the console can tell the
  state after a read from the state before it.\<close>

lemma backend_console [simp]: "backend (S\<lparr>console := c\<rparr>) = backend S"
  by (simp add: backend_def)

lemma cached_value_console [simp]: "cached_value (S\<lparr>console := c\<rparr>) k = cached_value S k"
  by (simp add: cached_value_def split: option.split)

lemma getCache_settled:
  assumes "backend S \<noteq> Offline"
  obtains c where
    "getCache S k =
       (Fulfilled (case backend S of Ready \<Rightarrow> cached_value S k | _ \<Rightarrow> JNull),
        S\<lparr>console := c\<rparr>)"
proof (cases "backend S")
  case Ready
  from getCache_ready [OF this, of k] Ready
  have "getCache S k =
       (Fulfilled (case backend S of Ready \<Rightarrow> cached_value S k | _ \<Rightarrow> JNull),
        S\<lparr>console := console S\<rparr>)"
    by simp
  then show ?thesis by (rule that)
next
  case (Rejecting e)
  from cache_rejecting(1) [OF this, of k] Rejecting show ?thesis by (auto intro: that)
next
  case Offline
  with assms show ?thesis by simp
qed

lemma setCache_settled:
  assumes "backend S \<noteq> Offline"
  shows "fst (setCache S k v n) = Fulfilled ()"
  using assms cache_settles_iff(2) [of S k v n] setCache_not_rejected [of S k v n]
  by (cases "fst (setCache S k v n)") auto

lemma Query_itinerary_state: "snd (Query_itinerary E S g) = S"
  by (auto simp add: Query_itinerary_def as_user_def split: option.splits)

lemma Query_itinerary_console [simp]:
  "fst (Query_itinerary E (S\<lparr>console := c\<rparr>) g) = fst (Query_itinerary E S g)"
  by (auto simp add: Query_itinerary_def as_user_def split: option.splits)

lemma getItineraryById_miss:
  assumes "getUserFromRequest E g = Some (req_userId req)" and "req_userId req \<noteq> []"
    and "arg_id g = param_id req" and "backend S \<noteq> Offline"
    and "backend S = Ready \<Longrightarrow> \<not> truthy (cached_value S (''itinerary:'' @ param_id req))"
  shows "fst (getItineraryById E S req) =
           (case fst (Query_itinerary E S g) of
              Inr x \<Rightarrow> Some \<lparr>status = 200, body = JObj [(''itinerary'', x)]\<rparr>
            | Inl e \<Rightarrow> rest_error e)"
    and "itineraries (snd (getItineraryById E S req)) = itineraries S"
    and "fst (getItineraryById E S req) \<noteq> None"
proof -
  let ?k = "''itinerary:'' @ param_id req"
  from assms(4) obtain c where
    g: "getCache S ?k =
       (Fulfilled (case backend S of Ready \<Rightarrow> cached_value S ?k | _ \<Rightarrow> JNull), S\<lparr>console := c\<rparr>)"
    by (rule getCache_settled)
  from assms(5) have miss: "\<not> truthy (case backend S of Ready \<Rightarrow> cached_value S ?k | _ \<Rightarrow> JNull)"
    by (cases "backend S") simp_all
  have set: "(case setCache (S\<lparr>console := c\<rparr>) ?k v n of
                (Pending, S2) \<Rightarrow> (None, S2)
              | (Rejected e, S2) \<Rightarrow> (server_error e, S2)
              | (Fulfilled u, S2) \<Rightarrow> (r, S2)) =
             (r, snd (setCache (S\<lparr>console := c\<rparr>) ?k v n))" for v n r
    using setCache_settled [of "S\<lparr>console := c\<rparr>" ?k v n] assms(4)
    by (cases "setCache (S\<lparr>console := c\<rparr>) ?k v n") auto
  show "fst (getItineraryById E S req) =
           (case fst (Query_itinerary E S g) of
              Inr x \<Rightarrow> Some \<lparr>status = 200, body = JObj [(''itinerary'', x)]\<rparr>
            | Inl e \<Rightarrow> rest_error e)"
    using miss
    by (simp add: getItineraryById_def Query_itinerary_def as_user_def assms(1-3) g set
        guard_replies itinerary_json_def Let_def del: append.simps split: option.split)
      (simp add: reply_def)
  show "itineraries (snd (getItineraryById E S req)) = itineraries S"
    using miss
    by (simp add: getItineraryById_def g set Let_def del: append.simps split: option.split)
  show "fst (getItineraryById E S req) \<noteq> None"
    using miss
    by (simp add: getItineraryById_def g set reply_def Let_def del: append.simps
        split: option.split)
qed

text \<open>The same through the response cache of the route.\<close>

lemma cacheMiddleware_miss:
  assumes "backend S \<noteq> Offline"
    and "backend S = Ready \<Longrightarrow> \<not> truthy (cached_value S (''cache:'' @ originalUrl req))"
    and "\<And>c. fst (next (S\<lparr>console := c\<rparr>) req) = a"
    and "\<And>c. itineraries (snd (next (S\<lparr>console := c\<rparr>) req)) = itineraries S"
  shows "fst (cacheMiddleware n next S req) = a"
    and "itineraries (snd (cacheMiddleware n next S req)) = itineraries S"
proof -
  let ?k = "''cache:'' @ originalUrl req"
  from assms(1) obtain c where
    g: "getCache S ?k =
       (Fulfilled (case backend S of Ready \<Rightarrow> cached_value S ?k | _ \<Rightarrow> JNull), S\<lparr>console := c\<rparr>)"
    by (rule getCache_settled)
  from assms(2) have miss: "\<not> truthy (case backend S of Ready \<Rightarrow> cached_value S ?k | _ \<Rightarrow> JNull)"
    by (cases "backend S") simp_all
  have same: "S\<lparr>console := console S\<rparr> = S" by simp
  from assms(3) [of "console S"] have a0: "fst (next S req) = a" by (simp only: same)
  from assms(4) [of "console S"] have i0: "itineraries (snd (next S req)) = itineraries S"
    by (simp only: same)
  obtain r T where nx: "next (S\<lparr>console := c\<rparr>) req = (r, T)"
    by (cases "next (S\<lparr>console := c\<rparr>) req")
  with assms(3) [of c] assms(4) [of c] have r: "r = a" and T: "itineraries T = itineraries S"
    by simp_all
  show "fst (cacheMiddleware n next S req) = a"
    unfolding cacheMiddleware_def Let_def g using miss a0 r
    by (cases a) (simp_all add: nx)
  show "itineraries (snd (cacheMiddleware n next S req)) = itineraries S"
    unfolding cacheMiddleware_def Let_def g using miss i0 T
    by (cases r) (simp_all add: nx)
qed

lemma serialize_Int_Inr: "serialize_Int x = Inr j \<Longrightarrow> j = json_num x"
  by (cases x) (auto split: if_splits)

lemma serialize_Int_Inl: "serialize_Int x = Inl e \<Longrightarrow> e \<in> set Int_errors"
  by (cases x) (auto simp add: Int_errors_def split: if_splits)

lemma list_compared:
  assumes "getUserFromRequest E g = Some (req_userId req)" and "req_userId req \<noteq> []"
    and "objectId E (req_userId req) = Some (req_userId req)"
    and "destination_pattern (q_destination req) = Inr (truthy_pattern (arg_destination g))"
    and "parseInt_or E 1 (q_page req) = Inr (int_arg 1 (arg_page g))"
    and "parseInt_or E 10 (q_limit req) = Inr (int_arg 10 (arg_limit g))"
    and "arg_sort g \<noteq> Null"
    and "sort_string (q_sort req) = Inr (case arg_sort g of Value s \<Rightarrow> s | _ \<Rightarrow> ''createdAt'')"
  shows "snd (getItineraries E S req) = S \<and> snd (Query_itineraries E S g) = S \<and>
    (case fst (Query_itineraries E S g) of
       Inr v \<Rightarrow>
         (\<exists>items n pg pgs.
            v = JObj [(''itineraries'', items), (''total'', n), (''page'', pg), (''pages'', pgs)] \<and>
            fst (getItineraries E S req) =
              Some \<lparr>status = 200,
                    body = JObj [(''itineraries'', items),
                                 (''pagination'',
                                  JObj [(''page'', pg),
                                        (''limit'', json_num (int_arg 10 (arg_limit g))),
                                        (''total'', n), (''pages'', pgs)])]\<rparr>)
     | Inl e \<Rightarrow>
         fst (getItineraries E S req) = status_500 e \<or>
         (e \<in> set Int_errors \<and>
          (\<exists>res. fst (getItineraries E S req) = Some res \<and> status res = 200)))"
  using assms
  by (auto simp add: Query_itineraries_def getItineraries_def as_user_def Let_def
      status_500_def server_error_def reply_def
      dest!: serialize_Int_Inr serialize_Int_Inl split: field.splits option.splits sum.splits)

lemma unauthenticated:
  assumes "g_authorization g = authorization req" and "getUserFromRequest E g = None"
  shows "\<exists>m. authenticate E S req =
              Inl (Some \<lparr>status = 401, body = JObj [(''message'', JStr m)]\<rparr>)"
    and "as_user E g S f = (Inl (Error ''Authentication required''), S)"
  using assms
  by (auto simp add: getUserFromRequest_def authenticate_def as_user_def reply_def
      json_message_def split: option.splits if_splits)

lemma same_update_assign:
  assumes "same_update E S req g"
  shows "rest_assign E (req\<lparr>req_userId := uid\<rparr>) d = gql_assign E g d"
proof -
  from assms have t: "same_string (body_title req) (input_title g)"
    and de: "same_string (body_destination req) (input_destination g)"
    and sd: "same_date E (body_startDate req) (input_startDate g)"
    and ed: "same_date E (body_endDate req) (input_endDate g)"
    and ac: "same_array (body_activities req) (input_activities g)"
    by (simp_all add: same_update_def)
  from t have t': "(if truthy_string (body_title req) then d'\<lparr>d_title := set_string (body_title req)\<rparr> else d') =
      (if input_title g \<noteq> Absent then d'\<lparr>d_title := set_string (input_title g)\<rparr> else d')" for d'
    by (cases "body_title req"; cases "input_title g") simp_all
  from de have de': "(if truthy_string (body_destination req) then d'\<lparr>d_destination := set_string (body_destination req)\<rparr> else d') =
      (if input_destination g \<noteq> Absent then d'\<lparr>d_destination := set_string (input_destination g)\<rparr> else d')" for d'
    by (cases "body_destination req"; cases "input_destination g") simp_all
  from sd have sd': "(if truthy_string (body_startDate req) then d'\<lparr>d_startDate := set_date E (body_startDate req)\<rparr> else d') =
      (if input_startDate g \<noteq> Absent then d'\<lparr>d_startDate := gql_date E (input_startDate g)\<rparr> else d')" for d'
    by (cases "body_startDate req"; cases "input_startDate g") (simp_all add: set_new_Date_def)
  from ed have ed': "(if truthy_string (body_endDate req) then d'\<lparr>d_endDate := set_date E (body_endDate req)\<rparr> else d') =
      (if input_endDate g \<noteq> Absent then d'\<lparr>d_endDate := gql_date E (input_endDate g)\<rparr> else d')" for d'
    by (cases "body_endDate req"; cases "input_endDate g") (simp_all add: set_new_Date_def)
  from ac have ac': "(if truthy_array (body_activities req) then d'\<lparr>d_activities := Some (or_empty (body_activities req))\<rparr> else d') =
      (if input_activities g \<noteq> Absent then d'\<lparr>d_activities := set_array (input_activities g)\<rparr> else d')" for d'
    by (cases "body_activities req"; cases "input_activities g") simp_all
  have "rest_assign E (req\<lparr>req_userId := uid\<rparr>) d = rest_assign E req d"
    by (simp add: rest_assign_def)
  also have "\<dots> = gql_assign E g d"
    unfolding rest_assign_def gql_assign_def Let_def t' de' sd' ed' ac' ..
  finally show ?thesis .
qed

text \<open>A route is its handler behind \<^verbatim>\<open>authenticate\<close>.\<close>

lemma protected_accepted:
  "authenticate E S req = Inr req' \<Longrightarrow> protected E handler S req = handler S req'"
  by (simp add: protected_def)

lemma protected_refused:
  "authenticate E S req = Inl a \<Longrightarrow> protected E handler S req = (a, S)"
  by (simp add: protected_def)

lemmas compared_input_defs =
  create_lyon_def create_lyon_mutation_def paris_query_def state_no_users_def
  update_empty_title_mutation_def update_null_activities_def
  update_null_activities_mutation_def update_start_millis_def
  update_start_millis_mutation_def list_limit_zero_query_def paris_query_of_bob_def
  list_unfiltered_def list_sort_null_query_def create_empty_start_def
  create_empty_start_mutation_def




end
